theory Spec2Isabelle
  imports Complex_Main "HOL-Library.AList"
begin

section \<open>Python values, errors and dictionaries\<close>

text \<open>
  The values the scenario code handles: what \<^verbatim>\<open>json.load\<close> returns (None, booleans,
  numbers, strings, objects keyed by strings) and the members of the three enum classes of
  \<^verbatim>\<open>model_to_flex.core.enums\<close>. A Python \<^verbatim>\<open>float\<close> is a \<open>real\<close> here: the
  scenario code only stores and copies these numbers.
  An enum member is \<open>PEnum c v\<close>: the class name \<open>c\<close> and the member's \<^verbatim>\<open>.value\<close>;
  two members of one class with the same value are the same object in Python.
\<close>

datatype pyval =
    PNone
  | PBool bool
  | PInt int
  | PFloat real
  | PStr string
  | PEnum string string
  | PDict "(string \<times> pyval) list"

datatype error =
    KeyError string
  | TypeError
  | ValueError
  | AttributeError
  | NameError string
  | OSError
  | JSONDecodeError
  | DuplicateNameError
  | NotFoundError
  | UnboundPortError
  | MultipleWriterError
  | UnknownPortError
  | ShapeError
  | NonStrKey

type_synonym pydict = "(string \<times> pyval) list"

text \<open>
  A \<^verbatim>\<open>dict\<close> is an association list in insertion order with distinct keys:
  \<^verbatim>\<open>d[k] = v\<close> keeps the position of a key that is present and appends a new one
  (\<open>AList.update\<close>), \<^verbatim>\<open>del d[k]\<close> is \<open>AList.delete\<close>.
\<close>

definition dict_contains :: "('k \<times> 'v) list \<Rightarrow> 'k \<Rightarrow> bool" where
  "dict_contains d k = (k \<in> set (map fst d))"

definition dict_pop :: "('k \<times> 'v) list \<Rightarrow> 'k \<Rightarrow> 'v \<Rightarrow> 'v \<times> ('k \<times> 'v) list" where
  "dict_pop d k dflt = (case map_of d k of None \<Rightarrow> (dflt, d) | Some v \<Rightarrow> (v, AList.delete k d))"

definition dict_update :: "('k \<times> 'v) list \<Rightarrow> ('k \<times> 'v) list \<Rightarrow> ('k \<times> 'v) list" where
  "dict_update d e = fold (\<lambda>(k, v). AList.update k v) e d"

text \<open>Python truthiness, as \<^verbatim>\<open>if equipment_params:\<close> tests it.\<close>

fun truthy :: "pyval \<Rightarrow> bool" where
  "truthy PNone = False"
| "truthy (PBool b) = b"
| "truthy (PInt i) = (i \<noteq> 0)"
| "truthy (PFloat r) = (r \<noteq> 0)"
| "truthy (PStr s) = (s \<noteq> [])"
| "truthy (PEnum c v) = True"
| "truthy (PDict d) = (d \<noteq> [])"

section \<open>The enum classes\<close>

text \<open>
  \<^verbatim>\<open>BuilderType\<close>, \<^verbatim>\<open>SolverType\<close> and \<^verbatim>\<open>DispatchType\<close> are imported from
  \<^verbatim>\<open>model_to_flex.core.enums\<close>, which is not part of this repository. They are a
  parameter: the string values of the members of each class, and the values of the three
  members the dataclass names as defaults.
\<close>

record enums =
  BuilderType_values :: "string list"
  SolverType_values :: "string list"
  DispatchType_values :: "string list"
  PYOMO :: string
  CBC :: string
  MONTHLY :: string

text \<open>
  Calling an enum class, \<^verbatim>\<open>BuilderType(x)\<close>: a member of the class is returned as it
  is, the value of a member gives that member, anything else raises ValueError.
\<close>

definition enum_call :: "string \<Rightarrow> string list \<Rightarrow> pyval \<Rightarrow> error + pyval" where
  "enum_call cls members x =
     (case x of
        PStr s \<Rightarrow> if s \<in> set members then Inr (PEnum cls s) else Inl ValueError
      | PEnum c s \<Rightarrow> if c = cls \<and> s \<in> set members then Inr x else Inl ValueError
      | _ \<Rightarrow> Inl ValueError)"

text \<open>The attribute \<^verbatim>\<open>.value\<close>: only enum members have it among these values.\<close>

definition attr_value :: "pyval \<Rightarrow> error + pyval" where
  "attr_value x = (case x of PEnum c s \<Rightarrow> Inr (PStr s) | _ \<Rightarrow> Inl AttributeError)"

section \<open>Scenario\<close>

text \<open>
  The dataclass of \<^verbatim>\<open>simulation/scenarios.py\<close>. Python does not check the annotations
  (the repository itself passes \<^verbatim>\<open>0\<close> for a float field and \<^verbatim>\<open>1.0\<close> for an int
  field, and \<^verbatim>\<open>update_scenario\<close> sets any attribute with \<^verbatim>\<open>setattr\<close>), so each
  field holds a \<open>pyval\<close>. \<open>extra_attrs\<close> holds the attributes that \<^verbatim>\<open>setattr\<close> added
  under a name that is not a field.
\<close>

record Scenario =
  name :: pyval
  description :: pyval
  price_starttime :: pyval
  demand_starttime :: pyval
  length_field :: pyval
  gas_turbine_minload_electricity_capacity :: pyval
  gas_turbine_maxload_electricity_capacity :: pyval
  gas_turbine_minload_electricity_efficiency :: pyval
  gas_turbine_maxload_electricity_efficiency :: pyval
  gas_turbine_minload_heat_efficiency :: pyval
  gas_turbine_maxload_heat_efficiency :: pyval
  gas_boiler_efficiency :: pyval
  gas_boiler_capacity :: pyval
  e_boiler_efficiency :: pyval
  e_boiler_capacity :: pyval
  hrsg_efficiency :: pyval
  hrsg_capacity :: pyval
  elec_offtake_contract_param_a :: pyval
  elec_offtake_contract_param_b :: pyval
  elec_injection_contract_param_a :: pyval
  elec_injection_contract_param_b :: pyval
  elec_grid_cost_energy :: pyval
  elec_grid_cost_power_peak :: pyval
  elec_grid_cost_power_fixed :: pyval
  elec_grid_cost_max_tariff :: pyval
  elec_offtake_tax_energy :: pyval
  gas_offtake_contract_param_a :: pyval
  gas_offtake_contract_param_b :: pyval
  gas_grid_cost_energy :: pyval
  freq :: pyval
  optimizer_type :: pyval
  builder_type :: pyval
  solver :: pyval
  dispatch_type :: pyval
  pred_hor :: pyval
  contr_hor :: pyval
  created_at :: pyval
  results_path :: pyval
  extra_attrs :: pydict

text \<open>The fields without a default, in the order of the class body.\<close>

definition required_fields :: "string list" where
  "required_fields =
    [''name'', ''description'', ''price_starttime'', ''demand_starttime'', ''length'',
     ''gas_turbine_minload_electricity_capacity'', ''gas_turbine_maxload_electricity_capacity'',
     ''gas_turbine_minload_electricity_efficiency'', ''gas_turbine_maxload_electricity_efficiency'',
     ''gas_turbine_minload_heat_efficiency'', ''gas_turbine_maxload_heat_efficiency'',
     ''gas_boiler_efficiency'', ''gas_boiler_capacity'', ''e_boiler_efficiency'',
     ''e_boiler_capacity'', ''hrsg_efficiency'', ''hrsg_capacity'',
     ''elec_offtake_contract_param_a'', ''elec_offtake_contract_param_b'',
     ''elec_injection_contract_param_a'', ''elec_injection_contract_param_b'',
     ''elec_grid_cost_energy'', ''elec_grid_cost_power_peak'', ''elec_grid_cost_power_fixed'',
     ''elec_grid_cost_max_tariff'', ''elec_offtake_tax_energy'',
     ''gas_offtake_contract_param_a'', ''gas_offtake_contract_param_b'',
     ''gas_grid_cost_energy'']"

definition optional_fields :: "string list" where
  "optional_fields =
    [''freq'', ''optimizer_type'', ''builder_type'', ''solver'', ''dispatch_type'',
     ''pred_hor'', ''contr_hor'', ''created_at'', ''results_path'']"

definition arg :: "pydict \<Rightarrow> string \<Rightarrow> pyval \<Rightarrow> pyval" where
  "arg kw k dflt = (case map_of kw k of None \<Rightarrow> dflt | Some v \<Rightarrow> v)"

text \<open>
  The generated \<^verbatim>\<open>__init__\<close> called with keyword arguments only, followed by
  \<^verbatim>\<open>__post_init__\<close>. \<open>kw\<close> is the concatenation of the dictionaries unpacked with
  \<^verbatim>\<open>**\<close>: a keyword given twice, a keyword that is not a field and a missing required
  field each raise TypeError. \<open>now\<close> is what
  \<^verbatim>\<open>datetime.now().strftime("%Y-%m-%d %H:%M:%S")\<close> returns at the call.
\<close>

definition Scenario_init :: "enums \<Rightarrow> string \<Rightarrow> pydict \<Rightarrow> error + Scenario" where
  "Scenario_init E now kw =
     (if \<not> distinct (map fst kw) then Inl TypeError
      else if \<not> set (map fst kw) \<subseteq> set (required_fields @ optional_fields) then Inl TypeError
      else if \<not> set required_fields \<subseteq> set (map fst kw) then Inl TypeError
      else Inr \<lparr>
        name = arg kw ''name'' PNone,
        description = arg kw ''description'' PNone,
        price_starttime = arg kw ''price_starttime'' PNone,
        demand_starttime = arg kw ''demand_starttime'' PNone,
        length_field = arg kw ''length'' PNone,
        gas_turbine_minload_electricity_capacity =
          arg kw ''gas_turbine_minload_electricity_capacity'' PNone,
        gas_turbine_maxload_electricity_capacity =
          arg kw ''gas_turbine_maxload_electricity_capacity'' PNone,
        gas_turbine_minload_electricity_efficiency =
          arg kw ''gas_turbine_minload_electricity_efficiency'' PNone,
        gas_turbine_maxload_electricity_efficiency =
          arg kw ''gas_turbine_maxload_electricity_efficiency'' PNone,
        gas_turbine_minload_heat_efficiency = arg kw ''gas_turbine_minload_heat_efficiency'' PNone,
        gas_turbine_maxload_heat_efficiency = arg kw ''gas_turbine_maxload_heat_efficiency'' PNone,
        gas_boiler_efficiency = arg kw ''gas_boiler_efficiency'' PNone,
        gas_boiler_capacity = arg kw ''gas_boiler_capacity'' PNone,
        e_boiler_efficiency = arg kw ''e_boiler_efficiency'' PNone,
        e_boiler_capacity = arg kw ''e_boiler_capacity'' PNone,
        hrsg_efficiency = arg kw ''hrsg_efficiency'' PNone,
        hrsg_capacity = arg kw ''hrsg_capacity'' PNone,
        elec_offtake_contract_param_a = arg kw ''elec_offtake_contract_param_a'' PNone,
        elec_offtake_contract_param_b = arg kw ''elec_offtake_contract_param_b'' PNone,
        elec_injection_contract_param_a = arg kw ''elec_injection_contract_param_a'' PNone,
        elec_injection_contract_param_b = arg kw ''elec_injection_contract_param_b'' PNone,
        elec_grid_cost_energy = arg kw ''elec_grid_cost_energy'' PNone,
        elec_grid_cost_power_peak = arg kw ''elec_grid_cost_power_peak'' PNone,
        elec_grid_cost_power_fixed = arg kw ''elec_grid_cost_power_fixed'' PNone,
        elec_grid_cost_max_tariff = arg kw ''elec_grid_cost_max_tariff'' PNone,
        elec_offtake_tax_energy = arg kw ''elec_offtake_tax_energy'' PNone,
        gas_offtake_contract_param_a = arg kw ''gas_offtake_contract_param_a'' PNone,
        gas_offtake_contract_param_b = arg kw ''gas_offtake_contract_param_b'' PNone,
        gas_grid_cost_energy = arg kw ''gas_grid_cost_energy'' PNone,
        freq = arg kw ''freq'' (PStr ''h''),
        optimizer_type = arg kw ''optimizer_type'' (PStr ''default''),
        builder_type = arg kw ''builder_type'' (PEnum ''BuilderType'' (PYOMO E)),
        solver = arg kw ''solver'' (PEnum ''SolverType'' (CBC E)),
        dispatch_type = arg kw ''dispatch_type'' (PEnum ''DispatchType'' (MONTHLY E)),
        pred_hor = arg kw ''pred_hor'' (PInt (24 * 32)),
        contr_hor = arg kw ''contr_hor'' (PInt (24 * 32)),
        created_at =
          (if arg kw ''created_at'' PNone = PNone then PStr now else arg kw ''created_at'' PNone),
        results_path = arg kw ''results_path'' PNone,
        extra_attrs = [] \<rparr>)"

text \<open>
  \<^verbatim>\<open>Scenario.to_dict\<close>. The three \<^verbatim>\<open>.value\<close> reads raise AttributeError when the
  field does not hold an enum member.
\<close>

definition to_dict :: "Scenario \<Rightarrow> error + pydict" where
  "to_dict self =
     (case attr_value (builder_type self) of Inl e \<Rightarrow> Inl e | Inr bt \<Rightarrow>
     (case attr_value (solver self) of Inl e \<Rightarrow> Inl e | Inr sv \<Rightarrow>
     (case attr_value (dispatch_type self) of Inl e \<Rightarrow> Inl e | Inr dt \<Rightarrow>
      Inr [
        (''name'', name self),
        (''description'', description self),
        (''price_starttime'', price_starttime self),
        (''demand_starttime'', demand_starttime self),
        (''length'', length_field self),
        (''freq'', freq self),
        (''gas_turbine_minload_electricity_capacity'',
           gas_turbine_minload_electricity_capacity self),
        (''gas_turbine_maxload_electricity_capacity'',
           gas_turbine_maxload_electricity_capacity self),
        (''gas_turbine_minload_electricity_efficiency'',
           gas_turbine_minload_electricity_efficiency self),
        (''gas_turbine_maxload_electricity_efficiency'',
           gas_turbine_maxload_electricity_efficiency self),
        (''gas_turbine_minload_heat_efficiency'', gas_turbine_minload_heat_efficiency self),
        (''gas_turbine_maxload_heat_efficiency'', gas_turbine_maxload_heat_efficiency self),
        (''gas_boiler_efficiency'', gas_boiler_efficiency self),
        (''gas_boiler_capacity'', gas_boiler_capacity self),
        (''e_boiler_efficiency'', e_boiler_efficiency self),
        (''e_boiler_capacity'', e_boiler_capacity self),
        (''hrsg_efficiency'', hrsg_efficiency self),
        (''hrsg_capacity'', hrsg_capacity self),
        (''elec_offtake_contract_param_a'', elec_offtake_contract_param_a self),
        (''elec_offtake_contract_param_b'', elec_offtake_contract_param_b self),
        (''elec_injection_contract_param_a'', elec_injection_contract_param_a self),
        (''elec_injection_contract_param_b'', elec_injection_contract_param_b self),
        (''elec_grid_cost_energy'', elec_grid_cost_energy self),
        (''elec_grid_cost_power_peak'', elec_grid_cost_power_peak self),
        (''elec_grid_cost_power_fixed'', elec_grid_cost_power_fixed self),
        (''elec_grid_cost_max_tariff'', elec_grid_cost_max_tariff self),
        (''elec_offtake_tax_energy'', elec_offtake_tax_energy self),
        (''gas_offtake_contract_param_a'', gas_offtake_contract_param_a self),
        (''gas_offtake_contract_param_b'', gas_offtake_contract_param_b self),
        (''gas_grid_cost_energy'', gas_grid_cost_energy self),
        (''dispatch_options'', PDict [
           (''optimizer_type'', optimizer_type self),
           (''builder_type'', bt),
           (''solver'', sv),
           (''dispatch_type'', dt),
           (''pred_hor'', pred_hor self),
           (''contr_hor'', contr_hor self)]),
        (''metadata'', PDict [
           (''created_at'', created_at self),
           (''results_path'', results_path self)])])))"

text \<open>
  The steps of \<^verbatim>\<open>Scenario.from_dict\<close>. \<open>migrate\<close> is
  \<^verbatim>\<open>if equipment_params: data.update(equipment_params)\<close>: updating a dict from a
  non-empty string raises ValueError, from another truthy value that is not a dict
  TypeError.
\<close>

definition migrate :: "pydict \<Rightarrow> pyval \<Rightarrow> error + pydict" where
  "migrate data equipment_params =
     (if truthy equipment_params then
        (case equipment_params of
           PDict e \<Rightarrow> Inr (dict_update data e)
         | PStr s \<Rightarrow> Inl ValueError
         | _ \<Rightarrow> Inl TypeError)
      else Inr data)"

text \<open>
  \<^verbatim>\<open>dispatch_options[k] = cls(dispatch_options[k])\<close>: subscripting a value that is
  not a dict raises TypeError, a missing key KeyError.
\<close>

definition convert_enum :: "string \<Rightarrow> string list \<Rightarrow> string \<Rightarrow> pyval \<Rightarrow> error + pyval" where
  "convert_enum cls members k dispatch_options =
     (case dispatch_options of
        PDict d \<Rightarrow>
          (case map_of d k of
             None \<Rightarrow> Inl (KeyError k)
           | Some v \<Rightarrow>
               (case enum_call cls members v of
                  Inl e \<Rightarrow> Inl e
                | Inr m \<Rightarrow> Inr (PDict (AList.update k m d))))
      | _ \<Rightarrow> Inl TypeError)"

definition defaults :: pydict where
  "defaults =
    [(''elec_offtake_contract_param_a'', PFloat 1),
     (''elec_offtake_contract_param_b'', PFloat 0),
     (''elec_injection_contract_param_a'', PFloat 1),
     (''elec_injection_contract_param_b'', PFloat 0),
     (''elec_grid_cost_energy'', PFloat 0),
     (''elec_grid_cost_power_peak'', PFloat 0),
     (''elec_grid_cost_power_fixed'', PFloat 0),
     (''elec_grid_cost_max_tariff'', PFloat 0),
     (''elec_offtake_tax_energy'', PFloat 0),
     (''gas_offtake_contract_param_a'', PFloat 1),
     (''gas_offtake_contract_param_b'', PFloat 0),
     (''gas_grid_cost_energy'', PFloat 0)]"

text \<open>\<^verbatim>\<open>for key, default_value in defaults.items(): if key not in data: data[key] = default_value\<close>\<close>

definition fill_defaults :: "pydict \<Rightarrow> pydict" where
  "fill_defaults data =
     fold (\<lambda>(key, default_value) d.
             if dict_contains d key then d else AList.update key default_value d)
          defaults data"

definition from_dict :: "enums \<Rightarrow> string \<Rightarrow> pydict \<Rightarrow> error + Scenario" where
  "from_dict E now data0 =
     (let (dispatch_options, data1) = dict_pop data0 ''dispatch_options'' (PDict []);
          (metadata, data2) = dict_pop data1 ''metadata'' (PDict []);
          (equipment_params, data3) = dict_pop data2 ''equipment_params'' (PDict [])
      in (case migrate data3 equipment_params of Inl e \<Rightarrow> Inl e | Inr data4 \<Rightarrow>
         (case convert_enum ''BuilderType'' (BuilderType_values E) ''builder_type''
                dispatch_options of Inl e \<Rightarrow> Inl e | Inr do1 \<Rightarrow>
         (case convert_enum ''SolverType'' (SolverType_values E) ''solver''
                do1 of Inl e \<Rightarrow> Inl e | Inr do2 \<Rightarrow>
         (case convert_enum ''DispatchType'' (DispatchType_values E) ''dispatch_type''
                do2 of Inl e \<Rightarrow> Inl e | Inr do3 \<Rightarrow>
         (case (do3, metadata) of
            (PDict dopts, PDict md) \<Rightarrow> Scenario_init E now (fill_defaults data4 @ dopts @ md)
          | _ \<Rightarrow> Inl TypeError))))))"

section \<open>ScenarioManager\<close>

text \<open>
  What \<^verbatim>\<open>scenarios_file\<close> holds on disk: nothing, the JSON text of an object handed to
  \<^verbatim>\<open>json.dump\<close>, or the remains of a dump that raised after \<^verbatim>\<open>open(..., "w")\<close> had
  truncated the file.
\<close>

datatype file_content = Absent | JsonOf "(string \<times> pydict) list" | Partial

text \<open>
  The manager: its attributes \<open>scenarios_file\<close> and \<open>scenarios\<close>, and the part of the
  file system it touches: the content of \<open>scenarios_file\<close> and whether
  \<^verbatim>\<open>open(scenarios_file, "w")\<close> succeeds. \<open>scenarios\<close> is annotated
  \<^verbatim>\<open>Dict[str, Scenario]\<close>: its keys are strings.
\<close>

record ScenarioManager =
  scenarios_file :: string
  scenarios :: "(string \<times> Scenario) list"
  disk :: file_content
  can_open :: bool

text \<open>What \<^verbatim>\<open>json.dump\<close> accepts: an enum member is not JSON serializable.\<close>

fun json_ok :: "pyval \<Rightarrow> bool" where
  "json_ok (PEnum c v) = False"
| "json_ok (PDict d) = list_all (\<lambda>kv. json_ok (snd kv)) d"
| "json_ok _ = True"

text \<open>
  The dict comprehension of \<^verbatim>\<open>save_scenarios\<close>: \<^verbatim>\<open>to_dict\<close> of each scenario in
  order; the first one that raises ends it.
\<close>

fun to_dict_all :: "(string \<times> Scenario) list \<Rightarrow> error + (string \<times> pydict) list" where
  "to_dict_all [] = Inr []"
| "to_dict_all ((n, s) # rest) =
     (case to_dict s of
        Inl e \<Rightarrow> Inl e
      | Inr d \<Rightarrow> (case to_dict_all rest of Inl e \<Rightarrow> Inl e | Inr ds \<Rightarrow> Inr ((n, d) # ds)))"

text \<open>
  \<^verbatim>\<open>save_scenarios\<close> returns the manager and the exception raised, if any. The
  dictionary is built before the file is opened, so a \<^verbatim>\<open>to_dict\<close> that raises leaves
  the file as it was; \<^verbatim>\<open>open\<close> truncates it; a \<^verbatim>\<open>json.dump\<close> that raises
  leaves it partly written.
\<close>

definition save_scenarios :: "ScenarioManager \<Rightarrow> ScenarioManager \<times> error option" where
  "save_scenarios self =
     (case to_dict_all (scenarios self) of
        Inl e \<Rightarrow> (self, Some e)
      | Inr data \<Rightarrow>
          if \<not> can_open self then (self, Some OSError)
          else if list_all (\<lambda>(n, d). json_ok (PDict d)) data
          then (self\<lparr>disk := JsonOf data\<rparr>, None)
          else (self\<lparr>disk := Partial\<rparr>, Some TypeError))"

text \<open>
  \<^verbatim>\<open>add_scenario\<close>: \<^verbatim>\<open>self.scenarios[scenario.name] = scenario\<close>, then save. A
  scenario whose name is not a string is outside \<^verbatim>\<open>Dict[str, Scenario]\<close> and outside
  this model, which answers \<open>NonStrKey\<close> and changes nothing.
\<close>

definition add_scenario :: "ScenarioManager \<Rightarrow> Scenario \<Rightarrow> ScenarioManager \<times> error option" where
  "add_scenario self scenario =
     (case name scenario of
        PStr n \<Rightarrow> save_scenarios (self\<lparr>scenarios := AList.update n scenario (scenarios self)\<rparr>)
      | _ \<Rightarrow> (self, Some NonStrKey))"

definition get_scenario :: "ScenarioManager \<Rightarrow> string \<Rightarrow> Scenario option" where
  "get_scenario self n = map_of (scenarios self) n"

definition list_scenarios :: "ScenarioManager \<Rightarrow> (string \<times> pyval) list" where
  "list_scenarios self = map (\<lambda>(n, s). (n, description s)) (scenarios self)"

text \<open>\<^verbatim>\<open>setattr(scenario, key, value)\<close>: a field is overwritten, any other name is added.\<close>

definition setattr :: "Scenario \<Rightarrow> string \<Rightarrow> pyval \<Rightarrow> Scenario" where
  "setattr s key v =
     (if key = ''name'' then s\<lparr>name := v\<rparr>
      else if key = ''description'' then s\<lparr>description := v\<rparr>
      else if key = ''price_starttime'' then s\<lparr>price_starttime := v\<rparr>
      else if key = ''demand_starttime'' then s\<lparr>demand_starttime := v\<rparr>
      else if key = ''length'' then s\<lparr>length_field := v\<rparr>
      else if key = ''gas_turbine_minload_electricity_capacity''
        then s\<lparr>gas_turbine_minload_electricity_capacity := v\<rparr>
      else if key = ''gas_turbine_maxload_electricity_capacity''
        then s\<lparr>gas_turbine_maxload_electricity_capacity := v\<rparr>
      else if key = ''gas_turbine_minload_electricity_efficiency''
        then s\<lparr>gas_turbine_minload_electricity_efficiency := v\<rparr>
      else if key = ''gas_turbine_maxload_electricity_efficiency''
        then s\<lparr>gas_turbine_maxload_electricity_efficiency := v\<rparr>
      else if key = ''gas_turbine_minload_heat_efficiency''
        then s\<lparr>gas_turbine_minload_heat_efficiency := v\<rparr>
      else if key = ''gas_turbine_maxload_heat_efficiency''
        then s\<lparr>gas_turbine_maxload_heat_efficiency := v\<rparr>
      else if key = ''gas_boiler_efficiency'' then s\<lparr>gas_boiler_efficiency := v\<rparr>
      else if key = ''gas_boiler_capacity'' then s\<lparr>gas_boiler_capacity := v\<rparr>
      else if key = ''e_boiler_efficiency'' then s\<lparr>e_boiler_efficiency := v\<rparr>
      else if key = ''e_boiler_capacity'' then s\<lparr>e_boiler_capacity := v\<rparr>
      else if key = ''hrsg_efficiency'' then s\<lparr>hrsg_efficiency := v\<rparr>
      else if key = ''hrsg_capacity'' then s\<lparr>hrsg_capacity := v\<rparr>
      else if key = ''elec_offtake_contract_param_a'' then s\<lparr>elec_offtake_contract_param_a := v\<rparr>
      else if key = ''elec_offtake_contract_param_b'' then s\<lparr>elec_offtake_contract_param_b := v\<rparr>
      else if key = ''elec_injection_contract_param_a''
        then s\<lparr>elec_injection_contract_param_a := v\<rparr>
      else if key = ''elec_injection_contract_param_b''
        then s\<lparr>elec_injection_contract_param_b := v\<rparr>
      else if key = ''elec_grid_cost_energy'' then s\<lparr>elec_grid_cost_energy := v\<rparr>
      else if key = ''elec_grid_cost_power_peak'' then s\<lparr>elec_grid_cost_power_peak := v\<rparr>
      else if key = ''elec_grid_cost_power_fixed'' then s\<lparr>elec_grid_cost_power_fixed := v\<rparr>
      else if key = ''elec_grid_cost_max_tariff'' then s\<lparr>elec_grid_cost_max_tariff := v\<rparr>
      else if key = ''elec_offtake_tax_energy'' then s\<lparr>elec_offtake_tax_energy := v\<rparr>
      else if key = ''gas_offtake_contract_param_a'' then s\<lparr>gas_offtake_contract_param_a := v\<rparr>
      else if key = ''gas_offtake_contract_param_b'' then s\<lparr>gas_offtake_contract_param_b := v\<rparr>
      else if key = ''gas_grid_cost_energy'' then s\<lparr>gas_grid_cost_energy := v\<rparr>
      else if key = ''freq'' then s\<lparr>freq := v\<rparr>
      else if key = ''optimizer_type'' then s\<lparr>optimizer_type := v\<rparr>
      else if key = ''builder_type'' then s\<lparr>builder_type := v\<rparr>
      else if key = ''solver'' then s\<lparr>solver := v\<rparr>
      else if key = ''dispatch_type'' then s\<lparr>dispatch_type := v\<rparr>
      else if key = ''pred_hor'' then s\<lparr>pred_hor := v\<rparr>
      else if key = ''contr_hor'' then s\<lparr>contr_hor := v\<rparr>
      else if key = ''created_at'' then s\<lparr>created_at := v\<rparr>
      else if key = ''results_path'' then s\<lparr>results_path := v\<rparr>
      else s\<lparr>extra_attrs := AList.update key v (extra_attrs s)\<rparr>)"

text \<open>
  \<^verbatim>\<open>update_scenario(name, **kwargs)\<close>: nothing happens for a name that is not
  present; otherwise every keyword is set on the stored object, then the store is saved.
\<close>

definition update_scenario ::
  "ScenarioManager \<Rightarrow> string \<Rightarrow> pydict \<Rightarrow> ScenarioManager \<times> error option" where
  "update_scenario self n kwargs =
     (case map_of (scenarios self) n of
        None \<Rightarrow> (self, None)
      | Some scenario \<Rightarrow>
          save_scenarios
            (self\<lparr>scenarios :=
               AList.update n (fold (\<lambda>(key, v) s. setattr s key v) kwargs scenario)
                 (scenarios self)\<rparr>))"

text \<open>\<^verbatim>\<open>delete_scenario(name)\<close>: nothing happens for a name that is not present.\<close>

definition delete_scenario :: "ScenarioManager \<Rightarrow> string \<Rightarrow> ScenarioManager \<times> error option" where
  "delete_scenario self n =
     (if dict_contains (scenarios self) n
      then save_scenarios (self\<lparr>scenarios := AList.delete n (scenarios self)\<rparr>)
      else (self, None))"

text \<open>
  \<^verbatim>\<open>ScenarioManager(scenarios_file)\<close>: \<^verbatim>\<open>__init__\<close> and \<^verbatim>\<open>load_scenarios\<close>. A file
  that does not exist leaves the collection empty; a file that holds a dump is read back
  with \<^verbatim>\<open>json.load\<close> and each entry goes through \<^verbatim>\<open>from_dict\<close>, whose exception
  ends the construction.
\<close>

fun from_dict_all ::
  "enums \<Rightarrow> string \<Rightarrow> (string \<times> pydict) list \<Rightarrow> error + (string \<times> Scenario) list" where
  "from_dict_all E now [] = Inr []"
| "from_dict_all E now ((n, scenario_data) # rest) =
     (case from_dict E now scenario_data of
        Inl e \<Rightarrow> Inl e
      | Inr s \<Rightarrow>
          (case from_dict_all E now rest of Inl e \<Rightarrow> Inl e | Inr ss \<Rightarrow> Inr ((n, s) # ss)))"

definition ScenarioManager_init ::
  "enums \<Rightarrow> string \<Rightarrow> string \<Rightarrow> file_content \<Rightarrow> bool \<Rightarrow> error + ScenarioManager" where
  "ScenarioManager_init E now path content writable =
     (case content of
        Absent \<Rightarrow>
          Inr \<lparr>scenarios_file = path, scenarios = [], disk = content, can_open = writable\<rparr>
      | Partial \<Rightarrow> Inl JSONDecodeError
      | JsonOf data \<Rightarrow>
          (case from_dict_all E now data of
             Inl e \<Rightarrow> Inl e
           | Inr ss \<Rightarrow>
               Inr \<lparr>scenarios_file = path, scenarios = ss, disk = content, can_open = writable\<rparr>))"

text \<open>
  The scenario of the example at the end of \<^verbatim>\<open>scenarios.py\<close>,
  \<^verbatim>\<open>Scenario(name="base_case", ...)\<close>, as the constructor leaves it.
\<close>

definition base_scenario :: "enums \<Rightarrow> string \<Rightarrow> Scenario" where
  "base_scenario E now = \<lparr>
     name = PStr ''base_case'',
     description = PStr ''Base case scenario with current equipment parameters'',
     price_starttime = PStr ''2025-01-01'',
     demand_starttime = PStr ''2022-01-01'',
     length_field = PInt (24 * 30),
     gas_turbine_minload_electricity_capacity = PFloat (6.55 / 2),
     gas_turbine_maxload_electricity_capacity = PFloat (6.55 / 2),
     gas_turbine_minload_electricity_efficiency = PFloat 0.31,
     gas_turbine_maxload_electricity_efficiency = PFloat 0.31,
     gas_turbine_minload_heat_efficiency = PFloat 0.46,
     gas_turbine_maxload_heat_efficiency = PFloat 0.46,
     gas_boiler_efficiency = PFloat 0.85,
     gas_boiler_capacity = PInt 26,
     e_boiler_efficiency = PFloat 1.0,
     e_boiler_capacity = PInt 10,
     hrsg_efficiency = PFloat 1.0,
     hrsg_capacity = PInt 10,
     elec_offtake_contract_param_a = PFloat 0.0,
     elec_offtake_contract_param_b = PFloat 0.0,
     elec_injection_contract_param_a = PInt 0,
     elec_injection_contract_param_b = PFloat 0.0,
     elec_grid_cost_energy = PFloat 0.0,
     elec_grid_cost_power_peak = PFloat 0.0,
     elec_grid_cost_power_fixed = PFloat 0.0,
     elec_grid_cost_max_tariff = PFloat 0.0,
     elec_offtake_tax_energy = PFloat 0.0,
     gas_offtake_contract_param_a = PInt 0,
     gas_offtake_contract_param_b = PFloat 0.0,
     gas_grid_cost_energy = PInt 0,
     freq = PStr ''h'',
     optimizer_type = PStr ''default'',
     builder_type = PEnum ''BuilderType'' (PYOMO E),
     solver = PEnum ''SolverType'' (CBC E),
     dispatch_type = PEnum ''DispatchType'' (MONTHLY E),
     pred_hor = PInt (24 * 32),
     contr_hor = PInt (24 * 32),
     created_at = PStr now,
     results_path = PNone,
     extra_attrs = [] \<rparr>"

text \<open>
  An instance of the enum parameter for the examples: the three members the source names,
  each with its lower-case name as value.
\<close>

definition example_enums :: enums where
  "example_enums = \<lparr>
     BuilderType_values = [''pyomo''],
     SolverType_values = [''cbc''],
     DispatchType_values = [''monthly''],
     PYOMO = ''pyomo'', CBC = ''cbc'', MONTHLY = ''monthly'' \<rparr>"

text \<open>
  A manager for the examples: it holds the base scenario and its file has not been
  written.
\<close>

definition example_manager :: ScenarioManager where
  "example_manager = \<lparr>
     scenarios_file = ''simulation/scenarios.json'',
     scenarios = [(''base_case'', base_scenario example_enums ''2025-06-01 12:00:00'')],
     disk = Absent,
     can_open = True \<rparr>"

text \<open>
  The manager \<^verbatim>\<open>ScenarioManager()\<close> builds when the file does not exist.
\<close>

definition fresh_manager :: ScenarioManager where
  "fresh_manager = \<lparr>scenarios_file = ''simulation/scenarios.json'', scenarios = [],
     disk = Absent, can_open = True\<rparr>"

text \<open>
  The file holds the serialization of the whole collection: the dictionary of the
  \<^verbatim>\<open>to_dict\<close> of every scenario in memory, as \<^verbatim>\<open>save_scenarios\<close> dumps it.
\<close>

definition store_holds_collection :: "ScenarioManager \<Rightarrow> bool" where
  "store_holds_collection m =
     (case to_dict_all (scenarios m) of Inl e \<Rightarrow> False | Inr data \<Rightarrow> disk m = JsonOf data)"

text \<open>
  A value is a member of an enum class: how the annotation \<^verbatim>\<open>builder_type: BuilderType\<close>
  reads on a \<open>pyval\<close>.
\<close>

definition is_member :: "string \<Rightarrow> string list \<Rightarrow> pyval \<Rightarrow> bool" where
  "is_member cls members x =
     (case x of PEnum c v \<Rightarrow> c = cls \<and> v \<in> set members | _ \<Rightarrow> False)"

text \<open>A stored document without the keys \<open>K\<close>: an older document that lacks these fields.\<close>

definition drop_keys :: "string list \<Rightarrow> pydict \<Rightarrow> pydict" where
  "drop_keys K d = filter (\<lambda>kv. fst kv \<notin> set K) d"

text \<open>The keys of the nested \<^verbatim>\<open>equipment_params\<close> object of a document, if it has one.\<close>

definition equipment_keys :: "pydict \<Rightarrow> string list" where
  "equipment_keys d =
     (case map_of d ''equipment_params'' of Some (PDict e) \<Rightarrow> map fst e | _ \<Rightarrow> [])"

text \<open>
  The scenario with the documented default in every field named in \<open>K\<close>: 1.0 for the
  three contract \<^verbatim>\<open>param_a\<close> fields, 0.0 for the other nine.
\<close>

definition with_defaults :: "string list \<Rightarrow> Scenario \<Rightarrow> Scenario" where
  "with_defaults K s = s\<lparr>
     elec_offtake_contract_param_a :=
       (if ''elec_offtake_contract_param_a'' \<in> set K then PFloat 1 else elec_offtake_contract_param_a s),
     elec_offtake_contract_param_b :=
       (if ''elec_offtake_contract_param_b'' \<in> set K then PFloat 0 else elec_offtake_contract_param_b s),
     elec_injection_contract_param_a :=
       (if ''elec_injection_contract_param_a'' \<in> set K then PFloat 1 else elec_injection_contract_param_a s),
     elec_injection_contract_param_b :=
       (if ''elec_injection_contract_param_b'' \<in> set K then PFloat 0 else elec_injection_contract_param_b s),
     elec_grid_cost_energy :=
       (if ''elec_grid_cost_energy'' \<in> set K then PFloat 0 else elec_grid_cost_energy s),
     elec_grid_cost_power_peak :=
       (if ''elec_grid_cost_power_peak'' \<in> set K then PFloat 0 else elec_grid_cost_power_peak s),
     elec_grid_cost_power_fixed :=
       (if ''elec_grid_cost_power_fixed'' \<in> set K then PFloat 0 else elec_grid_cost_power_fixed s),
     elec_grid_cost_max_tariff :=
       (if ''elec_grid_cost_max_tariff'' \<in> set K then PFloat 0 else elec_grid_cost_max_tariff s),
     elec_offtake_tax_energy :=
       (if ''elec_offtake_tax_energy'' \<in> set K then PFloat 0 else elec_offtake_tax_energy s),
     gas_offtake_contract_param_a :=
       (if ''gas_offtake_contract_param_a'' \<in> set K then PFloat 1 else gas_offtake_contract_param_a s),
     gas_offtake_contract_param_b :=
       (if ''gas_offtake_contract_param_b'' \<in> set K then PFloat 0 else gas_offtake_contract_param_b s),
     gas_grid_cost_energy :=
       (if ''gas_grid_cost_energy'' \<in> set K then PFloat 0 else gas_grid_cost_energy s) \<rparr>"


section \<open>The batch driver\<close>

text \<open>
  \<^verbatim>\<open>run_scenario\<close> loads data, calls the dispatch engine and writes results: it is a
  parameter here, a function from the state of the world and a scenario name to the new
  state and what the call did. \<open>Raised msg\<close> is an exception of class \<^verbatim>\<open>Exception\<close>
  with \<^verbatim>\<open>str(e) = msg\<close>; \<open>Interrupted\<close> is one that \<^verbatim>\<open>except Exception\<close> does
  not catch (KeyboardInterrupt, SystemExit). What \<^verbatim>\<open>run_scenario\<close> prints itself is
  part of the world.
\<close>

datatype outcome = Returned | Raised string | Interrupted

text \<open>The lines \<^verbatim>\<open>run_all_scenarios\<close> prints, each with the values its f-string shows.\<close>

datatype line =
    NoScenariosDefined
  | RunningAll
  | RunningScenario string
  | CompletedSuccessfully string
  | FailedWithError string string
  | ContinuingWithRemaining
  | Rule
  | SummaryTitle
  | SuccessfullyCompleted int nat
  | FailedScenariosHeader
  | FailedScenario string string
  | AllCompleted

datatype batch_end = ReturnedNormally | ManagerError error | Interrupt

text \<open>
  The \<^verbatim>\<open>for name in scenarios\<close> loop: the lines printed, the list
  \<^verbatim>\<open>failed_scenarios\<close> and whether an uncaught exception ended the loop.
\<close>

fun run_loop ::
  "('w \<Rightarrow> string \<Rightarrow> 'w \<times> outcome) \<Rightarrow> 'w \<Rightarrow> string list \<Rightarrow> (string \<times> string) list
     \<Rightarrow> 'w \<times> line list \<times> (string \<times> string) list \<times> bool" where
  "run_loop run_scenario w [] failed_scenarios = (w, [], failed_scenarios, False)"
| "run_loop run_scenario w (n # rest) failed_scenarios =
     (case run_scenario w n of
        (w', Returned) \<Rightarrow>
          (case run_loop run_scenario w' rest failed_scenarios of
             (w'', ls, failed, stopped) \<Rightarrow>
               (w'', RunningScenario n # CompletedSuccessfully n # ls, failed, stopped))
      | (w', Raised msg) \<Rightarrow>
          (case run_loop run_scenario w' rest (failed_scenarios @ [(n, msg)]) of
             (w'', ls, failed, stopped) \<Rightarrow>
               (w'', RunningScenario n # FailedWithError n msg # ContinuingWithRemaining # ls,
                failed, stopped))
      | (w', Interrupted) \<Rightarrow> (w', [RunningScenario n], failed_scenarios, True))"

definition summary :: "nat \<Rightarrow> (string \<times> string) list \<Rightarrow> line list" where
  "summary len_scenarios failed_scenarios =
     [Rule, SummaryTitle, Rule,
      SuccessfullyCompleted (int len_scenarios - int (length failed_scenarios)) len_scenarios]
     @ (if failed_scenarios \<noteq> []
        then FailedScenariosHeader # map (\<lambda>(n, e). FailedScenario n e) failed_scenarios
        else [AllCompleted])"

text \<open>
  \<^verbatim>\<open>run_all_scenarios\<close>. \<open>made\<close> is what \<^verbatim>\<open>ScenarioManager()\<close> gave: its exception
  is not caught here.
\<close>

definition run_all_scenarios ::
  "('w \<Rightarrow> string \<Rightarrow> 'w \<times> outcome) \<Rightarrow> error + ScenarioManager \<Rightarrow> 'w
     \<Rightarrow> 'w \<times> line list \<times> batch_end" where
  "run_all_scenarios run_scenario made w =
     (case made of
        Inl e \<Rightarrow> (w, [], ManagerError e)
      | Inr manager \<Rightarrow>
          (let scenarios = list_scenarios manager in
           if scenarios = [] then (w, [NoScenariosDefined], ReturnedNormally)
           else
             (case run_loop run_scenario w (map fst scenarios) [] of
                (w', ls, failed_scenarios, stopped) \<Rightarrow>
                  if stopped then (w', RunningAll # ls, Interrupt)
                  else (w', RunningAll # ls @ summary (length scenarios) failed_scenarios,
                        ReturnedNormally))))"

text \<open>
  What each scenario of a batch does when every one of them is run in turn, each in the
  world the one before left.
\<close>

fun run_each ::
  "('w \<Rightarrow> string \<Rightarrow> 'w \<times> outcome) \<Rightarrow> 'w \<Rightarrow> string list \<Rightarrow> 'w \<times> outcome list" where
  "run_each run_scenario w [] = (w, [])"
| "run_each run_scenario w (n # rest) =
     (case run_scenario w n of
        (w', oc) \<Rightarrow>
          (case run_each run_scenario w' rest of (w'', ocs) \<Rightarrow> (w'', oc # ocs)))"

text \<open>The success or failure lines of one scenario, and the failures of a batch.\<close>

fun scenario_lines :: "string \<times> outcome \<Rightarrow> line list" where
  "scenario_lines (n, Returned) = [RunningScenario n, CompletedSuccessfully n]"
| "scenario_lines (n, Raised msg) =
     [RunningScenario n, FailedWithError n msg, ContinuingWithRemaining]"
| "scenario_lines (n, Interrupted) = [RunningScenario n]"

fun failures :: "(string \<times> outcome) list \<Rightarrow> (string \<times> string) list" where
  "failures [] = []"
| "failures ((n, Raised msg) # rest) = (n, msg) # failures rest"
| "failures (_ # rest) = failures rest"

text \<open>
  A \<^verbatim>\<open>run_scenario\<close> for the examples: it counts the calls in the world and raises
  for the scenarios named Flex_4 and Flex_5.1.
\<close>

definition example_run :: "nat \<Rightarrow> string \<Rightarrow> nat \<times> outcome" where
  "example_run w n =
     (if n = ''Flex_4'' then (Suc w, Raised ''File not found'')
      else if n = ''Flex_5.1'' then (Suc w, Raised ''Invalid date range'')
      else (Suc w, Returned))"

definition example_batch :: ScenarioManager where
  "example_batch = \<lparr>
     scenarios_file = ''simulation/scenarios.json'',
     scenarios = [(''Flex_0'', base_scenario example_enums ''2025-06-01 12:00:00''),
                  (''Flex_4'', base_scenario example_enums ''2025-06-01 12:00:01''),
                  (''Flex_1.1'', base_scenario example_enums ''2025-06-01 12:00:02''),
                  (''Flex_5.1'', base_scenario example_enums ''2025-06-01 12:00:03'')],
     disk = Absent,
     can_open = True \<rparr>"

section \<open>The top level of \<^verbatim>\<open>run_scenarios.py\<close>\<close>

text \<open>
  Importing a module runs its top-level statements in order in the module's namespace.
  A statement is modelled by what it does to names: \<^verbatim>\<open>import m\<close> binds \<open>m\<close>,
  \<^verbatim>\<open>from m import a, b\<close> binds \<open>a\<close> and \<open>b\<close>, \<^verbatim>\<open>def f\<close> binds \<open>f\<close>, and an
  expression statement reads names, in evaluation order; reading a name that is neither
  bound in the module nor a builtin raises NameError and ends the import. An import of a
  module that cannot be found raises ImportError.
\<close>

datatype stmt =
    Import string
  | FromImport string "string list"
  | Def string
  | Eval "string list"

datatype import_error = NameErr string | ImportErr string

text \<open>
  The names a module has before its first statement runs, and the builtins its top level
  uses. \<^verbatim>\<open>Path\<close> is not a builtin of Python.
\<close>

definition initial_names :: "string list" where
  "initial_names = [''__name__'', ''__file__'', ''__doc__'', ''__builtins__'',
     ''print'', ''str'', ''len'']"

fun exec_module ::
  "(string \<Rightarrow> bool) \<Rightarrow> string list \<Rightarrow> stmt list \<Rightarrow> string list \<times> import_error option" where
  "exec_module importable ns [] = (ns, None)"
| "exec_module importable ns (Import m # rest) =
     (if importable m then exec_module importable (m # ns) rest else (ns, Some (ImportErr m)))"
| "exec_module importable ns (FromImport m names # rest) =
     (if importable m then exec_module importable (names @ ns) rest
      else (ns, Some (ImportErr m)))"
| "exec_module importable ns (Def f # rest) = exec_module importable (f # ns) rest"
| "exec_module importable ns (Eval reads # rest) =
     (case find (\<lambda>n. n \<notin> set ns) reads of
        Some n \<Rightarrow> (ns, Some (NameErr n))
      | None \<Rightarrow> exec_module importable ns rest)"

text \<open>
  The top level of \<^verbatim>\<open>simulation/run_scenarios.py\<close>, lines 1 to 253:
  \<^verbatim>\<open>import os\<close>, \<^verbatim>\<open>os.chdir(Path(__file__).parent.parent)\<close>,
  \<^verbatim>\<open>print(f"Working directory: {os.getcwd()}")\<close>, the six \<^verbatim>\<open>from ... import\<close>
  lines, the two function definitions and the test of \<^verbatim>\<open>__name__\<close>.
\<close>

definition run_scenarios_py :: "stmt list" where
  "run_scenarios_py =
    [Import ''os'',
     Eval [''os'', ''Path'', ''__file__''],
     Eval [''print'', ''os''],
     FromImport ''datetime'' [''datetime''],
     FromImport ''simulation.scenarios'' [''Scenario'', ''ScenarioManager''],
     FromImport ''simulation.define_scenarios'' [''define_scenarios''],
     FromImport ''core.data_generator'' [''get_data''],
     FromImport ''core.model_bis'' [''get_model''],
     FromImport ''model_to_flex.core.dispatch'' [''dispatch''],
     FromImport ''model_to_flex.core.io_utils.save_results'' [''save_results''],
     Def ''run_scenario'',
     Def ''run_all_scenarios'',
     Eval [''__name__'']]"

text \<open>The names a list of statements binds when all of them run.\<close>

fun binds :: "stmt \<Rightarrow> string list" where
  "binds (Import m) = [m]"
| "binds (FromImport m names) = names"
| "binds (Def f) = [f]"
| "binds (Eval reads) = []"

section \<open>The toegangsvermogen cost\<close>

text \<open>
  A cell of the spreadsheet as pandas reads it: a number, a missing value (NaN, None) or
  text. Numbers are reals: the rounding of binary floating point is not modelled, and the
  products this development evaluates are whole numbers that binary64 represents exactly.
\<close>

datatype cell = CNum real | CNaN | CStr string

text \<open>A DataFrame: its column labels and its rows, each row giving the cell of a column.\<close>

record DataFrame =
  columns :: "string list"
  rows :: "(string \<times> cell) list list"

text \<open>Python's \<^verbatim>\<open>round(x)\<close> with one argument: the nearest integer, a tie to the even one.\<close>

definition py_round :: "real \<Rightarrow> int" where
  "py_round x =
     (let f = \<lfloor>x\<rfloor>; d = x - of_int f in
      if d < 1 / 2 then f else if 1 / 2 < d then f + 1 else if even f then f else f + 1)"

text \<open>\<^verbatim>\<open>row.iloc[0].get(label, 0)\<close>: the cell under the label, 0 for a label that is absent.\<close>

definition series_get :: "(string \<times> cell) list \<Rightarrow> string \<Rightarrow> cell" where
  "series_get row label = (case map_of row label of None \<Rightarrow> CNum 0 | Some c \<Rightarrow> c)"

text \<open>
  \<^verbatim>\<open>get_toegangsvermogen_cost(scenario_name)\<close>. \<open>xlsx\<close> is the state of
  \<^verbatim>\<open>simulation/Scenarios.xlsx\<close>: \<open>None\<close> when the file does not exist, \<open>Some (Inl e)\<close>
  when \<^verbatim>\<open>pd.read_excel\<close> raises, \<open>Some (Inr df)\<close> when it returns \<open>df\<close>. Every
  exception inside the \<^verbatim>\<open>try\<close> (a missing \<^verbatim>\<open>Name\<close> column, a product with a
  text cell) is caught and gives 0.
\<close>

definition get_toegangsvermogen_cost :: "(error + DataFrame) option \<Rightarrow> string \<Rightarrow> int" where
  "get_toegangsvermogen_cost xlsx scenario_name =
     (case xlsx of
        None \<Rightarrow> 0
      | Some (Inl e) \<Rightarrow> 0
      | Some (Inr df) \<Rightarrow>
          if ''Name'' \<notin> set (columns df) then 0
          else
            (case filter (\<lambda>r. map_of r ''Name'' = Some (CStr scenario_name)) (rows df) of
               [] \<Rightarrow> 0
             | r # _ \<Rightarrow>
                 (let elec_grid_cost_power_fixed = series_get r ''elec_grid_cost_power_fixed'';
                      e_boiler_capacity = series_get r ''e_boiler_capacity''
                  in if elec_grid_cost_power_fixed = CNaN \<or> e_boiler_capacity = CNaN then 0
                     else
                       (case (elec_grid_cost_power_fixed, e_boiler_capacity) of
                          (CNum a, CNum b) \<Rightarrow> py_round (a * b * 1000 * 12)
                        | _ \<Rightarrow> 0))))"

text \<open>A sheet for the examples, with the columns the function reads.\<close>

definition example_sheet :: DataFrame where
  "example_sheet = \<lparr>
     columns = [''Name'', ''elec_grid_cost_power_fixed'', ''e_boiler_capacity''],
     rows = [[(''Name'', CStr ''Flex_0''), (''elec_grid_cost_power_fixed'', CNum 0),
              (''e_boiler_capacity'', CNum 0)],
             [(''Name'', CStr ''Flex_4''), (''elec_grid_cost_power_fixed'', CNum 2.0),
              (''e_boiler_capacity'', CNum 5)],
             [(''Name'', CStr ''Flex_5.1''), (''elec_grid_cost_power_fixed'', CNaN),
              (''e_boiler_capacity'', CNum 5)]] \<rparr>"

section \<open>The component graph\<close>

text \<open>
  Modelled from the spec: the classes \<^verbatim>\<open>Model\<close>, the component variants and their
  ports come from the package \<^verbatim>\<open>model_to_flex\<close>, which is not under src/. The
  repository only calls them. Ports, components and the model follow sections 3 and 4 of
  the specification; the names of the ports are the ones the repository subscripts
  \<^verbatim>\<open>vars\<close> with. The kind of a port (PARAMETER or VARIABLE) is left out: nothing
  modelled here reads it.
\<close>

datatype quantity = Unset | Scalar pyval | Series "cell list"

record Port =
  lower_bound :: quantity
  upper_bound :: quantity
  port_values :: quantity

datatype variant =
    Conversion
  | Splitter nat
  | Summation nat
  | Market
  | PeakMarket
  | Demand
  | Storage
  | CHP

record Component =
  component_name :: string
  variant :: variant
  vars :: "(string \<times> Port) list"
  conversion_factor :: quantity

text \<open>A port is referred to by the name of its component and its own name.\<close>

type_synonym port_ref = "string \<times> string"

record Model =
  components :: "(string \<times> Component) list"
  connections :: "(port_ref \<times> port_ref) list"
  horizon :: "nat option"

text \<open>
  Modelled from the spec: the ports of each variant. \<open>Splitter n\<close> has
  \<open>output0\<close> \<dots>, \<open>Summation n\<close> has \<open>input0\<close> \<dots>; the repository uses at most
  five of them, and the numbering is written for one digit.
\<close>

definition numbered :: "string \<Rightarrow> nat \<Rightarrow> string list" where
  "numbered stem n = map (\<lambda>i. stem @ [''0123456789'' ! i]) [0..<n]"

fun port_names :: "variant \<Rightarrow> string list" where
  "port_names Conversion = [''input'', ''output'']"
| "port_names (Splitter n) = ''input'' # numbered ''output'' n"
| "port_names (Summation n) = numbered ''input'' n @ [''output'']"
| "port_names Market = [''quantities'', ''prices'']"
| "port_names PeakMarket = [''quantities'', ''prices'', ''base quantities'']"
| "port_names Demand = [''supply'', ''demand'']"
| "port_names Storage = [''charge'', ''discharge'']"
| "port_names CHP =
     [''gas_in'', ''electricity_output'', ''thermal_output'',
      ''is_on'', ''is_off'', ''is_starting_up'', ''is_shutting_down'',
      ''gas_to_turbine'', ''gas_to_aux_firing'',
      ''min_electricity_output'', ''max_electricity_output'',
      ''min_electrical_efficiency'', ''max_electrical_efficiency'',
      ''thermal_efficiency'', ''aux_firing_efficiency'']"

definition new_port :: Port where
  "new_port = \<lparr>lower_bound = Unset, upper_bound = Unset, port_values = Unset\<rparr>"

text \<open>Modelled from the spec: a constructor call \<^verbatim>\<open>components.Variant(name, ...)\<close>.\<close>

definition new_component :: "variant \<Rightarrow> string \<Rightarrow> quantity \<Rightarrow> Component" where
  "new_component v n factor =
     \<lparr>component_name = n, variant = v,
      vars = map (\<lambda>p. (p, new_port)) (port_names v),
      conversion_factor = factor\<rparr>"

definition Model_init :: Model where
  "Model_init = \<lparr>components = [], connections = [], horizon = None\<rparr>"

text \<open>
  Modelled from the spec: \<^verbatim>\<open>add(component)\<close> fails with DuplicateNameError if the
  name is already present.
\<close>

definition add :: "Model \<Rightarrow> Component \<Rightarrow> error + Model" where
  "add m c =
     (if dict_contains (components m) (component_name c) then Inl DuplicateNameError
      else Inr (m\<lparr>components := components m @ [(component_name c, c)]\<rparr>))"

text \<open>
  Modelled from the spec: \<^verbatim>\<open>connect(source_port, destination_port)\<close> fails with
  UnboundPortError if either port's owning component was not added first, with
  MultipleWriterError if the destination port already has an incoming connection, and
  otherwise records the edge.
\<close>

definition connect :: "Model \<Rightarrow> port_ref \<Rightarrow> port_ref \<Rightarrow> error + Model" where
  "connect m source_port destination_port =
     (if \<not> dict_contains (components m) (fst source_port) \<or>
         \<not> dict_contains (components m) (fst destination_port)
      then Inl UnboundPortError
      else if destination_port \<in> set (map snd (connections m)) then Inl MultipleWriterError
      else Inr (m\<lparr>connections := connections m @ [(source_port, destination_port)]\<rparr>))"

text \<open>
  Modelled from the spec: \<^verbatim>\<open>get_component(name)\<close> fails with NotFoundError if the
  name is absent.
\<close>

definition get_component :: "Model \<Rightarrow> string \<Rightarrow> error + Component" where
  "get_component m n =
     (case map_of (components m) n of None \<Rightarrow> Inl NotFoundError | Some c \<Rightarrow> Inr c)"

text \<open>
  The assembly of a model file: every \<^verbatim>\<open>m.add(...)\<close> in order, then every
  \<^verbatim>\<open>m.connect(a.vars["p"], b.vars["q"])\<close> in order. Subscripting \<^verbatim>\<open>vars\<close> with
  a name the component does not have raises KeyError before \<^verbatim>\<open>connect\<close> is called.
  The first exception ends the import of the file.
\<close>

fun add_all :: "Model \<Rightarrow> Component list \<Rightarrow> error + Model" where
  "add_all m [] = Inr m"
| "add_all m (c # cs) = (case add m c of Inl e \<Rightarrow> Inl e | Inr m' \<Rightarrow> add_all m' cs)"

definition vars_item :: "Component list \<Rightarrow> port_ref \<Rightarrow> error + port_ref" where
  "vars_item cs r =
     (case find (\<lambda>c. component_name c = fst r) cs of
        None \<Rightarrow> Inl (NameError (fst r))
      | Some c \<Rightarrow> if dict_contains (vars c) (snd r) then Inr r else Inl (KeyError (snd r)))"

fun connect_all :: "Component list \<Rightarrow> Model \<Rightarrow> (port_ref \<times> port_ref) list \<Rightarrow> error + Model" where
  "connect_all cs m [] = Inr m"
| "connect_all cs m ((a, b) # rest) =
     (case vars_item cs a of Inl e \<Rightarrow> Inl e | Inr source_port \<Rightarrow>
     (case vars_item cs b of Inl e \<Rightarrow> Inl e | Inr destination_port \<Rightarrow>
     (case connect m source_port destination_port of
        Inl e \<Rightarrow> Inl e
      | Inr m' \<Rightarrow> connect_all cs m' rest)))"

definition assemble :: "Component list \<Rightarrow> (port_ref \<times> port_ref) list \<Rightarrow> error + Model" where
  "assemble cs edges =
     (case add_all Model_init cs of Inl e \<Rightarrow> Inl e | Inr m \<Rightarrow> connect_all cs m edges)"

text \<open>\<^verbatim>\<open>core/model.py\<close>: the components in the order they are added, and the connections.\<close>

definition model_py_components :: "Component list" where
  "model_py_components =
    [new_component Conversion ''gas_turbine_minload_electricity'' (Scalar (PFloat 0.4)),
     new_component Conversion ''gas_turbine_minload_heat'' (Scalar (PFloat 0.6)),
     new_component Conversion ''gas_turbine_maxload_electricity'' (Scalar (PFloat 0.4)),
     new_component Conversion ''gas_turbine_maxload_heat'' (Scalar (PFloat 0.6)),
     new_component Conversion ''gas_boiler'' (Scalar (PFloat 1.0)),
     new_component Conversion ''hrsg'' (Scalar (PFloat 1.0)),
     new_component Conversion ''e_boiler'' (Scalar (PFloat 1.0)),
     new_component Market ''Electricity offtake'' Unset,
     new_component Market ''Electricity injection'' Unset,
     new_component Market ''Gas offtake'' Unset,
     new_component Demand ''heat_demand'' Unset,
     new_component Demand ''electricity_demand'' Unset,
     new_component (Summation 5) ''heat_supply'' Unset,
     new_component (Summation 3) ''electricity_consumption'' Unset,
     new_component (Splitter 4) ''gas_consumption'' Unset,
     new_component (Splitter 3) ''electricity_supply'' Unset,
     new_component Market ''CO2 allowance'' Unset,
     new_component Conversion ''CO2_emission'' (Scalar (PFloat 0.1824))]"

definition model_py_connections :: "(port_ref \<times> port_ref) list" where
  "model_py_connections =
    [((''Gas offtake'', ''quantities''), (''gas_consumption'', ''input'')),
     ((''gas_consumption'', ''output0''), (''gas_boiler'', ''input'')),
     ((''gas_consumption'', ''output1''), (''gas_turbine_minload_electricity'', ''input'')),
     ((''gas_consumption'', ''output1''), (''gas_turbine_minload_heat'', ''input'')),
     ((''gas_consumption'', ''output2''), (''gas_turbine_maxload_electricity'', ''input'')),
     ((''gas_consumption'', ''output2''), (''gas_turbine_maxload_heat'', ''input'')),
     ((''gas_consumption'', ''output3''), (''hrsg'', ''input'')),
     ((''Gas offtake'', ''quantities''), (''CO2_emission'', ''input'')),
     ((''CO2_emission'', ''output''), (''CO2 allowance'', ''quantities'')),
     ((''gas_turbine_minload_heat'', ''output''), (''heat_supply'', ''input0'')),
     ((''gas_turbine_maxload_heat'', ''output''), (''heat_supply'', ''input1'')),
     ((''gas_boiler'', ''output''), (''heat_supply'', ''input2'')),
     ((''e_boiler'', ''output''), (''heat_supply'', ''input3'')),
     ((''hrsg'', ''output''), (''heat_supply'', ''input4'')),
     ((''heat_supply'', ''output''), (''heat_demand'', ''supply'')),
     ((''Electricity offtake'', ''quantities''), (''electricity_consumption'', ''input0'')),
     ((''gas_turbine_minload_electricity'', ''output''), (''electricity_consumption'', ''input1'')),
     ((''gas_turbine_maxload_electricity'', ''output''), (''electricity_consumption'', ''input2'')),
     ((''electricity_consumption'', ''output''), (''electricity_supply'', ''input'')),
     ((''electricity_supply'', ''output0''), (''electricity_demand'', ''supply'')),
     ((''electricity_supply'', ''output1''), (''e_boiler'', ''input'')),
     ((''electricity_supply'', ''output2''), (''Electricity injection'', ''quantities''))]"

text \<open>\<^verbatim>\<open>core/model_bis.py\<close>: the components in the order they are added, and the connections.\<close>

definition model_bis_components :: "Component list" where
  "model_bis_components =
    [new_component Conversion ''gas_boiler'' (Scalar (PFloat 1.0)),
     new_component CHP ''chp'' Unset,
     new_component Conversion ''e_boiler'' (Scalar (PFloat 1.0)),
     new_component Market ''Electricity offtake'' Unset,
     new_component Market ''Electricity injection'' Unset,
     new_component Market ''Gas offtake'' Unset,
     new_component Demand ''heat_demand'' Unset,
     new_component Demand ''electricity_demand'' Unset,
     new_component (Summation 3) ''heat_supply'' Unset,
     new_component (Summation 2) ''electricity_consumption'' Unset,
     new_component (Splitter 2) ''gas_consumption'' Unset,
     new_component (Splitter 3) ''electricity_supply'' Unset,
     new_component Market ''CO2 allowance'' Unset,
     new_component Conversion ''CO2_emission'' (Scalar (PFloat 0.1824)),
     new_component Market ''start_up_cost'' Unset,
     new_component Market ''penalty_for_gas_to_turbine'' Unset,
     new_component Market ''penalty_turbine_no_shutdown'' Unset,
     new_component PeakMarket ''captar'' Unset]"

definition model_bis_connections :: "(port_ref \<times> port_ref) list" where
  "model_bis_connections =
    [((''Gas offtake'', ''quantities''), (''CO2_emission'', ''input'')),
     ((''CO2_emission'', ''output''), (''CO2 allowance'', ''quantities'')),
     ((''Gas offtake'', ''quantities''), (''gas_consumption'', ''input'')),
     ((''gas_consumption'', ''output0''), (''gas_boiler'', ''input'')),
     ((''gas_consumption'', ''output1''), (''chp'', ''gas_in'')),
     ((''chp'', ''thermal_output''), (''heat_supply'', ''input0'')),
     ((''gas_boiler'', ''output''), (''heat_supply'', ''input1'')),
     ((''e_boiler'', ''output''), (''heat_supply'', ''input2'')),
     ((''heat_supply'', ''output''), (''heat_demand'', ''supply'')),
     ((''chp'', ''electricity_output''), (''electricity_consumption'', ''input0'')),
     ((''Electricity offtake'', ''quantities''), (''electricity_consumption'', ''input1'')),
     ((''electricity_consumption'', ''output''), (''electricity_supply'', ''input'')),
     ((''electricity_supply'', ''output0''), (''electricity_demand'', ''supply'')),
     ((''electricity_supply'', ''output1''), (''e_boiler'', ''input'')),
     ((''electricity_supply'', ''output2''), (''Electricity injection'', ''quantities'')),
     ((''chp'', ''is_starting_up''), (''start_up_cost'', ''quantities'')),
     ((''chp'', ''gas_to_turbine''), (''penalty_for_gas_to_turbine'', ''quantities'')),
     ((''chp'', ''is_on''), (''penalty_turbine_no_shutdown'', ''quantities'')),
     ((''Electricity offtake'', ''quantities''), (''captar'', ''quantities''))]"

text \<open>A sequence of \<^verbatim>\<open>connect\<close> calls on a model, ended by the first that fails.\<close>

fun connect_each :: "Model \<Rightarrow> (port_ref \<times> port_ref) list \<Rightarrow> error + Model" where
  "connect_each m [] = Inr m"
| "connect_each m ((a, b) # rest) =
     (case connect m a b of Inl e \<Rightarrow> Inl e | Inr m' \<Rightarrow> connect_each m' rest)"

text \<open>How often a port is the source, or the destination, of a connection.\<close>

definition fan_out :: "Model \<Rightarrow> port_ref \<Rightarrow> nat" where
  "fan_out m p = length (filter (\<lambda>e. fst e = p) (connections m))"

definition fan_in :: "Model \<Rightarrow> port_ref \<Rightarrow> nat" where
  "fan_in m p = length (filter (\<lambda>e. snd e = p) (connections m))"

text \<open>A small model for the examples: three components added, nothing connected.\<close>

definition example_graph :: Model where
  "example_graph = \<lparr>
     components =
       [(''Gas offtake'', new_component Market ''Gas offtake'' Unset),
        (''CO2_emission'', new_component Conversion ''CO2_emission'' (Scalar (PFloat 0.1824))),
        (''gas_consumption'', new_component (Splitter 2) ''gas_consumption'' Unset)],
     connections = [],
     horizon = None \<rparr>"

section \<open>Binding data and parameters to the model\<close>

text \<open>
  Modelled from the spec: the mutating operations of ports and components. A length that
  does not match the horizon of a model bound to a solve is a ShapeError; a port name the
  component does not have is an UnknownPortError for the component's own methods, and a
  KeyError where the caller subscripts \<^verbatim>\<open>vars\<close>. \<^verbatim>\<open>set_conversion_factor\<close> is a
  method of the Conversion variant only. Python evaluates the receiver, then the arguments,
  then makes the call, and the exceptions come in that order; an argument that raised is
  \<open>Inl\<close>.
\<close>

definition shape_ok :: "nat option \<Rightarrow> quantity \<Rightarrow> bool" where
  "shape_ok h q = (case (h, q) of (Some n, Series xs) \<Rightarrow> length xs = n | _ \<Rightarrow> True)"

definition put_component :: "Model \<Rightarrow> string \<Rightarrow> Component \<Rightarrow> Model" where
  "put_component m n c = m\<lparr>components := AList.update n c (components m)\<rparr>"

text \<open>\<^verbatim>\<open>model.get_component(n).vars[p].set_values(v)\<close>\<close>

definition vars_set_values ::
  "string \<Rightarrow> string \<Rightarrow> error + quantity \<Rightarrow> Model \<Rightarrow> error + Model" where
  "vars_set_values n p v m =
     (case get_component m n of Inl e \<Rightarrow> Inl e | Inr c \<Rightarrow>
     (case map_of (vars c) p of None \<Rightarrow> Inl (KeyError p) | Some port \<Rightarrow>
     (case v of Inl e \<Rightarrow> Inl e | Inr q \<Rightarrow>
        if shape_ok (horizon m) q
        then Inr (put_component m n (c\<lparr>vars := AList.update p (port\<lparr>port_values := q\<rparr>) (vars c)\<rparr>))
        else Inl ShapeError)))"

text \<open>\<^verbatim>\<open>model.get_component(n).set_values(p, v)\<close>\<close>

definition set_values :: "string \<Rightarrow> string \<Rightarrow> error + quantity \<Rightarrow> Model \<Rightarrow> error + Model" where
  "set_values n p v m =
     (case get_component m n of Inl e \<Rightarrow> Inl e | Inr c \<Rightarrow>
     (case v of Inl e \<Rightarrow> Inl e | Inr q \<Rightarrow>
     (case map_of (vars c) p of None \<Rightarrow> Inl UnknownPortError | Some port \<Rightarrow>
        if shape_ok (horizon m) q
        then Inr (put_component m n (c\<lparr>vars := AList.update p (port\<lparr>port_values := q\<rparr>) (vars c)\<rparr>))
        else Inl ShapeError)))"

text \<open>
  \<^verbatim>\<open>model.get_component(n).set_bounds(p, lbound=..., ubound=...)\<close>; a bound that is
  not passed (\<open>None\<close>) is left as it is, and only a bound that is passed is measured
  against the horizon.
\<close>

definition bound_ok :: "nat option \<Rightarrow> (error + quantity) option \<Rightarrow> bool" where
  "bound_ok h b = (case b of Some (Inr q) \<Rightarrow> shape_ok h q | _ \<Rightarrow> True)"

definition set_bounds ::
  "string \<Rightarrow> string \<Rightarrow> (error + quantity) option \<Rightarrow> (error + quantity) option \<Rightarrow> Model
     \<Rightarrow> error + Model" where
  "set_bounds n p lbound ubound m =
     (case get_component m n of Inl e \<Rightarrow> Inl e | Inr c \<Rightarrow>
     (case lbound of Some (Inl e) \<Rightarrow> Inl e | _ \<Rightarrow>
     (case ubound of Some (Inl e) \<Rightarrow> Inl e | _ \<Rightarrow>
     (case map_of (vars c) p of None \<Rightarrow> Inl UnknownPortError | Some port \<Rightarrow>
        (let lb = (case lbound of Some (Inr q) \<Rightarrow> q | _ \<Rightarrow> lower_bound port);
             ub = (case ubound of Some (Inr q) \<Rightarrow> q | _ \<Rightarrow> upper_bound port)
         in if bound_ok (horizon m) lbound \<and> bound_ok (horizon m) ubound
            then Inr (put_component m n
                   (c\<lparr>vars := AList.update p (port\<lparr>lower_bound := lb, upper_bound := ub\<rparr>) (vars c)\<rparr>))
            else Inl ShapeError)))))"

text \<open>\<^verbatim>\<open>model.get_component(n).set_conversion_factor(v)\<close>\<close>

definition set_conversion_factor :: "string \<Rightarrow> error + quantity \<Rightarrow> Model \<Rightarrow> error + Model" where
  "set_conversion_factor n v m =
     (case get_component m n of Inl e \<Rightarrow> Inl e | Inr c \<Rightarrow>
        if variant c \<noteq> Conversion then Inl AttributeError
        else
          (case v of Inl e \<Rightarrow> Inl e | Inr q \<Rightarrow>
             if shape_ok (horizon m) q then Inr (put_component m n (c\<lparr>conversion_factor := q\<rparr>))
             else Inl ShapeError))"

text \<open>
  Columns of a DataFrame: \<^verbatim>\<open>df[c].to_list()\<close>, \<^verbatim>\<open>df[c] * k\<close> and
  \<^verbatim>\<open>df[a] + df[b]\<close>, cell by cell. Text cannot be multiplied by a float or added to
  a number.
\<close>

definition column :: "DataFrame \<Rightarrow> string \<Rightarrow> cell list" where
  "column df c = map (\<lambda>r. case map_of r c of None \<Rightarrow> CNaN | Some x \<Rightarrow> x) (rows df)"

fun scale :: "real \<Rightarrow> cell list \<Rightarrow> error + cell list" where
  "scale k [] = Inr []"
| "scale k (CStr s # xs) = Inl TypeError"
| "scale k (CNaN # xs) = (case scale k xs of Inl e \<Rightarrow> Inl e | Inr ys \<Rightarrow> Inr (CNaN # ys))"
| "scale k (CNum x # xs) =
     (case scale k xs of Inl e \<Rightarrow> Inl e | Inr ys \<Rightarrow> Inr (CNum (x * k) # ys))"

fun add_cell :: "cell \<Rightarrow> cell \<Rightarrow> error + cell" where
  "add_cell (CNum x) (CNum y) = Inr (CNum (x + y))"
| "add_cell (CStr s) (CStr t) = Inr (CStr (s @ t))"
| "add_cell (CStr s) (CNum y) = Inl TypeError"
| "add_cell (CStr s) CNaN = Inl TypeError"
| "add_cell (CNum x) (CStr t) = Inl TypeError"
| "add_cell CNaN (CStr t) = Inl TypeError"
| "add_cell (CNum x) CNaN = Inr CNaN"
| "add_cell CNaN (CNum y) = Inr CNaN"
| "add_cell CNaN CNaN = Inr CNaN"

fun add_columns :: "cell list \<Rightarrow> cell list \<Rightarrow> error + cell list" where
  "add_columns (x # xs) (y # ys) =
     (case add_cell x y of Inl e \<Rightarrow> Inl e | Inr z \<Rightarrow>
     (case add_columns xs ys of Inl e \<Rightarrow> Inl e | Inr zs \<Rightarrow> Inr (z # zs)))"
| "add_columns _ _ = Inr []"

definition as_series :: "error + cell list \<Rightarrow> error + quantity" where
  "as_series r = (case r of Inl e \<Rightarrow> Inl e | Inr xs \<Rightarrow> Inr (Series xs))"

text \<open>
  A callback is a chain of \<^verbatim>\<open>if key in ...: call\<close> statements. Each is a pair: whether
  the key is present, and the call. The first call that raises ends the chain; what the
  calls before it did to the model stays.
\<close>

fun run_bindings :: "Model \<Rightarrow> (bool \<times> (Model \<Rightarrow> error + Model)) list \<Rightarrow> Model \<times> error option" where
  "run_bindings m [] = (m, None)"
| "run_bindings m ((present, call) # rest) =
     (if present then
        (case call m of Inl e \<Rightarrow> (m, Some e) | Inr m' \<Rightarrow> run_bindings m' rest)
      else run_bindings m rest)"

text \<open>\<^verbatim>\<open>set_data\<close> of \<^verbatim>\<open>core/model_bis.py\<close>.\<close>

definition model_bis_set_data :: "Model \<Rightarrow> DataFrame \<Rightarrow> Model \<times> error option" where
  "model_bis_set_data model df = run_bindings model
    [(''electricity_offtake_price'' \<in> set (columns df),
        vars_set_values ''Electricity offtake'' ''prices''
          (Inr (Series (column df ''electricity_offtake_price'')))),
     (''electricity_injection_price'' \<in> set (columns df),
        vars_set_values ''Electricity injection'' ''prices''
          (Inr (Series (column df ''electricity_injection_price'')))),
     (''gas_price'' \<in> set (columns df),
        vars_set_values ''Gas offtake'' ''prices'' (Inr (Series (column df ''gas_price'')))),
     (''gas_price'' \<in> set (columns df),
        vars_set_values ''start_up_cost'' ''prices''
          (as_series (scale 0.0001 (column df ''gas_price'')))),
     (''co2_price'' \<in> set (columns df),
        vars_set_values ''CO2 allowance'' ''prices'' (Inr (Series (column df ''co2_price'')))),
     (''heat_demand'' \<in> set (columns df),
        vars_set_values ''heat_demand'' ''demand'' (Inr (Series (column df ''heat_demand'')))),
     (''electricity_demand'' \<in> set (columns df),
        vars_set_values ''electricity_demand'' ''demand''
          (Inr (Series (column df ''electricity_demand'')))),
     (''gas_turbine_minload_electricity_capacity'' \<in> set (columns df),
        set_values ''chp'' ''min_electricity_output''
          (Inr (Series (column df ''gas_turbine_minload_electricity_capacity'')))),
     (''gas_turbine_minload_electricity_capacity'' \<in> set (columns df) \<and>
      ''gas_turbine_maxload_electricity_capacity'' \<in> set (columns df),
        set_values ''chp'' ''max_electricity_output''
          (as_series (add_columns (column df ''gas_turbine_minload_electricity_capacity'')
             (column df ''gas_turbine_maxload_electricity_capacity'')))),
     (''pc_max_gas'' \<in> set (columns df),
        set_bounds ''chp'' ''gas_to_aux_firing'' None
          (Some (Inr (Series (column df ''pc_max_gas''))))),
     (''gas_turbine_minload_electricity_efficiency'' \<in> set (columns df),
        set_values ''chp'' ''min_electrical_efficiency''
          (Inr (Series (column df ''gas_turbine_minload_electricity_efficiency'')))),
     (''gas_turbine_maxload_electricity_efficiency'' \<in> set (columns df),
        set_values ''chp'' ''max_electrical_efficiency''
          (Inr (Series (column df ''gas_turbine_maxload_electricity_efficiency''))))]"

text \<open>\<^verbatim>\<open>set_parameters\<close> of \<^verbatim>\<open>core/model_bis.py\<close>.\<close>

definition param :: "pydict \<Rightarrow> string \<Rightarrow> error + quantity" where
  "param params k = (case map_of params k of None \<Rightarrow> Inl (KeyError k) | Some v \<Rightarrow> Inr (Scalar v))"

definition model_bis_set_parameters :: "Model \<Rightarrow> pydict \<Rightarrow> Model \<times> error option" where
  "model_bis_set_parameters model params = run_bindings model
    [(dict_contains params ''gas_turbine_minload_heat_efficiency'',
        set_values ''chp'' ''thermal_efficiency''
          (param params ''gas_turbine_minload_heat_efficiency'')),
     (dict_contains params ''hrsg_efficiency'',
        set_values ''chp'' ''aux_firing_efficiency'' (param params ''hrsg_efficiency'')),
     (dict_contains params ''gas_boiler_efficiency'',
        set_conversion_factor ''gas_boiler'' (param params ''gas_boiler_efficiency'')),
     (dict_contains params ''gas_boiler_capacity'',
        set_bounds ''gas_boiler'' ''output'' (Some (Inr (Scalar (PInt 0))))
          (Some (param params ''gas_boiler_capacity''))),
     (dict_contains params ''e_boiler_efficiency'',
        set_conversion_factor ''e_boiler'' (param params ''e_boiler_efficiency'')),
     (dict_contains params ''e_boiler_capacity'',
        set_bounds ''e_boiler'' ''output'' (Some (Inr (Scalar (PInt 0))))
          (Some (param params ''e_boiler_capacity''))),
     (dict_contains params ''penalty_for_gas_to_turbine'',
        set_values ''penalty_for_gas_to_turbine'' ''prices''
          (param params ''penalty_for_gas_to_turbine'')),
     (dict_contains params ''penalty_turbine_no_shutdown'',
        set_values ''penalty_turbine_no_shutdown'' ''prices''
          (param params ''penalty_turbine_no_shutdown'')),
     (dict_contains params ''elec_grid_cost_power_peak'',
        set_values ''captar'' ''prices'' (param params ''elec_grid_cost_power_peak''))]"

text \<open>\<^verbatim>\<open>set_data\<close> of \<^verbatim>\<open>core/model.py\<close>.\<close>

definition model_py_set_data :: "Model \<Rightarrow> DataFrame \<Rightarrow> Model \<times> error option" where
  "model_py_set_data model df = run_bindings model
    [(''offtake_price'' \<in> set (columns df),
        vars_set_values ''Electricity offtake'' ''prices''
          (Inr (Series (column df ''offtake_price'')))),
     (''injection_price'' \<in> set (columns df),
        vars_set_values ''Electricity injection'' ''prices''
          (Inr (Series (column df ''injection_price'')))),
     (''gas_price'' \<in> set (columns df),
        vars_set_values ''Gas offtake'' ''prices'' (Inr (Series (column df ''gas_price'')))),
     (''co2_price'' \<in> set (columns df),
        vars_set_values ''CO2 allowance'' ''prices'' (Inr (Series (column df ''co2_price'')))),
     (''heat_demand'' \<in> set (columns df),
        vars_set_values ''heat_demand'' ''demand'' (Inr (Series (column df ''heat_demand'')))),
     (''electricity_demand'' \<in> set (columns df),
        vars_set_values ''electricity_demand'' ''demand''
          (Inr (Series (column df ''electricity_demand'')))),
     (''gas_turbine_minload_electricity_efficiency'' \<in> set (columns df),
        set_conversion_factor ''gas_turbine_minload_electricity''
          (Inr (Series (column df ''gas_turbine_minload_electricity_efficiency'')))),
     (''gas_turbine_maxload_electricity_efficiency'' \<in> set (columns df),
        set_conversion_factor ''gas_turbine_maxload_electricity''
          (Inr (Series (column df ''gas_turbine_maxload_electricity_efficiency'')))),
     (''gas_turbine_minload_electricity_capacity'' \<in> set (columns df),
        set_bounds ''gas_turbine_minload_electricity'' ''output''
          (Some (Inr (Series (column df ''gas_turbine_minload_electricity_capacity''))))
          (Some (Inr (Series (column df ''gas_turbine_minload_electricity_capacity''))))),
     (''gas_turbine_maxload_electricity_capacity'' \<in> set (columns df),
        set_bounds ''gas_turbine_maxload_electricity'' ''output''
          (Some (Inr (Scalar (PInt 0))))
          (Some (Inr (Series (column df ''gas_turbine_maxload_electricity_capacity''))))),
     (''hrsg_capacity'' \<in> set (columns df),
        set_bounds ''hrsg'' ''output'' (Some (Inr (Scalar (PInt 0))))
          (Some (Inr (Series (column df ''hrsg_capacity'')))))]"

text \<open>\<^verbatim>\<open>set_parameters\<close> of \<^verbatim>\<open>core/model.py\<close>.\<close>

definition model_py_set_parameters :: "Model \<Rightarrow> pydict \<Rightarrow> Model \<times> error option" where
  "model_py_set_parameters model params = run_bindings model
    [(dict_contains params ''gas_turbine_minload_heat_efficiency'',
        set_conversion_factor ''gas_turbine_minload_heat''
          (param params ''gas_turbine_minload_heat_efficiency'')),
     (dict_contains params ''gas_turbine_maxload_heat_efficiency'',
        set_conversion_factor ''gas_turbine_maxload_heat''
          (param params ''gas_turbine_maxload_heat_efficiency'')),
     (dict_contains params ''hrsg_efficiency'',
        set_conversion_factor ''hrsg'' (param params ''hrsg_efficiency'')),
     (dict_contains params ''gas_boiler_efficiency'',
        set_conversion_factor ''gas_boiler'' (param params ''gas_boiler_efficiency'')),
     (dict_contains params ''gas_boiler_capacity'',
        set_bounds ''gas_boiler'' ''output'' (Some (Inr (Scalar (PInt 0))))
          (Some (param params ''gas_boiler_capacity''))),
     (dict_contains params ''e_boiler_efficiency'',
        set_conversion_factor ''e_boiler'' (param params ''e_boiler_efficiency'')),
     (dict_contains params ''e_boiler_capacity'',
        set_bounds ''e_boiler'' ''output'' (Some (Inr (Scalar (PInt 0))))
          (Some (param params ''e_boiler_capacity'')))]"

text \<open>What a binding writes: a port of a component, or the conversion factor of one.\<close>

datatype target = PortOf string string | FactorOf string

datatype reading = NoSuch | APort Port | AFactor quantity

fun read_target :: "Model \<Rightarrow> target \<Rightarrow> reading" where
  "read_target m (PortOf n p) =
     (case map_of (components m) n of
        None \<Rightarrow> NoSuch
      | Some c \<Rightarrow> (case map_of (vars c) p of None \<Rightarrow> NoSuch | Some port \<Rightarrow> APort port))"
| "read_target m (FactorOf n) =
     (case map_of (components m) n of None \<Rightarrow> NoSuch | Some c \<Rightarrow> AFactor (conversion_factor c))"

text \<open>For each callback, its keys and what the binding of each key writes.\<close>

definition model_bis_data_bindings :: "(string \<times> target) list" where
  "model_bis_data_bindings =
    [(''electricity_offtake_price'', PortOf ''Electricity offtake'' ''prices''),
     (''electricity_injection_price'', PortOf ''Electricity injection'' ''prices''),
     (''gas_price'', PortOf ''Gas offtake'' ''prices''),
     (''gas_price'', PortOf ''start_up_cost'' ''prices''),
     (''co2_price'', PortOf ''CO2 allowance'' ''prices''),
     (''heat_demand'', PortOf ''heat_demand'' ''demand''),
     (''electricity_demand'', PortOf ''electricity_demand'' ''demand''),
     (''gas_turbine_minload_electricity_capacity'', PortOf ''chp'' ''min_electricity_output''),
     (''gas_turbine_minload_electricity_capacity'', PortOf ''chp'' ''max_electricity_output''),
     (''gas_turbine_maxload_electricity_capacity'', PortOf ''chp'' ''max_electricity_output''),
     (''pc_max_gas'', PortOf ''chp'' ''gas_to_aux_firing''),
     (''gas_turbine_minload_electricity_efficiency'', PortOf ''chp'' ''min_electrical_efficiency''),
     (''gas_turbine_maxload_electricity_efficiency'', PortOf ''chp'' ''max_electrical_efficiency'')]"

definition model_bis_parameter_bindings :: "(string \<times> target) list" where
  "model_bis_parameter_bindings =
    [(''gas_turbine_minload_heat_efficiency'', PortOf ''chp'' ''thermal_efficiency''),
     (''hrsg_efficiency'', PortOf ''chp'' ''aux_firing_efficiency''),
     (''gas_boiler_efficiency'', FactorOf ''gas_boiler''),
     (''gas_boiler_capacity'', PortOf ''gas_boiler'' ''output''),
     (''e_boiler_efficiency'', FactorOf ''e_boiler''),
     (''e_boiler_capacity'', PortOf ''e_boiler'' ''output''),
     (''penalty_for_gas_to_turbine'', PortOf ''penalty_for_gas_to_turbine'' ''prices''),
     (''penalty_turbine_no_shutdown'', PortOf ''penalty_turbine_no_shutdown'' ''prices''),
     (''elec_grid_cost_power_peak'', PortOf ''captar'' ''prices'')]"

definition model_py_data_bindings :: "(string \<times> target) list" where
  "model_py_data_bindings =
    [(''offtake_price'', PortOf ''Electricity offtake'' ''prices''),
     (''injection_price'', PortOf ''Electricity injection'' ''prices''),
     (''gas_price'', PortOf ''Gas offtake'' ''prices''),
     (''co2_price'', PortOf ''CO2 allowance'' ''prices''),
     (''heat_demand'', PortOf ''heat_demand'' ''demand''),
     (''electricity_demand'', PortOf ''electricity_demand'' ''demand''),
     (''gas_turbine_minload_electricity_efficiency'', FactorOf ''gas_turbine_minload_electricity''),
     (''gas_turbine_maxload_electricity_efficiency'', FactorOf ''gas_turbine_maxload_electricity''),
     (''gas_turbine_minload_electricity_capacity'',
        PortOf ''gas_turbine_minload_electricity'' ''output''),
     (''gas_turbine_maxload_electricity_capacity'',
        PortOf ''gas_turbine_maxload_electricity'' ''output''),
     (''hrsg_capacity'', PortOf ''hrsg'' ''output'')]"

definition model_py_parameter_bindings :: "(string \<times> target) list" where
  "model_py_parameter_bindings =
    [(''gas_turbine_minload_heat_efficiency'', FactorOf ''gas_turbine_minload_heat''),
     (''gas_turbine_maxload_heat_efficiency'', FactorOf ''gas_turbine_maxload_heat''),
     (''hrsg_efficiency'', FactorOf ''hrsg''),
     (''gas_boiler_efficiency'', FactorOf ''gas_boiler''),
     (''gas_boiler_capacity'', PortOf ''gas_boiler'' ''output''),
     (''e_boiler_efficiency'', FactorOf ''e_boiler''),
     (''e_boiler_capacity'', PortOf ''e_boiler'' ''output'')]"

text \<open>
  A call leaves a target as it is; a call succeeds on every model that satisfies \<open>I\<close>
  and keeps \<open>I\<close>.
\<close>

definition preserves :: "target \<Rightarrow> (Model \<Rightarrow> error + Model) \<Rightarrow> bool" where
  "preserves t call = (\<forall>m m'. call m = Inr m' \<longrightarrow> read_target m' t = read_target m t)"

definition succeeds :: "(Model \<Rightarrow> bool) \<Rightarrow> (Model \<Rightarrow> error + Model) \<Rightarrow> bool" where
  "succeeds I call = (\<forall>m. I m \<longrightarrow> (\<exists>m'. call m = Inr m' \<and> I m'))"

text \<open>
  A model is ready for a callback when it has the ports the callback writes, the
  components whose factor it sets are conversions, and its horizon is \<open>h\<close>. A DataFrame is
  numeric when no cell of it is text.
\<close>

definition ready :: "(string \<times> target) list \<Rightarrow> nat option \<Rightarrow> Model \<Rightarrow> bool" where
  "ready bindings h m =
     (horizon m = h \<and>
      list_all (\<lambda>kt. case snd kt of
          PortOf n p \<Rightarrow> read_target m (PortOf n p) \<noteq> NoSuch
        | FactorOf n \<Rightarrow>
            (case map_of (components m) n of None \<Rightarrow> False | Some c \<Rightarrow> variant c = Conversion))
        bindings)"

text \<open>
  An argument is accepted when its evaluation raised nothing and it fits the horizon; a
  bound may also be left out.
\<close>

definition accepted :: "nat option \<Rightarrow> error + quantity \<Rightarrow> bool" where
  "accepted h v = (case v of Inl e \<Rightarrow> False | Inr q \<Rightarrow> shape_ok h q)"

definition passed :: "nat option \<Rightarrow> (error + quantity) option \<Rightarrow> bool" where
  "passed h b = (case b of None \<Rightarrow> True | Some v \<Rightarrow> accepted h v)"

definition numeric :: "DataFrame \<Rightarrow> bool" where
  "numeric df = list_all (\<lambda>r. list_all (\<lambda>kc. case snd kc of CStr s \<Rightarrow> False | _ \<Rightarrow> True) r) (rows df)"

text \<open>
  The module-level \<^verbatim>\<open>m\<close> that \<^verbatim>\<open>get_model()\<close> returns, for each of the two files,
  and a table and parameters for the examples.
\<close>

definition model_bis_m :: Model where
  "model_bis_m =
     (case assemble model_bis_components model_bis_connections of
        Inl e \<Rightarrow> Model_init | Inr m \<Rightarrow> m)"

definition model_py_m :: Model where
  "model_py_m =
     (case assemble model_py_components model_py_connections of
        Inl e \<Rightarrow> Model_init | Inr m \<Rightarrow> m)"

definition example_data :: DataFrame where
  "example_data = \<lparr>
     columns = [''gas_price'', ''electricity_demand''],
     rows = [[(''gas_price'', CNum 30), (''electricity_demand'', CNum 4.5)],
             [(''gas_price'', CNum 31), (''electricity_demand'', CNaN)]] \<rparr>"

definition example_parameters :: pydict where
  "example_parameters = [(''gas_boiler_capacity'', PInt 40), (''hrsg_efficiency'', PFloat 0.9)]"

text \<open>A table without the column \<^verbatim>\<open>heat_demand\<close> whose gas prices are text.\<close>

definition text_table :: DataFrame where
  "text_table = \<lparr>
     columns = [''gas_price''],
     rows = [[(''gas_price'', CStr ''n/a'')], [(''gas_price'', CStr ''n/a'')]] \<rparr>"


section \<open>Properties of the scenario store\<close>

lemma save_scenarios_ok:
  "save_scenarios m = (m', None) \<Longrightarrow>
     \<exists>data. to_dict_all (scenarios m) = Inr data \<and> m' = m\<lparr>disk := JsonOf data\<rparr>"
  by (auto simp: save_scenarios_def split: sum.splits if_splits)

lemma save_scenarios_keeps:
  "scenarios (fst (save_scenarios m)) = scenarios m"
  by (auto simp: save_scenarios_def split: sum.splits if_splits)

lemma to_dict_error: "to_dict s = Inl e \<Longrightarrow> e = AttributeError"
  by (auto simp: to_dict_def attr_value_def split: sum.splits pyval.splits)

lemma to_dict_all_error: "to_dict_all xs = Inl e \<Longrightarrow> e = AttributeError"
  by (induction xs) (auto split: sum.splits dest: to_dict_error)

lemma save_scenarios_error:
  "snd (save_scenarios m) \<noteq> Some DuplicateNameError"
  by (auto simp: save_scenarios_def split: sum.splits if_splits dest: to_dict_all_error)

lemma to_dict_all_keys:
  "to_dict_all xs = Inr data \<Longrightarrow> map fst data = map fst xs"
  by (induction xs arbitrary: data) (auto split: sum.splits)

lemma to_dict_all_lookup:
  "to_dict_all xs = Inr data \<Longrightarrow> map_of xs k = Some s \<Longrightarrow>
     \<exists>d. to_dict s = Inr d \<and> map_of data k = Some d"
  by (induction xs arbitrary: data) (auto split: sum.splits if_splits)

lemma map_fst_update_present:
  "k \<in> set (map fst xs) \<Longrightarrow> map fst (AList.update k v xs) = map fst xs"
  by (induction xs) auto

text \<open>
  C9. \<^verbatim>\<open>get_scenario(name)\<close> returns None for a name that is not a key of the
  collection and the stored scenario for a name that is; it has no raising branch. The
  scenario stored under a name is the one \<^verbatim>\<open>add_scenario\<close> put there last.
\<close>

theorem get_scenario_result:
  "(\<not> dict_contains (scenarios m) n \<longrightarrow> get_scenario m n = None) \<and>
   (dict_contains (scenarios m) n \<longrightarrow>
      (\<exists>s. get_scenario m n = Some s \<and> (n, s) \<in> set (scenarios m))) \<and>
   (name s = PStr n \<longrightarrow> get_scenario (fst (add_scenario m s)) n = Some s)"
proof (intro conjI impI)
  assume "\<not> dict_contains (scenarios m) n"
  then show "get_scenario m n = None"
    by (simp add: dict_contains_def get_scenario_def map_of_eq_None_iff)
next
  assume "dict_contains (scenarios m) n"
  then have "map_of (scenarios m) n \<noteq> None"
    by (simp add: dict_contains_def map_of_eq_None_iff)
  then obtain s where "map_of (scenarios m) n = Some s"
    by auto
  then show "\<exists>s. get_scenario m n = Some s \<and> (n, s) \<in> set (scenarios m)"
    by (auto simp: get_scenario_def dest: map_of_SomeD)
next
  assume "name s = PStr n"
  then show "get_scenario (fst (add_scenario m s)) n = Some s"
    by (simp add: add_scenario_def get_scenario_def save_scenarios_keeps update_conv')
qed

theorem get_scenario_result_witness:
  "\<not> dict_contains (scenarios example_manager) ''Flex_0'' \<and>
   get_scenario example_manager ''Flex_0'' = None \<and>
   dict_contains (scenarios example_manager) ''base_case'' \<and>
   get_scenario example_manager ''base_case'' =
     Some (base_scenario example_enums ''2025-06-01 12:00:00'') \<and>
   name (base_scenario example_enums ''2025-06-01 12:00:00'') = PStr ''base_case'' \<and>
   get_scenario
     (fst (add_scenario example_manager (base_scenario example_enums ''2025-06-01 12:00:00'')))
     ''base_case'' = Some (base_scenario example_enums ''2025-06-01 12:00:00'')"
proof -
  have absent: "\<not> dict_contains (scenarios example_manager) ''Flex_0''"
    by (simp add: dict_contains_def example_manager_def)
  have present: "dict_contains (scenarios example_manager) ''base_case''"
    by (simp add: dict_contains_def example_manager_def)
  have nm: "name (base_scenario example_enums ''2025-06-01 12:00:00'') = PStr ''base_case''"
    by (simp add: base_scenario_def)
  have stored: "get_scenario example_manager ''base_case'' =
     Some (base_scenario example_enums ''2025-06-01 12:00:00'')"
    by (simp add: get_scenario_def example_manager_def)
  show ?thesis
    using absent present nm stored
      get_scenario_result [of example_manager "''Flex_0''"
        "base_scenario example_enums ''2025-06-01 12:00:00''"]
      get_scenario_result [of example_manager "''base_case''"
        "base_scenario example_enums ''2025-06-01 12:00:00''"]
    by simp
qed

text \<open>
  C10. \<^verbatim>\<open>add_scenario\<close> with a scenario whose name is already a key replaces the
  stored record: the name now gives the new scenario, the keys and every other entry are
  as before, no duplicate-name error is raised, and when the call completes the rewritten
  file has the same keys with the new scenario's \<^verbatim>\<open>to_dict\<close> under that name.
\<close>

theorem add_scenario_replaces:
  assumes "name s = PStr n" and "dict_contains (scenarios m) n"
  shows "get_scenario (fst (add_scenario m s)) n = Some s \<and>
         map fst (scenarios (fst (add_scenario m s))) = map fst (scenarios m) \<and>
         (\<forall>k. k \<noteq> n \<longrightarrow> get_scenario (fst (add_scenario m s)) k = get_scenario m k) \<and>
         snd (add_scenario m s) \<noteq> Some DuplicateNameError \<and>
         (snd (add_scenario m s) = None \<longrightarrow>
            (\<exists>data d. disk (fst (add_scenario m s)) = JsonOf data \<and>
               map fst data = map fst (scenarios m) \<and>
               to_dict s = Inr d \<and> map_of data n = Some d))"
proof -
  let ?m1 = "m\<lparr>scenarios := AList.update n s (scenarios m)\<rparr>"
  have eq: "add_scenario m s = save_scenarios ?m1"
    using assms(1) by (simp add: add_scenario_def)
  have sc: "scenarios (fst (add_scenario m s)) = AList.update n s (scenarios m)"
    by (simp add: eq save_scenarios_keeps)
  have keys: "map fst (AList.update n s (scenarios m)) = map fst (scenarios m)"
    using assms(2) by (simp add: dict_contains_def map_fst_update_present)
  have a: "get_scenario (fst (add_scenario m s)) n = Some s"
    by (simp add: get_scenario_def sc update_conv')
  have b: "\<forall>k. k \<noteq> n \<longrightarrow> get_scenario (fst (add_scenario m s)) k = get_scenario m k"
    by (simp add: get_scenario_def sc update_conv')
  have c: "snd (add_scenario m s) \<noteq> Some DuplicateNameError"
    by (simp add: eq save_scenarios_error)
  have d: "snd (add_scenario m s) = None \<longrightarrow>
            (\<exists>data d. disk (fst (add_scenario m s)) = JsonOf data \<and>
               map fst data = map fst (scenarios m) \<and>
               to_dict s = Inr d \<and> map_of data n = Some d)"
  proof
    assume "snd (add_scenario m s) = None"
    then have "save_scenarios ?m1 = (fst (add_scenario m s), None)"
      by (metis eq prod.collapse)
    from save_scenarios_ok [OF this] obtain data where
      td: "to_dict_all (AList.update n s (scenarios m)) = Inr data"
      and m': "fst (add_scenario m s) = ?m1\<lparr>disk := JsonOf data\<rparr>"
      by auto
    have "map_of (AList.update n s (scenarios m)) n = Some s"
      by (simp add: update_conv')
    from to_dict_all_lookup [OF td this] obtain d where
      "to_dict s = Inr d" "map_of data n = Some d" by auto
    moreover have "map fst data = map fst (scenarios m)"
      using to_dict_all_keys [OF td] keys by simp
    moreover have "disk (fst (add_scenario m s)) = JsonOf data"
      by (simp add: m')
    ultimately show "\<exists>data d. disk (fst (add_scenario m s)) = JsonOf data \<and>
               map fst data = map fst (scenarios m) \<and>
               to_dict s = Inr d \<and> map_of data n = Some d"
      by blast
  qed
  show ?thesis using a b c d sc keys by simp
qed

theorem add_scenario_replaces_witness:
  "name ((base_scenario example_enums ''2025-06-02 08:00:00'')\<lparr>description := PStr ''again''\<rparr>)
     = PStr ''base_case'' \<and>
   dict_contains (scenarios example_manager) ''base_case'' \<and>
   get_scenario
     (fst (add_scenario example_manager
        ((base_scenario example_enums ''2025-06-02 08:00:00'')\<lparr>description := PStr ''again''\<rparr>)))
     ''base_case''
     = Some ((base_scenario example_enums ''2025-06-02 08:00:00'')\<lparr>description := PStr ''again''\<rparr>) \<and>
   map fst (scenarios (fst (add_scenario example_manager
        ((base_scenario example_enums ''2025-06-02 08:00:00'')\<lparr>description := PStr ''again''\<rparr>))))
     = [''base_case''] \<and>
   snd (add_scenario example_manager
        ((base_scenario example_enums ''2025-06-02 08:00:00'')\<lparr>description := PStr ''again''\<rparr>))
     = None"
proof -
  let ?s = "(base_scenario example_enums ''2025-06-02 08:00:00'')\<lparr>description := PStr ''again''\<rparr>"
  have nm: "name ?s = PStr ''base_case''"
    by (simp add: base_scenario_def)
  have present: "dict_contains (scenarios example_manager) ''base_case''"
    by (simp add: dict_contains_def example_manager_def)
  have keys: "map fst (scenarios example_manager) = [''base_case'']"
    by (simp add: example_manager_def)
  have completes: "snd (add_scenario example_manager ?s) = None"
    by (simp add: add_scenario_def base_scenario_def example_manager_def save_scenarios_def
        to_dict_def attr_value_def)
  show ?thesis
    using nm present keys completes add_scenario_replaces [OF nm present]
    by simp
qed

lemma save_scenarios_holds:
  "save_scenarios m = (m', None) \<Longrightarrow> store_holds_collection m' \<and> scenarios m' = scenarios m"
  by (auto simp: store_holds_collection_def dest!: save_scenarios_ok)

text \<open>
  C7, as stated, fails: \<^verbatim>\<open>update_scenario\<close> and \<^verbatim>\<open>delete_scenario\<close> return at
  once for a name that is not in the collection, without saving. On the manager built
  over a missing file both calls complete and the file still does not hold the
  serialization of the (empty) collection.
\<close>

theorem noop_leaves_store_counterexample:
  "ScenarioManager_init example_enums ''2025-06-01 12:00:00'' ''simulation/scenarios.json'' Absent True
     = Inr fresh_manager \<and>
   delete_scenario fresh_manager ''Flex_0'' = (fresh_manager, None) \<and>
   update_scenario fresh_manager ''Flex_0'' [(''results_path'', PStr ''results/Flex_0/results_1'')]
     = (fresh_manager, None) \<and>
   \<not> store_holds_collection fresh_manager"
  by (simp add: ScenarioManager_init_def fresh_manager_def delete_scenario_def update_scenario_def
      dict_contains_def store_holds_collection_def)

text \<open>
  C7, amended. \<^verbatim>\<open>add_scenario\<close> always, and \<^verbatim>\<open>update_scenario\<close> and
  \<^verbatim>\<open>delete_scenario\<close> for a name that is in the collection, rewrite the whole store:
  when the call completes, the file holds the \<^verbatim>\<open>to_dict\<close> of every scenario now in
  memory, whatever it held before. For a name that is not in the collection,
  \<^verbatim>\<open>update_scenario\<close> and \<^verbatim>\<open>delete_scenario\<close> change neither memory nor file.
\<close>

theorem mutation_rewrites_store:
  "(add_scenario m s = (m1, None) \<longrightarrow>
      store_holds_collection m1 \<and>
      (\<exists>k. name s = PStr k \<and> scenarios m1 = AList.update k s (scenarios m))) \<and>
   (dict_contains (scenarios m) n \<and> update_scenario m n kwargs = (m2, None) \<longrightarrow>
      store_holds_collection m2 \<and> map fst (scenarios m2) = map fst (scenarios m)) \<and>
   (dict_contains (scenarios m) n \<and> delete_scenario m n = (m3, None) \<longrightarrow>
      store_holds_collection m3 \<and> scenarios m3 = AList.delete n (scenarios m)) \<and>
   (\<not> dict_contains (scenarios m) n \<longrightarrow>
      update_scenario m n kwargs = (m, None) \<and> delete_scenario m n = (m, None))"
proof -
  have add: "add_scenario m s = (m1, None) \<longrightarrow>
      store_holds_collection m1 \<and>
      (\<exists>k. name s = PStr k \<and> scenarios m1 = AList.update k s (scenarios m))"
  proof
    assume a: "add_scenario m s = (m1, None)"
    then have "\<exists>k. name s = PStr k"
      by (cases "name s") (simp_all add: add_scenario_def)
    then obtain k where k: "name s = PStr k" by blast
    with a have sv:
      "save_scenarios (m\<lparr>scenarios := AList.update k s (scenarios m)\<rparr>) = (m1, None)"
      by (simp add: add_scenario_def)
    from save_scenarios_holds [OF sv] k
    show "store_holds_collection m1 \<and>
        (\<exists>k. name s = PStr k \<and> scenarios m1 = AList.update k s (scenarios m))"
      by simp
  qed
  have upd: "dict_contains (scenarios m) n \<and> update_scenario m n kwargs = (m2, None) \<longrightarrow>
      store_holds_collection m2 \<and> map fst (scenarios m2) = map fst (scenarios m)"
  proof
    assume a: "dict_contains (scenarios m) n \<and> update_scenario m n kwargs = (m2, None)"
    then have "map_of (scenarios m) n \<noteq> None"
      by (simp add: dict_contains_def map_of_eq_None_iff)
    then obtain sc where sc: "map_of (scenarios m) n = Some sc" by auto
    with a have sv: "save_scenarios (m\<lparr>scenarios :=
         AList.update n (fold (\<lambda>(key, v) s. setattr s key v) kwargs sc) (scenarios m)\<rparr>)
         = (m2, None)"
      by (auto simp: update_scenario_def)
    from save_scenarios_holds [OF sv] a
    show "store_holds_collection m2 \<and> map fst (scenarios m2) = map fst (scenarios m)"
      by (simp add: dict_contains_def map_fst_update_present)
  qed
  have del: "dict_contains (scenarios m) n \<and> delete_scenario m n = (m3, None) \<longrightarrow>
      store_holds_collection m3 \<and> scenarios m3 = AList.delete n (scenarios m)"
  proof
    assume a: "dict_contains (scenarios m) n \<and> delete_scenario m n = (m3, None)"
    then have sv: "save_scenarios (m\<lparr>scenarios := AList.delete n (scenarios m)\<rparr>) = (m3, None)"
      by (auto simp: delete_scenario_def)
    from save_scenarios_holds [OF sv]
    show "store_holds_collection m3 \<and> scenarios m3 = AList.delete n (scenarios m)"
      by simp
  qed
  have noop: "\<not> dict_contains (scenarios m) n \<longrightarrow>
      update_scenario m n kwargs = (m, None) \<and> delete_scenario m n = (m, None)"
  proof
    assume a: "\<not> dict_contains (scenarios m) n"
    then have "map_of (scenarios m) n = None"
      by (simp add: dict_contains_def map_of_eq_None_iff)
    with a show "update_scenario m n kwargs = (m, None) \<and> delete_scenario m n = (m, None)"
      by (simp add: update_scenario_def delete_scenario_def)
  qed
  from add upd del noop show ?thesis by blast
qed

theorem mutation_rewrites_store_witness:
  "add_scenario fresh_manager (base_scenario example_enums ''2025-06-01 12:00:00'')
     = (fst (add_scenario fresh_manager (base_scenario example_enums ''2025-06-01 12:00:00'')), None) \<and>
   store_holds_collection
     (fst (add_scenario fresh_manager (base_scenario example_enums ''2025-06-01 12:00:00''))) \<and>
   dict_contains (scenarios example_manager) ''base_case'' \<and>
   update_scenario example_manager ''base_case''
       [(''results_path'', PStr ''results/base_case/results_20250601_120000'')]
     = (fst (update_scenario example_manager ''base_case''
          [(''results_path'', PStr ''results/base_case/results_20250601_120000'')]), None) \<and>
   store_holds_collection
     (fst (update_scenario example_manager ''base_case''
          [(''results_path'', PStr ''results/base_case/results_20250601_120000'')])) \<and>
   delete_scenario example_manager ''base_case''
     = (fst (delete_scenario example_manager ''base_case''), None) \<and>
   store_holds_collection (fst (delete_scenario example_manager ''base_case'')) \<and>
   \<not> dict_contains (scenarios example_manager) ''Flex_0'' \<and>
   delete_scenario example_manager ''Flex_0'' = (example_manager, None)"
proof -
  let ?b = "base_scenario example_enums ''2025-06-01 12:00:00''"
  let ?kw = "[(''results_path'', PStr ''results/base_case/results_20250601_120000'')]"
  have a: "add_scenario fresh_manager ?b = (fst (add_scenario fresh_manager ?b), None)"
    by (simp add: add_scenario_def base_scenario_def fresh_manager_def save_scenarios_def
        to_dict_def attr_value_def)
  have p: "dict_contains (scenarios example_manager) ''base_case''"
    by (simp add: dict_contains_def example_manager_def)
  have u: "update_scenario example_manager ''base_case'' ?kw
      = (fst (update_scenario example_manager ''base_case'' ?kw), None)"
    by (simp add: update_scenario_def base_scenario_def example_manager_def save_scenarios_def
        to_dict_def attr_value_def setattr_def)
  have d: "delete_scenario example_manager ''base_case''
      = (fst (delete_scenario example_manager ''base_case''), None)"
    by (simp add: delete_scenario_def dict_contains_def example_manager_def save_scenarios_def
        to_dict_def attr_value_def)
  have q: "\<not> dict_contains (scenarios example_manager) ''Flex_0''"
    by (simp add: dict_contains_def example_manager_def)
  show ?thesis
    using a p u d q
      mutation_rewrites_store [of fresh_manager ?b "fst (add_scenario fresh_manager ?b)"
        "''base_case''" ?kw fresh_manager fresh_manager]
      mutation_rewrites_store [of example_manager ?b example_manager "''base_case''" ?kw
        "fst (update_scenario example_manager ''base_case'' ?kw)"
        "fst (delete_scenario example_manager ''base_case'')"]
      mutation_rewrites_store [of example_manager ?b example_manager "''Flex_0''" ?kw
        example_manager example_manager]
    by blast
qed

section \<open>Round trip and defaults of the scenario document\<close>

lemma dict_pop_Some: "map_of d k = Some v \<Longrightarrow> dict_pop d k x = (v, AList.delete k d)"
  by (simp add: dict_pop_def)

lemma dict_pop_None: "map_of d k = None \<Longrightarrow> dict_pop d k x = (x, d)"
  by (simp add: dict_pop_def)

lemma map_fst_delete: "map fst (AList.delete k d) = filter (\<lambda>x. x \<noteq> k) (map fst d)"
  by (induction d) auto

lemma map_fst_update:
  "map fst (AList.update k v d) = (if k \<in> set (map fst d) then map fst d else map fst d @ [k])"
  by (induction d) auto

lemma distinct_update_iff: "distinct (map fst (AList.update k v d)) = distinct (map fst d)"
  by (simp add: map_fst_update)

text \<open>The loop of fill_defaults over any list of defaults.\<close>

lemma fill_step_map_of:
  "map_of (fold (\<lambda>(key, dv) d. if dict_contains d key then d else AList.update key dv d) ds d) k
     = (case map_of d k of Some v \<Rightarrow> Some v | None \<Rightarrow> map_of ds k)"
proof (induction ds arbitrary: d)
  case Nil
  then show ?case by (simp split: option.splits)
next
  case (Cons p ds)
  obtain key dv where p: "p = (key, dv)" by (cases p)
  show ?case
  proof (cases "dict_contains d key")
    case True
    then have "map_of d key \<noteq> None"
      by (simp add: dict_contains_def map_of_eq_None_iff)
    then show ?thesis using True Cons.IH [of d] p
      by (auto split: option.splits)
  next
    case False
    then have "map_of d key = None"
      by (simp add: dict_contains_def map_of_eq_None_iff)
    then show ?thesis using False Cons.IH [of "AList.update key dv d"] p
      by (auto simp: update_conv' split: option.splits)
  qed
qed

lemma fill_step_keys:
  "set (map fst (fold (\<lambda>(key, dv) d. if dict_contains d key then d else AList.update key dv d) ds d))
     = set (map fst d) \<union> set (map fst ds)"
proof (induction ds arbitrary: d)
  case Nil
  then show ?case by simp
next
  case (Cons p ds)
  obtain key dv where p: "p = (key, dv)" by (cases p)
  show ?case using Cons.IH [of d] Cons.IH [of "AList.update key dv d"] p
    by (auto simp: dict_contains_def map_fst_update)
qed

lemma fill_step_distinct:
  "distinct (map fst (fold (\<lambda>(key, dv) d. if dict_contains d key then d else AList.update key dv d) ds d))
     = distinct (map fst d)"
proof (induction ds arbitrary: d)
  case Nil
  then show ?case by simp
next
  case (Cons p ds)
  obtain key dv where p: "p = (key, dv)" by (cases p)
  show ?case using Cons.IH [of d] Cons.IH [of "AList.update key dv d"] p
    by (simp add: distinct_update_iff)
qed

lemma fill_step_id:
  "set (map fst ds) \<subseteq> set (map fst d) \<Longrightarrow>
   fold (\<lambda>(key, dv) d. if dict_contains d key then d else AList.update key dv d) ds d = d"
proof (induction ds)
  case Nil
  then show ?case by simp
next
  case (Cons p ds)
  obtain key dv where p: "p = (key, dv)" by (cases p)
  from Cons.prems p have "dict_contains d key"
    by (simp add: dict_contains_def)
  with Cons p show ?case by simp
qed

lemma map_of_fill_defaults:
  "map_of (fill_defaults d) k = (case map_of d k of Some v \<Rightarrow> Some v | None \<Rightarrow> map_of defaults k)"
  unfolding fill_defaults_def by (rule fill_step_map_of)

lemma keys_fill_defaults:
  "set (map fst (fill_defaults d)) = set (map fst d) \<union> set (map fst defaults)"
  unfolding fill_defaults_def by (rule fill_step_keys)

lemma distinct_fill_defaults:
  "distinct (map fst (fill_defaults d)) = distinct (map fst d)"
  unfolding fill_defaults_def by (rule fill_step_distinct)

lemma fill_defaults_id:
  "set (map fst defaults) \<subseteq> set (map fst d) \<Longrightarrow> fill_defaults d = d"
  unfolding fill_defaults_def by (rule fill_step_id)

lemma map_of_append_lookup:
  "map_of (xs @ ys) k = (case map_of xs k of Some v \<Rightarrow> Some v | None \<Rightarrow> map_of ys k)"
  by (simp add: map_add_def split: option.splits)


lemma from_dict_to_dict_aux:
  assumes bt: "builder_type S = PEnum ''BuilderType'' b" and b: "b \<in> set (BuilderType_values E)"
    and sv: "solver S = PEnum ''SolverType'' s" and s: "s \<in> set (SolverType_values E)"
    and dt: "dispatch_type S = PEnum ''DispatchType'' d" and d: "d \<in> set (DispatchType_values E)"
    and ca: "created_at S \<noteq> PNone"
  shows "\<exists>doc. to_dict S = Inr doc \<and> from_dict E now doc = Inr (S\<lparr>extra_attrs := []\<rparr>) \<and>
           map_of doc ''dispatch_options'' = Some (PDict
             [(''optimizer_type'', optimizer_type S), (''builder_type'', PStr b),
              (''solver'', PStr s), (''dispatch_type'', PStr d),
              (''pred_hor'', pred_hor S), (''contr_hor'', contr_hor S)]) \<and>
           equipment_keys doc = []"
proof -
  define dopts where "dopts =
    [(''optimizer_type'', optimizer_type S), (''builder_type'', PStr b),
     (''solver'', PStr s), (''dispatch_type'', PStr d),
     (''pred_hor'', pred_hor S), (''contr_hor'', contr_hor S)]"
  define dopts3 where "dopts3 =
    [(''optimizer_type'', optimizer_type S), (''builder_type'', builder_type S),
     (''solver'', solver S), (''dispatch_type'', dispatch_type S),
     (''pred_hor'', pred_hor S), (''contr_hor'', contr_hor S)]"
  define md where "md = [(''created_at'', created_at S), (''results_path'', results_path S)]"
  define full where "full = [
    (''name'', name S),
    (''description'', description S),
    (''price_starttime'', price_starttime S),
    (''demand_starttime'', demand_starttime S),
    (''length'', length_field S),
    (''freq'', freq S),
    (''gas_turbine_minload_electricity_capacity'', gas_turbine_minload_electricity_capacity S),
    (''gas_turbine_maxload_electricity_capacity'', gas_turbine_maxload_electricity_capacity S),
    (''gas_turbine_minload_electricity_efficiency'', gas_turbine_minload_electricity_efficiency S),
    (''gas_turbine_maxload_electricity_efficiency'', gas_turbine_maxload_electricity_efficiency S),
    (''gas_turbine_minload_heat_efficiency'', gas_turbine_minload_heat_efficiency S),
    (''gas_turbine_maxload_heat_efficiency'', gas_turbine_maxload_heat_efficiency S),
    (''gas_boiler_efficiency'', gas_boiler_efficiency S),
    (''gas_boiler_capacity'', gas_boiler_capacity S),
    (''e_boiler_efficiency'', e_boiler_efficiency S),
    (''e_boiler_capacity'', e_boiler_capacity S),
    (''hrsg_efficiency'', hrsg_efficiency S),
    (''hrsg_capacity'', hrsg_capacity S),
    (''elec_offtake_contract_param_a'', elec_offtake_contract_param_a S),
    (''elec_offtake_contract_param_b'', elec_offtake_contract_param_b S),
    (''elec_injection_contract_param_a'', elec_injection_contract_param_a S),
    (''elec_injection_contract_param_b'', elec_injection_contract_param_b S),
    (''elec_grid_cost_energy'', elec_grid_cost_energy S),
    (''elec_grid_cost_power_peak'', elec_grid_cost_power_peak S),
    (''elec_grid_cost_power_fixed'', elec_grid_cost_power_fixed S),
    (''elec_grid_cost_max_tariff'', elec_grid_cost_max_tariff S),
    (''elec_offtake_tax_energy'', elec_offtake_tax_energy S),
    (''gas_offtake_contract_param_a'', gas_offtake_contract_param_a S),
    (''gas_offtake_contract_param_b'', gas_offtake_contract_param_b S),
    (''gas_grid_cost_energy'', gas_grid_cost_energy S),
    (''dispatch_options'', PDict dopts),
    (''metadata'', PDict md)]"
  define data1 where "data1 = AList.delete ''dispatch_options'' full"
  define data2 where "data2 = AList.delete ''metadata'' data1"
  define kw where "kw = data2 @ dopts3 @ md"
  have td: "to_dict S = Inr full"
    by (simp add: to_dict_def attr_value_def bt sv dt full_def dopts_def md_def)
  have keys: "map fst full =
    [''name'', ''description'', ''price_starttime'', ''demand_starttime'', ''length'',
     ''freq'', ''gas_turbine_minload_electricity_capacity'',
     ''gas_turbine_maxload_electricity_capacity'',
     ''gas_turbine_minload_electricity_efficiency'',
     ''gas_turbine_maxload_electricity_efficiency'', ''gas_turbine_minload_heat_efficiency'',
     ''gas_turbine_maxload_heat_efficiency'', ''gas_boiler_efficiency'',
     ''gas_boiler_capacity'', ''e_boiler_efficiency'', ''e_boiler_capacity'',
     ''hrsg_efficiency'', ''hrsg_capacity'', ''elec_offtake_contract_param_a'',
     ''elec_offtake_contract_param_b'', ''elec_injection_contract_param_a'',
     ''elec_injection_contract_param_b'', ''elec_grid_cost_energy'',
     ''elec_grid_cost_power_peak'', ''elec_grid_cost_power_fixed'',
     ''elec_grid_cost_max_tariff'', ''elec_offtake_tax_energy'',
     ''gas_offtake_contract_param_a'', ''gas_offtake_contract_param_b'',
     ''gas_grid_cost_energy'', ''dispatch_options'', ''metadata'']"
    by (simp add: full_def)
  have dist: "distinct (map fst full)"
    unfolding keys by code_simp
  have m_name: "(''name'', name S) \<in> set full"
    unfolding full_def by (rule list.set_intros(1) | rule list.set_intros(2))+
  have m_description: "(''description'', description S) \<in> set full"
    unfolding full_def by (rule list.set_intros(1) | rule list.set_intros(2))+
  have m_price_starttime: "(''price_starttime'', price_starttime S) \<in> set full"
    unfolding full_def by (rule list.set_intros(1) | rule list.set_intros(2))+
  have m_demand_starttime: "(''demand_starttime'', demand_starttime S) \<in> set full"
    unfolding full_def by (rule list.set_intros(1) | rule list.set_intros(2))+
  have m_length_field: "(''length'', length_field S) \<in> set full"
    unfolding full_def by (rule list.set_intros(1) | rule list.set_intros(2))+
  have m_freq: "(''freq'', freq S) \<in> set full"
    unfolding full_def by (rule list.set_intros(1) | rule list.set_intros(2))+
  have m_gas_turbine_minload_electricity_capacity: "(''gas_turbine_minload_electricity_capacity'', gas_turbine_minload_electricity_capacity S) \<in> set full"
    unfolding full_def by (rule list.set_intros(1) | rule list.set_intros(2))+
  have m_gas_turbine_maxload_electricity_capacity: "(''gas_turbine_maxload_electricity_capacity'', gas_turbine_maxload_electricity_capacity S) \<in> set full"
    unfolding full_def by (rule list.set_intros(1) | rule list.set_intros(2))+
  have m_gas_turbine_minload_electricity_efficiency: "(''gas_turbine_minload_electricity_efficiency'', gas_turbine_minload_electricity_efficiency S) \<in> set full"
    unfolding full_def by (rule list.set_intros(1) | rule list.set_intros(2))+
  have m_gas_turbine_maxload_electricity_efficiency: "(''gas_turbine_maxload_electricity_efficiency'', gas_turbine_maxload_electricity_efficiency S) \<in> set full"
    unfolding full_def by (rule list.set_intros(1) | rule list.set_intros(2))+
  have m_gas_turbine_minload_heat_efficiency: "(''gas_turbine_minload_heat_efficiency'', gas_turbine_minload_heat_efficiency S) \<in> set full"
    unfolding full_def by (rule list.set_intros(1) | rule list.set_intros(2))+
  have m_gas_turbine_maxload_heat_efficiency: "(''gas_turbine_maxload_heat_efficiency'', gas_turbine_maxload_heat_efficiency S) \<in> set full"
    unfolding full_def by (rule list.set_intros(1) | rule list.set_intros(2))+
  have m_gas_boiler_efficiency: "(''gas_boiler_efficiency'', gas_boiler_efficiency S) \<in> set full"
    unfolding full_def by (rule list.set_intros(1) | rule list.set_intros(2))+
  have m_gas_boiler_capacity: "(''gas_boiler_capacity'', gas_boiler_capacity S) \<in> set full"
    unfolding full_def by (rule list.set_intros(1) | rule list.set_intros(2))+
  have m_e_boiler_efficiency: "(''e_boiler_efficiency'', e_boiler_efficiency S) \<in> set full"
    unfolding full_def by (rule list.set_intros(1) | rule list.set_intros(2))+
  have m_e_boiler_capacity: "(''e_boiler_capacity'', e_boiler_capacity S) \<in> set full"
    unfolding full_def by (rule list.set_intros(1) | rule list.set_intros(2))+
  have m_hrsg_efficiency: "(''hrsg_efficiency'', hrsg_efficiency S) \<in> set full"
    unfolding full_def by (rule list.set_intros(1) | rule list.set_intros(2))+
  have m_hrsg_capacity: "(''hrsg_capacity'', hrsg_capacity S) \<in> set full"
    unfolding full_def by (rule list.set_intros(1) | rule list.set_intros(2))+
  have m_elec_offtake_contract_param_a: "(''elec_offtake_contract_param_a'', elec_offtake_contract_param_a S) \<in> set full"
    unfolding full_def by (rule list.set_intros(1) | rule list.set_intros(2))+
  have m_elec_offtake_contract_param_b: "(''elec_offtake_contract_param_b'', elec_offtake_contract_param_b S) \<in> set full"
    unfolding full_def by (rule list.set_intros(1) | rule list.set_intros(2))+
  have m_elec_injection_contract_param_a: "(''elec_injection_contract_param_a'', elec_injection_contract_param_a S) \<in> set full"
    unfolding full_def by (rule list.set_intros(1) | rule list.set_intros(2))+
  have m_elec_injection_contract_param_b: "(''elec_injection_contract_param_b'', elec_injection_contract_param_b S) \<in> set full"
    unfolding full_def by (rule list.set_intros(1) | rule list.set_intros(2))+
  have m_elec_grid_cost_energy: "(''elec_grid_cost_energy'', elec_grid_cost_energy S) \<in> set full"
    unfolding full_def by (rule list.set_intros(1) | rule list.set_intros(2))+
  have m_elec_grid_cost_power_peak: "(''elec_grid_cost_power_peak'', elec_grid_cost_power_peak S) \<in> set full"
    unfolding full_def by (rule list.set_intros(1) | rule list.set_intros(2))+
  have m_elec_grid_cost_power_fixed: "(''elec_grid_cost_power_fixed'', elec_grid_cost_power_fixed S) \<in> set full"
    unfolding full_def by (rule list.set_intros(1) | rule list.set_intros(2))+
  have m_elec_grid_cost_max_tariff: "(''elec_grid_cost_max_tariff'', elec_grid_cost_max_tariff S) \<in> set full"
    unfolding full_def by (rule list.set_intros(1) | rule list.set_intros(2))+
  have m_elec_offtake_tax_energy: "(''elec_offtake_tax_energy'', elec_offtake_tax_energy S) \<in> set full"
    unfolding full_def by (rule list.set_intros(1) | rule list.set_intros(2))+
  have m_gas_offtake_contract_param_a: "(''gas_offtake_contract_param_a'', gas_offtake_contract_param_a S) \<in> set full"
    unfolding full_def by (rule list.set_intros(1) | rule list.set_intros(2))+
  have m_gas_offtake_contract_param_b: "(''gas_offtake_contract_param_b'', gas_offtake_contract_param_b S) \<in> set full"
    unfolding full_def by (rule list.set_intros(1) | rule list.set_intros(2))+
  have m_gas_grid_cost_energy: "(''gas_grid_cost_energy'', gas_grid_cost_energy S) \<in> set full"
    unfolding full_def by (rule list.set_intros(1) | rule list.set_intros(2))+
  have m_dispatch_options: "(''dispatch_options'', PDict dopts) \<in> set full"
    unfolding full_def by (rule list.set_intros(1) | rule list.set_intros(2))+
  have m_metadata: "(''metadata'', PDict md) \<in> set full"
    unfolding full_def by (rule list.set_intros(1) | rule list.set_intros(2))+
  note l_dispatch_options = map_of_is_SomeI [OF dist m_dispatch_options]
  note l_metadata = map_of_is_SomeI [OF dist m_metadata]
  have n_optimizer_type: "map_of full ''optimizer_type'' = None"
  proof -
    have "''optimizer_type'' \<notin> set (map fst full)" unfolding keys by code_simp
    then show ?thesis by (simp add: map_of_eq_None_iff)
  qed
  have n_builder_type: "map_of full ''builder_type'' = None"
  proof -
    have "''builder_type'' \<notin> set (map fst full)" unfolding keys by code_simp
    then show ?thesis by (simp add: map_of_eq_None_iff)
  qed
  have n_solver: "map_of full ''solver'' = None"
  proof -
    have "''solver'' \<notin> set (map fst full)" unfolding keys by code_simp
    then show ?thesis by (simp add: map_of_eq_None_iff)
  qed
  have n_dispatch_type: "map_of full ''dispatch_type'' = None"
  proof -
    have "''dispatch_type'' \<notin> set (map fst full)" unfolding keys by code_simp
    then show ?thesis by (simp add: map_of_eq_None_iff)
  qed
  have n_pred_hor: "map_of full ''pred_hor'' = None"
  proof -
    have "''pred_hor'' \<notin> set (map fst full)" unfolding keys by code_simp
    then show ?thesis by (simp add: map_of_eq_None_iff)
  qed
  have n_contr_hor: "map_of full ''contr_hor'' = None"
  proof -
    have "''contr_hor'' \<notin> set (map fst full)" unfolding keys by code_simp
    then show ?thesis by (simp add: map_of_eq_None_iff)
  qed
  have n_created_at: "map_of full ''created_at'' = None"
  proof -
    have "''created_at'' \<notin> set (map fst full)" unfolding keys by code_simp
    then show ?thesis by (simp add: map_of_eq_None_iff)
  qed
  have n_results_path: "map_of full ''results_path'' = None"
  proof -
    have "''results_path'' \<notin> set (map fst full)" unfolding keys by code_simp
    then show ?thesis by (simp add: map_of_eq_None_iff)
  qed
  have n_equipment_params: "map_of full ''equipment_params'' = None"
  proof -
    have "''equipment_params'' \<notin> set (map fst full)" unfolding keys by code_simp
    then show ?thesis by (simp add: map_of_eq_None_iff)
  qed
  have p1: "dict_pop full ''dispatch_options'' (PDict []) = (PDict dopts, data1)"
    unfolding data1_def by (rule dict_pop_Some [OF l_dispatch_options])
  have "map_of data1 ''metadata'' = Some (PDict md)"
    by (simp add: data1_def delete_conv' l_metadata)
  then have p2: "dict_pop data1 ''metadata'' (PDict []) = (PDict md, data2)"
    unfolding data2_def by (rule dict_pop_Some)
  have "map_of data2 ''equipment_params'' = None"
    by (simp add: data2_def data1_def delete_conv' n_equipment_params)
  then have p3: "dict_pop data2 ''equipment_params'' (PDict []) = (PDict [], data2)"
    by (rule dict_pop_None)
  have mg: "migrate data2 (PDict []) = Inr data2"
    by (simp add: migrate_def)
  have e1: "convert_enum ''BuilderType'' (BuilderType_values E) ''builder_type'' (PDict dopts) =
      Inr (PDict [(''optimizer_type'', optimizer_type S), (''builder_type'', builder_type S),
        (''solver'', PStr s), (''dispatch_type'', PStr d),
        (''pred_hor'', pred_hor S), (''contr_hor'', contr_hor S)])"
    by (simp add: convert_enum_def enum_call_def dopts_def b bt)
  have e2: "convert_enum ''SolverType'' (SolverType_values E) ''solver''
      (PDict [(''optimizer_type'', optimizer_type S), (''builder_type'', builder_type S),
        (''solver'', PStr s), (''dispatch_type'', PStr d),
        (''pred_hor'', pred_hor S), (''contr_hor'', contr_hor S)]) =
      Inr (PDict [(''optimizer_type'', optimizer_type S), (''builder_type'', builder_type S),
        (''solver'', solver S), (''dispatch_type'', PStr d),
        (''pred_hor'', pred_hor S), (''contr_hor'', contr_hor S)])"
    by (simp add: convert_enum_def enum_call_def s sv)
  have e3: "convert_enum ''DispatchType'' (DispatchType_values E) ''dispatch_type''
      (PDict [(''optimizer_type'', optimizer_type S), (''builder_type'', builder_type S),
        (''solver'', solver S), (''dispatch_type'', PStr d),
        (''pred_hor'', pred_hor S), (''contr_hor'', contr_hor S)]) = Inr (PDict dopts3)"
    by (simp add: convert_enum_def enum_call_def dopts3_def d dt)
  have k2: "map fst data2 =
      filter (\<lambda>x. x \<noteq> ''metadata'') (filter (\<lambda>x. x \<noteq> ''dispatch_options'')
    [''name'', ''description'', ''price_starttime'', ''demand_starttime'', ''length'',
     ''freq'', ''gas_turbine_minload_electricity_capacity'',
     ''gas_turbine_maxload_electricity_capacity'',
     ''gas_turbine_minload_electricity_efficiency'',
     ''gas_turbine_maxload_electricity_efficiency'', ''gas_turbine_minload_heat_efficiency'',
     ''gas_turbine_maxload_heat_efficiency'', ''gas_boiler_efficiency'',
     ''gas_boiler_capacity'', ''e_boiler_efficiency'', ''e_boiler_capacity'',
     ''hrsg_efficiency'', ''hrsg_capacity'', ''elec_offtake_contract_param_a'',
     ''elec_offtake_contract_param_b'', ''elec_injection_contract_param_a'',
     ''elec_injection_contract_param_b'', ''elec_grid_cost_energy'',
     ''elec_grid_cost_power_peak'', ''elec_grid_cost_power_fixed'',
     ''elec_grid_cost_max_tariff'', ''elec_offtake_tax_energy'',
     ''gas_offtake_contract_param_a'', ''gas_offtake_contract_param_b'',
     ''gas_grid_cost_energy'', ''dispatch_options'', ''metadata''])"
    by (simp only: data2_def data1_def map_fst_delete keys)
  have "set (map fst defaults) \<subseteq> set (map fst data2)"
    unfolding k2 by code_simp
  then have fd: "fill_defaults data2 = data2"
    by (rule fill_defaults_id)
  have fdk: "from_dict E now full = Scenario_init E now kw"
    by (simp add: from_dict_def p1 p2 p3 mg e1 e2 e3 fd kw_def)
  have kd: "map fst dopts3 = [''optimizer_type'', ''builder_type'', ''solver'', ''dispatch_type'', ''pred_hor'', ''contr_hor'']"
    by (simp add: dopts3_def)
  have km: "map fst md = [''created_at'', ''results_path'']"
    by (simp add: md_def)
  have kk: "map fst kw =
      filter (\<lambda>x. x \<noteq> ''metadata'') (filter (\<lambda>x. x \<noteq> ''dispatch_options'')
    [''name'', ''description'', ''price_starttime'', ''demand_starttime'', ''length'',
     ''freq'', ''gas_turbine_minload_electricity_capacity'',
     ''gas_turbine_maxload_electricity_capacity'',
     ''gas_turbine_minload_electricity_efficiency'',
     ''gas_turbine_maxload_electricity_efficiency'', ''gas_turbine_minload_heat_efficiency'',
     ''gas_turbine_maxload_heat_efficiency'', ''gas_boiler_efficiency'',
     ''gas_boiler_capacity'', ''e_boiler_efficiency'', ''e_boiler_capacity'',
     ''hrsg_efficiency'', ''hrsg_capacity'', ''elec_offtake_contract_param_a'',
     ''elec_offtake_contract_param_b'', ''elec_injection_contract_param_a'',
     ''elec_injection_contract_param_b'', ''elec_grid_cost_energy'',
     ''elec_grid_cost_power_peak'', ''elec_grid_cost_power_fixed'',
     ''elec_grid_cost_max_tariff'', ''elec_offtake_tax_energy'',
     ''gas_offtake_contract_param_a'', ''gas_offtake_contract_param_b'',
     ''gas_grid_cost_energy'', ''dispatch_options'', ''metadata''])
      @ [''optimizer_type'', ''builder_type'', ''solver'', ''dispatch_type'', ''pred_hor'', ''contr_hor'']
      @ [''created_at'', ''results_path'']"
    by (simp only: kw_def map_append k2 kd km)
  have c1: "distinct (map fst kw)"
    unfolding kk by code_simp
  have c2: "set (map fst kw) \<subseteq> set (required_fields @ optional_fields)"
    unfolding kk by code_simp
  have c3: "set required_fields \<subseteq> set (map fst kw)"
    unfolding kk by code_simp
  have a_name: "arg kw ''name'' PNone = name S"
  proof -
    have "map_of data2 ''name'' = Some (name S)"
      by (simp add: data2_def data1_def delete_conv' map_of_is_SomeI [OF dist m_name])
    then show ?thesis
      by (simp add: arg_def kw_def map_of_append_lookup del: map_of_append)
  qed
  have a_description: "arg kw ''description'' PNone = description S"
  proof -
    have "map_of data2 ''description'' = Some (description S)"
      by (simp add: data2_def data1_def delete_conv' map_of_is_SomeI [OF dist m_description])
    then show ?thesis
      by (simp add: arg_def kw_def map_of_append_lookup del: map_of_append)
  qed
  have a_price_starttime: "arg kw ''price_starttime'' PNone = price_starttime S"
  proof -
    have "map_of data2 ''price_starttime'' = Some (price_starttime S)"
      by (simp add: data2_def data1_def delete_conv' map_of_is_SomeI [OF dist m_price_starttime])
    then show ?thesis
      by (simp add: arg_def kw_def map_of_append_lookup del: map_of_append)
  qed
  have a_demand_starttime: "arg kw ''demand_starttime'' PNone = demand_starttime S"
  proof -
    have "map_of data2 ''demand_starttime'' = Some (demand_starttime S)"
      by (simp add: data2_def data1_def delete_conv' map_of_is_SomeI [OF dist m_demand_starttime])
    then show ?thesis
      by (simp add: arg_def kw_def map_of_append_lookup del: map_of_append)
  qed
  have a_length_field: "arg kw ''length'' PNone = length_field S"
  proof -
    have "map_of data2 ''length'' = Some (length_field S)"
      by (simp add: data2_def data1_def delete_conv' map_of_is_SomeI [OF dist m_length_field])
    then show ?thesis
      by (simp add: arg_def kw_def map_of_append_lookup del: map_of_append)
  qed
  have a_freq: "arg kw ''freq'' (PStr ''h'') = freq S"
  proof -
    have "map_of data2 ''freq'' = Some (freq S)"
      by (simp add: data2_def data1_def delete_conv' map_of_is_SomeI [OF dist m_freq])
    then show ?thesis
      by (simp add: arg_def kw_def map_of_append_lookup del: map_of_append)
  qed
  have a_gas_turbine_minload_electricity_capacity: "arg kw ''gas_turbine_minload_electricity_capacity'' PNone = gas_turbine_minload_electricity_capacity S"
  proof -
    have "map_of data2 ''gas_turbine_minload_electricity_capacity'' = Some (gas_turbine_minload_electricity_capacity S)"
      by (simp add: data2_def data1_def delete_conv' map_of_is_SomeI [OF dist m_gas_turbine_minload_electricity_capacity])
    then show ?thesis
      by (simp add: arg_def kw_def map_of_append_lookup del: map_of_append)
  qed
  have a_gas_turbine_maxload_electricity_capacity: "arg kw ''gas_turbine_maxload_electricity_capacity'' PNone = gas_turbine_maxload_electricity_capacity S"
  proof -
    have "map_of data2 ''gas_turbine_maxload_electricity_capacity'' = Some (gas_turbine_maxload_electricity_capacity S)"
      by (simp add: data2_def data1_def delete_conv' map_of_is_SomeI [OF dist m_gas_turbine_maxload_electricity_capacity])
    then show ?thesis
      by (simp add: arg_def kw_def map_of_append_lookup del: map_of_append)
  qed
  have a_gas_turbine_minload_electricity_efficiency: "arg kw ''gas_turbine_minload_electricity_efficiency'' PNone = gas_turbine_minload_electricity_efficiency S"
  proof -
    have "map_of data2 ''gas_turbine_minload_electricity_efficiency'' = Some (gas_turbine_minload_electricity_efficiency S)"
      by (simp add: data2_def data1_def delete_conv' map_of_is_SomeI [OF dist m_gas_turbine_minload_electricity_efficiency])
    then show ?thesis
      by (simp add: arg_def kw_def map_of_append_lookup del: map_of_append)
  qed
  have a_gas_turbine_maxload_electricity_efficiency: "arg kw ''gas_turbine_maxload_electricity_efficiency'' PNone = gas_turbine_maxload_electricity_efficiency S"
  proof -
    have "map_of data2 ''gas_turbine_maxload_electricity_efficiency'' = Some (gas_turbine_maxload_electricity_efficiency S)"
      by (simp add: data2_def data1_def delete_conv' map_of_is_SomeI [OF dist m_gas_turbine_maxload_electricity_efficiency])
    then show ?thesis
      by (simp add: arg_def kw_def map_of_append_lookup del: map_of_append)
  qed
  have a_gas_turbine_minload_heat_efficiency: "arg kw ''gas_turbine_minload_heat_efficiency'' PNone = gas_turbine_minload_heat_efficiency S"
  proof -
    have "map_of data2 ''gas_turbine_minload_heat_efficiency'' = Some (gas_turbine_minload_heat_efficiency S)"
      by (simp add: data2_def data1_def delete_conv' map_of_is_SomeI [OF dist m_gas_turbine_minload_heat_efficiency])
    then show ?thesis
      by (simp add: arg_def kw_def map_of_append_lookup del: map_of_append)
  qed
  have a_gas_turbine_maxload_heat_efficiency: "arg kw ''gas_turbine_maxload_heat_efficiency'' PNone = gas_turbine_maxload_heat_efficiency S"
  proof -
    have "map_of data2 ''gas_turbine_maxload_heat_efficiency'' = Some (gas_turbine_maxload_heat_efficiency S)"
      by (simp add: data2_def data1_def delete_conv' map_of_is_SomeI [OF dist m_gas_turbine_maxload_heat_efficiency])
    then show ?thesis
      by (simp add: arg_def kw_def map_of_append_lookup del: map_of_append)
  qed
  have a_gas_boiler_efficiency: "arg kw ''gas_boiler_efficiency'' PNone = gas_boiler_efficiency S"
  proof -
    have "map_of data2 ''gas_boiler_efficiency'' = Some (gas_boiler_efficiency S)"
      by (simp add: data2_def data1_def delete_conv' map_of_is_SomeI [OF dist m_gas_boiler_efficiency])
    then show ?thesis
      by (simp add: arg_def kw_def map_of_append_lookup del: map_of_append)
  qed
  have a_gas_boiler_capacity: "arg kw ''gas_boiler_capacity'' PNone = gas_boiler_capacity S"
  proof -
    have "map_of data2 ''gas_boiler_capacity'' = Some (gas_boiler_capacity S)"
      by (simp add: data2_def data1_def delete_conv' map_of_is_SomeI [OF dist m_gas_boiler_capacity])
    then show ?thesis
      by (simp add: arg_def kw_def map_of_append_lookup del: map_of_append)
  qed
  have a_e_boiler_efficiency: "arg kw ''e_boiler_efficiency'' PNone = e_boiler_efficiency S"
  proof -
    have "map_of data2 ''e_boiler_efficiency'' = Some (e_boiler_efficiency S)"
      by (simp add: data2_def data1_def delete_conv' map_of_is_SomeI [OF dist m_e_boiler_efficiency])
    then show ?thesis
      by (simp add: arg_def kw_def map_of_append_lookup del: map_of_append)
  qed
  have a_e_boiler_capacity: "arg kw ''e_boiler_capacity'' PNone = e_boiler_capacity S"
  proof -
    have "map_of data2 ''e_boiler_capacity'' = Some (e_boiler_capacity S)"
      by (simp add: data2_def data1_def delete_conv' map_of_is_SomeI [OF dist m_e_boiler_capacity])
    then show ?thesis
      by (simp add: arg_def kw_def map_of_append_lookup del: map_of_append)
  qed
  have a_hrsg_efficiency: "arg kw ''hrsg_efficiency'' PNone = hrsg_efficiency S"
  proof -
    have "map_of data2 ''hrsg_efficiency'' = Some (hrsg_efficiency S)"
      by (simp add: data2_def data1_def delete_conv' map_of_is_SomeI [OF dist m_hrsg_efficiency])
    then show ?thesis
      by (simp add: arg_def kw_def map_of_append_lookup del: map_of_append)
  qed
  have a_hrsg_capacity: "arg kw ''hrsg_capacity'' PNone = hrsg_capacity S"
  proof -
    have "map_of data2 ''hrsg_capacity'' = Some (hrsg_capacity S)"
      by (simp add: data2_def data1_def delete_conv' map_of_is_SomeI [OF dist m_hrsg_capacity])
    then show ?thesis
      by (simp add: arg_def kw_def map_of_append_lookup del: map_of_append)
  qed
  have a_elec_offtake_contract_param_a: "arg kw ''elec_offtake_contract_param_a'' PNone = elec_offtake_contract_param_a S"
  proof -
    have "map_of data2 ''elec_offtake_contract_param_a'' = Some (elec_offtake_contract_param_a S)"
      by (simp add: data2_def data1_def delete_conv' map_of_is_SomeI [OF dist m_elec_offtake_contract_param_a])
    then show ?thesis
      by (simp add: arg_def kw_def map_of_append_lookup del: map_of_append)
  qed
  have a_elec_offtake_contract_param_b: "arg kw ''elec_offtake_contract_param_b'' PNone = elec_offtake_contract_param_b S"
  proof -
    have "map_of data2 ''elec_offtake_contract_param_b'' = Some (elec_offtake_contract_param_b S)"
      by (simp add: data2_def data1_def delete_conv' map_of_is_SomeI [OF dist m_elec_offtake_contract_param_b])
    then show ?thesis
      by (simp add: arg_def kw_def map_of_append_lookup del: map_of_append)
  qed
  have a_elec_injection_contract_param_a: "arg kw ''elec_injection_contract_param_a'' PNone = elec_injection_contract_param_a S"
  proof -
    have "map_of data2 ''elec_injection_contract_param_a'' = Some (elec_injection_contract_param_a S)"
      by (simp add: data2_def data1_def delete_conv' map_of_is_SomeI [OF dist m_elec_injection_contract_param_a])
    then show ?thesis
      by (simp add: arg_def kw_def map_of_append_lookup del: map_of_append)
  qed
  have a_elec_injection_contract_param_b: "arg kw ''elec_injection_contract_param_b'' PNone = elec_injection_contract_param_b S"
  proof -
    have "map_of data2 ''elec_injection_contract_param_b'' = Some (elec_injection_contract_param_b S)"
      by (simp add: data2_def data1_def delete_conv' map_of_is_SomeI [OF dist m_elec_injection_contract_param_b])
    then show ?thesis
      by (simp add: arg_def kw_def map_of_append_lookup del: map_of_append)
  qed
  have a_elec_grid_cost_energy: "arg kw ''elec_grid_cost_energy'' PNone = elec_grid_cost_energy S"
  proof -
    have "map_of data2 ''elec_grid_cost_energy'' = Some (elec_grid_cost_energy S)"
      by (simp add: data2_def data1_def delete_conv' map_of_is_SomeI [OF dist m_elec_grid_cost_energy])
    then show ?thesis
      by (simp add: arg_def kw_def map_of_append_lookup del: map_of_append)
  qed
  have a_elec_grid_cost_power_peak: "arg kw ''elec_grid_cost_power_peak'' PNone = elec_grid_cost_power_peak S"
  proof -
    have "map_of data2 ''elec_grid_cost_power_peak'' = Some (elec_grid_cost_power_peak S)"
      by (simp add: data2_def data1_def delete_conv' map_of_is_SomeI [OF dist m_elec_grid_cost_power_peak])
    then show ?thesis
      by (simp add: arg_def kw_def map_of_append_lookup del: map_of_append)
  qed
  have a_elec_grid_cost_power_fixed: "arg kw ''elec_grid_cost_power_fixed'' PNone = elec_grid_cost_power_fixed S"
  proof -
    have "map_of data2 ''elec_grid_cost_power_fixed'' = Some (elec_grid_cost_power_fixed S)"
      by (simp add: data2_def data1_def delete_conv' map_of_is_SomeI [OF dist m_elec_grid_cost_power_fixed])
    then show ?thesis
      by (simp add: arg_def kw_def map_of_append_lookup del: map_of_append)
  qed
  have a_elec_grid_cost_max_tariff: "arg kw ''elec_grid_cost_max_tariff'' PNone = elec_grid_cost_max_tariff S"
  proof -
    have "map_of data2 ''elec_grid_cost_max_tariff'' = Some (elec_grid_cost_max_tariff S)"
      by (simp add: data2_def data1_def delete_conv' map_of_is_SomeI [OF dist m_elec_grid_cost_max_tariff])
    then show ?thesis
      by (simp add: arg_def kw_def map_of_append_lookup del: map_of_append)
  qed
  have a_elec_offtake_tax_energy: "arg kw ''elec_offtake_tax_energy'' PNone = elec_offtake_tax_energy S"
  proof -
    have "map_of data2 ''elec_offtake_tax_energy'' = Some (elec_offtake_tax_energy S)"
      by (simp add: data2_def data1_def delete_conv' map_of_is_SomeI [OF dist m_elec_offtake_tax_energy])
    then show ?thesis
      by (simp add: arg_def kw_def map_of_append_lookup del: map_of_append)
  qed
  have a_gas_offtake_contract_param_a: "arg kw ''gas_offtake_contract_param_a'' PNone = gas_offtake_contract_param_a S"
  proof -
    have "map_of data2 ''gas_offtake_contract_param_a'' = Some (gas_offtake_contract_param_a S)"
      by (simp add: data2_def data1_def delete_conv' map_of_is_SomeI [OF dist m_gas_offtake_contract_param_a])
    then show ?thesis
      by (simp add: arg_def kw_def map_of_append_lookup del: map_of_append)
  qed
  have a_gas_offtake_contract_param_b: "arg kw ''gas_offtake_contract_param_b'' PNone = gas_offtake_contract_param_b S"
  proof -
    have "map_of data2 ''gas_offtake_contract_param_b'' = Some (gas_offtake_contract_param_b S)"
      by (simp add: data2_def data1_def delete_conv' map_of_is_SomeI [OF dist m_gas_offtake_contract_param_b])
    then show ?thesis
      by (simp add: arg_def kw_def map_of_append_lookup del: map_of_append)
  qed
  have a_gas_grid_cost_energy: "arg kw ''gas_grid_cost_energy'' PNone = gas_grid_cost_energy S"
  proof -
    have "map_of data2 ''gas_grid_cost_energy'' = Some (gas_grid_cost_energy S)"
      by (simp add: data2_def data1_def delete_conv' map_of_is_SomeI [OF dist m_gas_grid_cost_energy])
    then show ?thesis
      by (simp add: arg_def kw_def map_of_append_lookup del: map_of_append)
  qed
  have a_optimizer_type: "arg kw ''optimizer_type'' (PStr ''default'') = optimizer_type S"
  proof -
    have "map_of data2 ''optimizer_type'' = None"
      by (simp add: data2_def data1_def delete_conv' n_optimizer_type)
    then show ?thesis
      by (simp add: arg_def kw_def map_of_append_lookup dopts3_def md_def del: map_of_append)
  qed
  have a_builder_type: "arg kw ''builder_type'' (PEnum ''BuilderType'' (PYOMO E)) = builder_type S"
  proof -
    have "map_of data2 ''builder_type'' = None"
      by (simp add: data2_def data1_def delete_conv' n_builder_type)
    then show ?thesis
      by (simp add: arg_def kw_def map_of_append_lookup dopts3_def md_def del: map_of_append)
  qed
  have a_solver: "arg kw ''solver'' (PEnum ''SolverType'' (CBC E)) = solver S"
  proof -
    have "map_of data2 ''solver'' = None"
      by (simp add: data2_def data1_def delete_conv' n_solver)
    then show ?thesis
      by (simp add: arg_def kw_def map_of_append_lookup dopts3_def md_def del: map_of_append)
  qed
  have a_dispatch_type: "arg kw ''dispatch_type'' (PEnum ''DispatchType'' (MONTHLY E)) = dispatch_type S"
  proof -
    have "map_of data2 ''dispatch_type'' = None"
      by (simp add: data2_def data1_def delete_conv' n_dispatch_type)
    then show ?thesis
      by (simp add: arg_def kw_def map_of_append_lookup dopts3_def md_def del: map_of_append)
  qed
  have a_pred_hor: "arg kw ''pred_hor'' (PInt (24 * 32)) = pred_hor S"
  proof -
    have "map_of data2 ''pred_hor'' = None"
      by (simp add: data2_def data1_def delete_conv' n_pred_hor)
    then show ?thesis
      by (simp add: arg_def kw_def map_of_append_lookup dopts3_def md_def del: map_of_append)
  qed
  have a_contr_hor: "arg kw ''contr_hor'' (PInt (24 * 32)) = contr_hor S"
  proof -
    have "map_of data2 ''contr_hor'' = None"
      by (simp add: data2_def data1_def delete_conv' n_contr_hor)
    then show ?thesis
      by (simp add: arg_def kw_def map_of_append_lookup dopts3_def md_def del: map_of_append)
  qed
  have a_created_at: "arg kw ''created_at'' PNone = created_at S"
  proof -
    have "map_of data2 ''created_at'' = None"
      by (simp add: data2_def data1_def delete_conv' n_created_at)
    then show ?thesis
      by (simp add: arg_def kw_def map_of_append_lookup dopts3_def md_def del: map_of_append)
  qed
  have a_results_path: "arg kw ''results_path'' PNone = results_path S"
  proof -
    have "map_of data2 ''results_path'' = None"
      by (simp add: data2_def data1_def delete_conv' n_results_path)
    then show ?thesis
      by (simp add: arg_def kw_def map_of_append_lookup dopts3_def md_def del: map_of_append)
  qed
  have "Scenario_init E now kw = Inr (S\<lparr>extra_attrs := []\<rparr>)"
    unfolding Scenario_init_def
    apply (simp only: c1 c2 c3 not_True_eq_False if_False
      a_name a_description a_price_starttime a_demand_starttime a_length_field a_freq
      a_gas_turbine_minload_electricity_capacity a_gas_turbine_maxload_electricity_capacity
      a_gas_turbine_minload_electricity_efficiency
      a_gas_turbine_maxload_electricity_efficiency a_gas_turbine_minload_heat_efficiency
      a_gas_turbine_maxload_heat_efficiency a_gas_boiler_efficiency a_gas_boiler_capacity
      a_e_boiler_efficiency a_e_boiler_capacity a_hrsg_efficiency a_hrsg_capacity
      a_elec_offtake_contract_param_a a_elec_offtake_contract_param_b
      a_elec_injection_contract_param_a a_elec_injection_contract_param_b
      a_elec_grid_cost_energy a_elec_grid_cost_power_peak a_elec_grid_cost_power_fixed
      a_elec_grid_cost_max_tariff a_elec_offtake_tax_energy a_gas_offtake_contract_param_a
      a_gas_offtake_contract_param_b a_gas_grid_cost_energy a_optimizer_type a_builder_type
      a_solver a_dispatch_type a_pred_hor a_contr_hor a_created_at a_results_path)
    apply (simp add: ca)
    done
  moreover have "equipment_keys full = []"
    by (simp add: equipment_keys_def n_equipment_params)
  ultimately show ?thesis
    using td fdk l_dispatch_options by (simp add: dopts_def)
qed


text \<open>
  C1. For every scenario whose three enum fields hold members of their enum classes and
  whose \<^verbatim>\<open>created_at\<close> has been set (as \<^verbatim>\<open>__post_init__\<close> leaves it),
  \<^verbatim>\<open>to_dict\<close> succeeds and \<^verbatim>\<open>from_dict\<close> of its result gives back every
  field of the scenario. The enum fields are written as the string value of the member and
  come back, through the enum class called on that string, as the same member.
\<close>

theorem from_dict_to_dict:
  assumes "is_member ''BuilderType'' (BuilderType_values E) (builder_type S)"
    and "is_member ''SolverType'' (SolverType_values E) (solver S)"
    and "is_member ''DispatchType'' (DispatchType_values E) (dispatch_type S)"
    and "created_at S \<noteq> PNone"
  shows "\<exists>doc. to_dict S = Inr doc \<and> from_dict E now doc = Inr (S\<lparr>extra_attrs := []\<rparr>) \<and>
           (\<exists>b s d. builder_type S = PEnum ''BuilderType'' b \<and>
              solver S = PEnum ''SolverType'' s \<and>
              dispatch_type S = PEnum ''DispatchType'' d \<and>
              map_of doc ''dispatch_options'' = Some (PDict
                [(''optimizer_type'', optimizer_type S), (''builder_type'', PStr b),
                 (''solver'', PStr s), (''dispatch_type'', PStr d),
                 (''pred_hor'', pred_hor S), (''contr_hor'', contr_hor S)]))"
proof -
  from assms(1) obtain b where b: "builder_type S = PEnum ''BuilderType'' b"
    "b \<in> set (BuilderType_values E)"
    by (cases "builder_type S") (auto simp: is_member_def)
  from assms(2) obtain s where s: "solver S = PEnum ''SolverType'' s"
    "s \<in> set (SolverType_values E)"
    by (cases "solver S") (auto simp: is_member_def)
  from assms(3) obtain d where d: "dispatch_type S = PEnum ''DispatchType'' d"
    "d \<in> set (DispatchType_values E)"
    by (cases "dispatch_type S") (auto simp: is_member_def)
  from from_dict_to_dict_aux [OF b s d assms(4), of now] b(1) s(1) d(1)
  show ?thesis by blast
qed

theorem from_dict_to_dict_witness:
  "is_member ''BuilderType'' (BuilderType_values example_enums)
     (builder_type (base_scenario example_enums ''2025-06-01 12:00:00'')) \<and>
   is_member ''SolverType'' (SolverType_values example_enums)
     (solver (base_scenario example_enums ''2025-06-01 12:00:00'')) \<and>
   is_member ''DispatchType'' (DispatchType_values example_enums)
     (dispatch_type (base_scenario example_enums ''2025-06-01 12:00:00'')) \<and>
   created_at (base_scenario example_enums ''2025-06-01 12:00:00'') \<noteq> PNone \<and>
   (\<exists>doc. to_dict (base_scenario example_enums ''2025-06-01 12:00:00'') = Inr doc \<and>
      from_dict example_enums ''2026-01-01 00:00:00'' doc =
        Inr (base_scenario example_enums ''2025-06-01 12:00:00''))"
proof -
  let ?B = "base_scenario example_enums ''2025-06-01 12:00:00''"
  have h1: "is_member ''BuilderType'' (BuilderType_values example_enums) (builder_type ?B)"
    by (simp add: is_member_def base_scenario_def example_enums_def)
  have h2: "is_member ''SolverType'' (SolverType_values example_enums) (solver ?B)"
    by (simp add: is_member_def base_scenario_def example_enums_def)
  have h3: "is_member ''DispatchType'' (DispatchType_values example_enums) (dispatch_type ?B)"
    by (simp add: is_member_def base_scenario_def example_enums_def)
  have h4: "created_at ?B \<noteq> PNone"
    by (simp add: base_scenario_def)
  have e: "?B\<lparr>extra_attrs := []\<rparr> = ?B"
    by (simp add: base_scenario_def)
  from from_dict_to_dict [OF h1 h2 h3 h4, of "''2026-01-01 00:00:00''"] h1 h2 h3 h4
  show ?thesis unfolding e by blast
qed

lemma Scenario_init_drop:
  assumes ok: "Scenario_init E now kw = Inr S"
    and rel: "\<And>k. map_of kw' k = (if k \<in> set K then map_of defaults k else map_of kw k)"
    and dist: "distinct (map fst kw')"
    and K: "set K \<subseteq> set (map fst defaults)"
    and dk: "set (map fst defaults) \<subseteq> set (map fst kw)"
  shows "Scenario_init E now kw' = Inr (with_defaults K S)"
proof -
  have c1: "distinct (map fst kw)"
  proof (rule ccontr)
    assume n: "\<not> distinct (map fst kw)"
    have "Scenario_init E now kw = Inl TypeError"
      unfolding Scenario_init_def by (simp only: n not_False_eq_True if_True)
    with ok show False by simp
  qed
  have c2: "set (map fst kw) \<subseteq> set (required_fields @ optional_fields)"
  proof (rule ccontr)
    assume n: "\<not> set (map fst kw) \<subseteq> set (required_fields @ optional_fields)"
    have "Scenario_init E now kw = Inl TypeError"
      unfolding Scenario_init_def by (simp only: c1 n not_True_eq_False not_False_eq_True if_True if_False)
    with ok show False by simp
  qed
  have c3: "set required_fields \<subseteq> set (map fst kw)"
  proof (rule ccontr)
    assume n: "\<not> set required_fields \<subseteq> set (map fst kw)"
    have "Scenario_init E now kw = Inl TypeError"
      unfolding Scenario_init_def by (simp only: c1 c2 n not_True_eq_False not_False_eq_True if_True if_False)
    with ok show False by simp
  qed
  have dom_eq: "set (map fst kw') = set (map fst kw)"
  proof -
    have "dom (map_of kw') = dom (map_of kw)"
    proof (rule set_eqI)
      fix k
      show "k \<in> dom (map_of kw') \<longleftrightarrow> k \<in> dom (map_of kw)"
      proof (cases "k \<in> set K")
        case True
        with K have kd: "k \<in> set (map fst defaults)" by blast
        then have "map_of defaults k \<noteq> None"
          by (simp add: map_of_eq_None_iff)
        moreover from kd dk have "map_of kw k \<noteq> None"
          by (auto simp: map_of_eq_None_iff)
        ultimately show ?thesis using True by (auto simp: rel dom_def)
      next
        case False
        then show ?thesis by (simp add: rel dom_def)
      qed
    qed
    then show ?thesis by (simp add: dom_map_of_conv_image_fst)
  qed
  define R where "R = \<lparr>
     name = arg kw ''name'' PNone,
     description = arg kw ''description'' PNone,
     price_starttime = arg kw ''price_starttime'' PNone,
     demand_starttime = arg kw ''demand_starttime'' PNone,
     length_field = arg kw ''length'' PNone,
     gas_turbine_minload_electricity_capacity = arg kw ''gas_turbine_minload_electricity_capacity'' PNone,
     gas_turbine_maxload_electricity_capacity = arg kw ''gas_turbine_maxload_electricity_capacity'' PNone,
     gas_turbine_minload_electricity_efficiency = arg kw ''gas_turbine_minload_electricity_efficiency'' PNone,
     gas_turbine_maxload_electricity_efficiency = arg kw ''gas_turbine_maxload_electricity_efficiency'' PNone,
     gas_turbine_minload_heat_efficiency = arg kw ''gas_turbine_minload_heat_efficiency'' PNone,
     gas_turbine_maxload_heat_efficiency = arg kw ''gas_turbine_maxload_heat_efficiency'' PNone,
     gas_boiler_efficiency = arg kw ''gas_boiler_efficiency'' PNone,
     gas_boiler_capacity = arg kw ''gas_boiler_capacity'' PNone,
     e_boiler_efficiency = arg kw ''e_boiler_efficiency'' PNone,
     e_boiler_capacity = arg kw ''e_boiler_capacity'' PNone,
     hrsg_efficiency = arg kw ''hrsg_efficiency'' PNone,
     hrsg_capacity = arg kw ''hrsg_capacity'' PNone,
     elec_offtake_contract_param_a = arg kw ''elec_offtake_contract_param_a'' PNone,
     elec_offtake_contract_param_b = arg kw ''elec_offtake_contract_param_b'' PNone,
     elec_injection_contract_param_a = arg kw ''elec_injection_contract_param_a'' PNone,
     elec_injection_contract_param_b = arg kw ''elec_injection_contract_param_b'' PNone,
     elec_grid_cost_energy = arg kw ''elec_grid_cost_energy'' PNone,
     elec_grid_cost_power_peak = arg kw ''elec_grid_cost_power_peak'' PNone,
     elec_grid_cost_power_fixed = arg kw ''elec_grid_cost_power_fixed'' PNone,
     elec_grid_cost_max_tariff = arg kw ''elec_grid_cost_max_tariff'' PNone,
     elec_offtake_tax_energy = arg kw ''elec_offtake_tax_energy'' PNone,
     gas_offtake_contract_param_a = arg kw ''gas_offtake_contract_param_a'' PNone,
     gas_offtake_contract_param_b = arg kw ''gas_offtake_contract_param_b'' PNone,
     gas_grid_cost_energy = arg kw ''gas_grid_cost_energy'' PNone,
     freq = arg kw ''freq'' (PStr ''h''),
     optimizer_type = arg kw ''optimizer_type'' (PStr ''default''),
     builder_type = arg kw ''builder_type'' (PEnum ''BuilderType'' (PYOMO E)),
     solver = arg kw ''solver'' (PEnum ''SolverType'' (CBC E)),
     dispatch_type = arg kw ''dispatch_type'' (PEnum ''DispatchType'' (MONTHLY E)),
     pred_hor = arg kw ''pred_hor'' (PInt (24 * 32)),
     contr_hor = arg kw ''contr_hor'' (PInt (24 * 32)),
     created_at = (if arg kw ''created_at'' PNone = PNone then PStr now
                   else arg kw ''created_at'' PNone),
     results_path = arg kw ''results_path'' PNone,
     extra_attrs = [] \<rparr>"
  have S_eq: "S = R"
    using ok unfolding Scenario_init_def R_def
    by (simp only: c1 c2 c3 not_True_eq_False if_False sum.inject)
  have r_elec_offtake_contract_param_a: "elec_offtake_contract_param_a R = arg kw ''elec_offtake_contract_param_a'' PNone"
    by (simp add: R_def)
  have r_elec_offtake_contract_param_b: "elec_offtake_contract_param_b R = arg kw ''elec_offtake_contract_param_b'' PNone"
    by (simp add: R_def)
  have r_elec_injection_contract_param_a: "elec_injection_contract_param_a R = arg kw ''elec_injection_contract_param_a'' PNone"
    by (simp add: R_def)
  have r_elec_injection_contract_param_b: "elec_injection_contract_param_b R = arg kw ''elec_injection_contract_param_b'' PNone"
    by (simp add: R_def)
  have r_elec_grid_cost_energy: "elec_grid_cost_energy R = arg kw ''elec_grid_cost_energy'' PNone"
    by (simp add: R_def)
  have r_elec_grid_cost_power_peak: "elec_grid_cost_power_peak R = arg kw ''elec_grid_cost_power_peak'' PNone"
    by (simp add: R_def)
  have r_elec_grid_cost_power_fixed: "elec_grid_cost_power_fixed R = arg kw ''elec_grid_cost_power_fixed'' PNone"
    by (simp add: R_def)
  have r_elec_grid_cost_max_tariff: "elec_grid_cost_max_tariff R = arg kw ''elec_grid_cost_max_tariff'' PNone"
    by (simp add: R_def)
  have r_elec_offtake_tax_energy: "elec_offtake_tax_energy R = arg kw ''elec_offtake_tax_energy'' PNone"
    by (simp add: R_def)
  have r_gas_offtake_contract_param_a: "gas_offtake_contract_param_a R = arg kw ''gas_offtake_contract_param_a'' PNone"
    by (simp add: R_def)
  have r_gas_offtake_contract_param_b: "gas_offtake_contract_param_b R = arg kw ''gas_offtake_contract_param_b'' PNone"
    by (simp add: R_def)
  have r_gas_grid_cost_energy: "gas_grid_cost_energy R = arg kw ''gas_grid_cost_energy'' PNone"
    by (simp add: R_def)
  have nk_name: "''name'' \<notin> set K"
  proof -
    have "''name'' \<notin> set (map fst defaults)" by code_simp
    with K show ?thesis by blast
  qed
  have nk_description: "''description'' \<notin> set K"
  proof -
    have "''description'' \<notin> set (map fst defaults)" by code_simp
    with K show ?thesis by blast
  qed
  have nk_price_starttime: "''price_starttime'' \<notin> set K"
  proof -
    have "''price_starttime'' \<notin> set (map fst defaults)" by code_simp
    with K show ?thesis by blast
  qed
  have nk_demand_starttime: "''demand_starttime'' \<notin> set K"
  proof -
    have "''demand_starttime'' \<notin> set (map fst defaults)" by code_simp
    with K show ?thesis by blast
  qed
  have nk_length_field: "''length'' \<notin> set K"
  proof -
    have "''length'' \<notin> set (map fst defaults)" by code_simp
    with K show ?thesis by blast
  qed
  have nk_gas_turbine_minload_electricity_capacity: "''gas_turbine_minload_electricity_capacity'' \<notin> set K"
  proof -
    have "''gas_turbine_minload_electricity_capacity'' \<notin> set (map fst defaults)" by code_simp
    with K show ?thesis by blast
  qed
  have nk_gas_turbine_maxload_electricity_capacity: "''gas_turbine_maxload_electricity_capacity'' \<notin> set K"
  proof -
    have "''gas_turbine_maxload_electricity_capacity'' \<notin> set (map fst defaults)" by code_simp
    with K show ?thesis by blast
  qed
  have nk_gas_turbine_minload_electricity_efficiency: "''gas_turbine_minload_electricity_efficiency'' \<notin> set K"
  proof -
    have "''gas_turbine_minload_electricity_efficiency'' \<notin> set (map fst defaults)" by code_simp
    with K show ?thesis by blast
  qed
  have nk_gas_turbine_maxload_electricity_efficiency: "''gas_turbine_maxload_electricity_efficiency'' \<notin> set K"
  proof -
    have "''gas_turbine_maxload_electricity_efficiency'' \<notin> set (map fst defaults)" by code_simp
    with K show ?thesis by blast
  qed
  have nk_gas_turbine_minload_heat_efficiency: "''gas_turbine_minload_heat_efficiency'' \<notin> set K"
  proof -
    have "''gas_turbine_minload_heat_efficiency'' \<notin> set (map fst defaults)" by code_simp
    with K show ?thesis by blast
  qed
  have nk_gas_turbine_maxload_heat_efficiency: "''gas_turbine_maxload_heat_efficiency'' \<notin> set K"
  proof -
    have "''gas_turbine_maxload_heat_efficiency'' \<notin> set (map fst defaults)" by code_simp
    with K show ?thesis by blast
  qed
  have nk_gas_boiler_efficiency: "''gas_boiler_efficiency'' \<notin> set K"
  proof -
    have "''gas_boiler_efficiency'' \<notin> set (map fst defaults)" by code_simp
    with K show ?thesis by blast
  qed
  have nk_gas_boiler_capacity: "''gas_boiler_capacity'' \<notin> set K"
  proof -
    have "''gas_boiler_capacity'' \<notin> set (map fst defaults)" by code_simp
    with K show ?thesis by blast
  qed
  have nk_e_boiler_efficiency: "''e_boiler_efficiency'' \<notin> set K"
  proof -
    have "''e_boiler_efficiency'' \<notin> set (map fst defaults)" by code_simp
    with K show ?thesis by blast
  qed
  have nk_e_boiler_capacity: "''e_boiler_capacity'' \<notin> set K"
  proof -
    have "''e_boiler_capacity'' \<notin> set (map fst defaults)" by code_simp
    with K show ?thesis by blast
  qed
  have nk_hrsg_efficiency: "''hrsg_efficiency'' \<notin> set K"
  proof -
    have "''hrsg_efficiency'' \<notin> set (map fst defaults)" by code_simp
    with K show ?thesis by blast
  qed
  have nk_hrsg_capacity: "''hrsg_capacity'' \<notin> set K"
  proof -
    have "''hrsg_capacity'' \<notin> set (map fst defaults)" by code_simp
    with K show ?thesis by blast
  qed
  have nk_freq: "''freq'' \<notin> set K"
  proof -
    have "''freq'' \<notin> set (map fst defaults)" by code_simp
    with K show ?thesis by blast
  qed
  have nk_optimizer_type: "''optimizer_type'' \<notin> set K"
  proof -
    have "''optimizer_type'' \<notin> set (map fst defaults)" by code_simp
    with K show ?thesis by blast
  qed
  have nk_builder_type: "''builder_type'' \<notin> set K"
  proof -
    have "''builder_type'' \<notin> set (map fst defaults)" by code_simp
    with K show ?thesis by blast
  qed
  have nk_solver: "''solver'' \<notin> set K"
  proof -
    have "''solver'' \<notin> set (map fst defaults)" by code_simp
    with K show ?thesis by blast
  qed
  have nk_dispatch_type: "''dispatch_type'' \<notin> set K"
  proof -
    have "''dispatch_type'' \<notin> set (map fst defaults)" by code_simp
    with K show ?thesis by blast
  qed
  have nk_pred_hor: "''pred_hor'' \<notin> set K"
  proof -
    have "''pred_hor'' \<notin> set (map fst defaults)" by code_simp
    with K show ?thesis by blast
  qed
  have nk_contr_hor: "''contr_hor'' \<notin> set K"
  proof -
    have "''contr_hor'' \<notin> set (map fst defaults)" by code_simp
    with K show ?thesis by blast
  qed
  have nk_created_at: "''created_at'' \<notin> set K"
  proof -
    have "''created_at'' \<notin> set (map fst defaults)" by code_simp
    with K show ?thesis by blast
  qed
  have nk_results_path: "''results_path'' \<notin> set K"
  proof -
    have "''results_path'' \<notin> set (map fst defaults)" by code_simp
    with K show ?thesis by blast
  qed
  have g_name: "arg kw' ''name'' PNone = arg kw ''name'' PNone"
    by (simp add: arg_def rel nk_name)
  have g_description: "arg kw' ''description'' PNone = arg kw ''description'' PNone"
    by (simp add: arg_def rel nk_description)
  have g_price_starttime: "arg kw' ''price_starttime'' PNone = arg kw ''price_starttime'' PNone"
    by (simp add: arg_def rel nk_price_starttime)
  have g_demand_starttime: "arg kw' ''demand_starttime'' PNone = arg kw ''demand_starttime'' PNone"
    by (simp add: arg_def rel nk_demand_starttime)
  have g_length_field: "arg kw' ''length'' PNone = arg kw ''length'' PNone"
    by (simp add: arg_def rel nk_length_field)
  have g_gas_turbine_minload_electricity_capacity: "arg kw' ''gas_turbine_minload_electricity_capacity'' PNone = arg kw ''gas_turbine_minload_electricity_capacity'' PNone"
    by (simp add: arg_def rel nk_gas_turbine_minload_electricity_capacity)
  have g_gas_turbine_maxload_electricity_capacity: "arg kw' ''gas_turbine_maxload_electricity_capacity'' PNone = arg kw ''gas_turbine_maxload_electricity_capacity'' PNone"
    by (simp add: arg_def rel nk_gas_turbine_maxload_electricity_capacity)
  have g_gas_turbine_minload_electricity_efficiency: "arg kw' ''gas_turbine_minload_electricity_efficiency'' PNone = arg kw ''gas_turbine_minload_electricity_efficiency'' PNone"
    by (simp add: arg_def rel nk_gas_turbine_minload_electricity_efficiency)
  have g_gas_turbine_maxload_electricity_efficiency: "arg kw' ''gas_turbine_maxload_electricity_efficiency'' PNone = arg kw ''gas_turbine_maxload_electricity_efficiency'' PNone"
    by (simp add: arg_def rel nk_gas_turbine_maxload_electricity_efficiency)
  have g_gas_turbine_minload_heat_efficiency: "arg kw' ''gas_turbine_minload_heat_efficiency'' PNone = arg kw ''gas_turbine_minload_heat_efficiency'' PNone"
    by (simp add: arg_def rel nk_gas_turbine_minload_heat_efficiency)
  have g_gas_turbine_maxload_heat_efficiency: "arg kw' ''gas_turbine_maxload_heat_efficiency'' PNone = arg kw ''gas_turbine_maxload_heat_efficiency'' PNone"
    by (simp add: arg_def rel nk_gas_turbine_maxload_heat_efficiency)
  have g_gas_boiler_efficiency: "arg kw' ''gas_boiler_efficiency'' PNone = arg kw ''gas_boiler_efficiency'' PNone"
    by (simp add: arg_def rel nk_gas_boiler_efficiency)
  have g_gas_boiler_capacity: "arg kw' ''gas_boiler_capacity'' PNone = arg kw ''gas_boiler_capacity'' PNone"
    by (simp add: arg_def rel nk_gas_boiler_capacity)
  have g_e_boiler_efficiency: "arg kw' ''e_boiler_efficiency'' PNone = arg kw ''e_boiler_efficiency'' PNone"
    by (simp add: arg_def rel nk_e_boiler_efficiency)
  have g_e_boiler_capacity: "arg kw' ''e_boiler_capacity'' PNone = arg kw ''e_boiler_capacity'' PNone"
    by (simp add: arg_def rel nk_e_boiler_capacity)
  have g_hrsg_efficiency: "arg kw' ''hrsg_efficiency'' PNone = arg kw ''hrsg_efficiency'' PNone"
    by (simp add: arg_def rel nk_hrsg_efficiency)
  have g_hrsg_capacity: "arg kw' ''hrsg_capacity'' PNone = arg kw ''hrsg_capacity'' PNone"
    by (simp add: arg_def rel nk_hrsg_capacity)
  have g_freq: "arg kw' ''freq'' (PStr ''h'') = arg kw ''freq'' (PStr ''h'')"
    by (simp add: arg_def rel nk_freq)
  have g_optimizer_type: "arg kw' ''optimizer_type'' (PStr ''default'') = arg kw ''optimizer_type'' (PStr ''default'')"
    by (simp add: arg_def rel nk_optimizer_type)
  have g_builder_type: "arg kw' ''builder_type'' (PEnum ''BuilderType'' (PYOMO E)) = arg kw ''builder_type'' (PEnum ''BuilderType'' (PYOMO E))"
    by (simp add: arg_def rel nk_builder_type)
  have g_solver: "arg kw' ''solver'' (PEnum ''SolverType'' (CBC E)) = arg kw ''solver'' (PEnum ''SolverType'' (CBC E))"
    by (simp add: arg_def rel nk_solver)
  have g_dispatch_type: "arg kw' ''dispatch_type'' (PEnum ''DispatchType'' (MONTHLY E)) = arg kw ''dispatch_type'' (PEnum ''DispatchType'' (MONTHLY E))"
    by (simp add: arg_def rel nk_dispatch_type)
  have g_pred_hor: "arg kw' ''pred_hor'' (PInt (24 * 32)) = arg kw ''pred_hor'' (PInt (24 * 32))"
    by (simp add: arg_def rel nk_pred_hor)
  have g_contr_hor: "arg kw' ''contr_hor'' (PInt (24 * 32)) = arg kw ''contr_hor'' (PInt (24 * 32))"
    by (simp add: arg_def rel nk_contr_hor)
  have g_created_at: "arg kw' ''created_at'' PNone = arg kw ''created_at'' PNone"
    by (simp add: arg_def rel nk_created_at)
  have g_results_path: "arg kw' ''results_path'' PNone = arg kw ''results_path'' PNone"
    by (simp add: arg_def rel nk_results_path)
  have g_elec_offtake_contract_param_a: "arg kw' ''elec_offtake_contract_param_a'' PNone = (if ''elec_offtake_contract_param_a'' \<in> set K then PFloat 1 else arg kw ''elec_offtake_contract_param_a'' PNone)"
  proof -
    have "map_of defaults ''elec_offtake_contract_param_a'' = Some (PFloat 1)" by code_simp
    then show ?thesis by (simp add: arg_def rel)
  qed
  have g_elec_offtake_contract_param_b: "arg kw' ''elec_offtake_contract_param_b'' PNone = (if ''elec_offtake_contract_param_b'' \<in> set K then PFloat 0 else arg kw ''elec_offtake_contract_param_b'' PNone)"
  proof -
    have "map_of defaults ''elec_offtake_contract_param_b'' = Some (PFloat 0)" by code_simp
    then show ?thesis by (simp add: arg_def rel)
  qed
  have g_elec_injection_contract_param_a: "arg kw' ''elec_injection_contract_param_a'' PNone = (if ''elec_injection_contract_param_a'' \<in> set K then PFloat 1 else arg kw ''elec_injection_contract_param_a'' PNone)"
  proof -
    have "map_of defaults ''elec_injection_contract_param_a'' = Some (PFloat 1)" by code_simp
    then show ?thesis by (simp add: arg_def rel)
  qed
  have g_elec_injection_contract_param_b: "arg kw' ''elec_injection_contract_param_b'' PNone = (if ''elec_injection_contract_param_b'' \<in> set K then PFloat 0 else arg kw ''elec_injection_contract_param_b'' PNone)"
  proof -
    have "map_of defaults ''elec_injection_contract_param_b'' = Some (PFloat 0)" by code_simp
    then show ?thesis by (simp add: arg_def rel)
  qed
  have g_elec_grid_cost_energy: "arg kw' ''elec_grid_cost_energy'' PNone = (if ''elec_grid_cost_energy'' \<in> set K then PFloat 0 else arg kw ''elec_grid_cost_energy'' PNone)"
  proof -
    have "map_of defaults ''elec_grid_cost_energy'' = Some (PFloat 0)" by code_simp
    then show ?thesis by (simp add: arg_def rel)
  qed
  have g_elec_grid_cost_power_peak: "arg kw' ''elec_grid_cost_power_peak'' PNone = (if ''elec_grid_cost_power_peak'' \<in> set K then PFloat 0 else arg kw ''elec_grid_cost_power_peak'' PNone)"
  proof -
    have "map_of defaults ''elec_grid_cost_power_peak'' = Some (PFloat 0)" by code_simp
    then show ?thesis by (simp add: arg_def rel)
  qed
  have g_elec_grid_cost_power_fixed: "arg kw' ''elec_grid_cost_power_fixed'' PNone = (if ''elec_grid_cost_power_fixed'' \<in> set K then PFloat 0 else arg kw ''elec_grid_cost_power_fixed'' PNone)"
  proof -
    have "map_of defaults ''elec_grid_cost_power_fixed'' = Some (PFloat 0)" by code_simp
    then show ?thesis by (simp add: arg_def rel)
  qed
  have g_elec_grid_cost_max_tariff: "arg kw' ''elec_grid_cost_max_tariff'' PNone = (if ''elec_grid_cost_max_tariff'' \<in> set K then PFloat 0 else arg kw ''elec_grid_cost_max_tariff'' PNone)"
  proof -
    have "map_of defaults ''elec_grid_cost_max_tariff'' = Some (PFloat 0)" by code_simp
    then show ?thesis by (simp add: arg_def rel)
  qed
  have g_elec_offtake_tax_energy: "arg kw' ''elec_offtake_tax_energy'' PNone = (if ''elec_offtake_tax_energy'' \<in> set K then PFloat 0 else arg kw ''elec_offtake_tax_energy'' PNone)"
  proof -
    have "map_of defaults ''elec_offtake_tax_energy'' = Some (PFloat 0)" by code_simp
    then show ?thesis by (simp add: arg_def rel)
  qed
  have g_gas_offtake_contract_param_a: "arg kw' ''gas_offtake_contract_param_a'' PNone = (if ''gas_offtake_contract_param_a'' \<in> set K then PFloat 1 else arg kw ''gas_offtake_contract_param_a'' PNone)"
  proof -
    have "map_of defaults ''gas_offtake_contract_param_a'' = Some (PFloat 1)" by code_simp
    then show ?thesis by (simp add: arg_def rel)
  qed
  have g_gas_offtake_contract_param_b: "arg kw' ''gas_offtake_contract_param_b'' PNone = (if ''gas_offtake_contract_param_b'' \<in> set K then PFloat 0 else arg kw ''gas_offtake_contract_param_b'' PNone)"
  proof -
    have "map_of defaults ''gas_offtake_contract_param_b'' = Some (PFloat 0)" by code_simp
    then show ?thesis by (simp add: arg_def rel)
  qed
  have g_gas_grid_cost_energy: "arg kw' ''gas_grid_cost_energy'' PNone = (if ''gas_grid_cost_energy'' \<in> set K then PFloat 0 else arg kw ''gas_grid_cost_energy'' PNone)"
  proof -
    have "map_of defaults ''gas_grid_cost_energy'' = Some (PFloat 0)" by code_simp
    then show ?thesis by (simp add: arg_def rel)
  qed
  define R' where "R' = \<lparr>
     name = arg kw ''name'' PNone,
     description = arg kw ''description'' PNone,
     price_starttime = arg kw ''price_starttime'' PNone,
     demand_starttime = arg kw ''demand_starttime'' PNone,
     length_field = arg kw ''length'' PNone,
     gas_turbine_minload_electricity_capacity = arg kw ''gas_turbine_minload_electricity_capacity'' PNone,
     gas_turbine_maxload_electricity_capacity = arg kw ''gas_turbine_maxload_electricity_capacity'' PNone,
     gas_turbine_minload_electricity_efficiency = arg kw ''gas_turbine_minload_electricity_efficiency'' PNone,
     gas_turbine_maxload_electricity_efficiency = arg kw ''gas_turbine_maxload_electricity_efficiency'' PNone,
     gas_turbine_minload_heat_efficiency = arg kw ''gas_turbine_minload_heat_efficiency'' PNone,
     gas_turbine_maxload_heat_efficiency = arg kw ''gas_turbine_maxload_heat_efficiency'' PNone,
     gas_boiler_efficiency = arg kw ''gas_boiler_efficiency'' PNone,
     gas_boiler_capacity = arg kw ''gas_boiler_capacity'' PNone,
     e_boiler_efficiency = arg kw ''e_boiler_efficiency'' PNone,
     e_boiler_capacity = arg kw ''e_boiler_capacity'' PNone,
     hrsg_efficiency = arg kw ''hrsg_efficiency'' PNone,
     hrsg_capacity = arg kw ''hrsg_capacity'' PNone,
     elec_offtake_contract_param_a = (if ''elec_offtake_contract_param_a'' \<in> set K then PFloat 1 else arg kw ''elec_offtake_contract_param_a'' PNone),
     elec_offtake_contract_param_b = (if ''elec_offtake_contract_param_b'' \<in> set K then PFloat 0 else arg kw ''elec_offtake_contract_param_b'' PNone),
     elec_injection_contract_param_a = (if ''elec_injection_contract_param_a'' \<in> set K then PFloat 1 else arg kw ''elec_injection_contract_param_a'' PNone),
     elec_injection_contract_param_b = (if ''elec_injection_contract_param_b'' \<in> set K then PFloat 0 else arg kw ''elec_injection_contract_param_b'' PNone),
     elec_grid_cost_energy = (if ''elec_grid_cost_energy'' \<in> set K then PFloat 0 else arg kw ''elec_grid_cost_energy'' PNone),
     elec_grid_cost_power_peak = (if ''elec_grid_cost_power_peak'' \<in> set K then PFloat 0 else arg kw ''elec_grid_cost_power_peak'' PNone),
     elec_grid_cost_power_fixed = (if ''elec_grid_cost_power_fixed'' \<in> set K then PFloat 0 else arg kw ''elec_grid_cost_power_fixed'' PNone),
     elec_grid_cost_max_tariff = (if ''elec_grid_cost_max_tariff'' \<in> set K then PFloat 0 else arg kw ''elec_grid_cost_max_tariff'' PNone),
     elec_offtake_tax_energy = (if ''elec_offtake_tax_energy'' \<in> set K then PFloat 0 else arg kw ''elec_offtake_tax_energy'' PNone),
     gas_offtake_contract_param_a = (if ''gas_offtake_contract_param_a'' \<in> set K then PFloat 1 else arg kw ''gas_offtake_contract_param_a'' PNone),
     gas_offtake_contract_param_b = (if ''gas_offtake_contract_param_b'' \<in> set K then PFloat 0 else arg kw ''gas_offtake_contract_param_b'' PNone),
     gas_grid_cost_energy = (if ''gas_grid_cost_energy'' \<in> set K then PFloat 0 else arg kw ''gas_grid_cost_energy'' PNone),
     freq = arg kw ''freq'' (PStr ''h''),
     optimizer_type = arg kw ''optimizer_type'' (PStr ''default''),
     builder_type = arg kw ''builder_type'' (PEnum ''BuilderType'' (PYOMO E)),
     solver = arg kw ''solver'' (PEnum ''SolverType'' (CBC E)),
     dispatch_type = arg kw ''dispatch_type'' (PEnum ''DispatchType'' (MONTHLY E)),
     pred_hor = arg kw ''pred_hor'' (PInt (24 * 32)),
     contr_hor = arg kw ''contr_hor'' (PInt (24 * 32)),
     created_at = (if arg kw ''created_at'' PNone = PNone then PStr now
                   else arg kw ''created_at'' PNone),
     results_path = arg kw ''results_path'' PNone,
     extra_attrs = [] \<rparr>"
  have "Scenario_init E now kw' = Inr R'"
    unfolding Scenario_init_def R'_def
    by (simp only: dist dom_eq c2 c3 not_True_eq_False if_False
      g_name g_description g_price_starttime g_demand_starttime g_length_field
      g_gas_turbine_minload_electricity_capacity g_gas_turbine_maxload_electricity_capacity
      g_gas_turbine_minload_electricity_efficiency
      g_gas_turbine_maxload_electricity_efficiency g_gas_turbine_minload_heat_efficiency
      g_gas_turbine_maxload_heat_efficiency g_gas_boiler_efficiency g_gas_boiler_capacity
      g_e_boiler_efficiency g_e_boiler_capacity g_hrsg_efficiency g_hrsg_capacity
      g_elec_offtake_contract_param_a g_elec_offtake_contract_param_b
      g_elec_injection_contract_param_a g_elec_injection_contract_param_b
      g_elec_grid_cost_energy g_elec_grid_cost_power_peak g_elec_grid_cost_power_fixed
      g_elec_grid_cost_max_tariff g_elec_offtake_tax_energy g_gas_offtake_contract_param_a
      g_gas_offtake_contract_param_b g_gas_grid_cost_energy g_freq g_optimizer_type
      g_builder_type g_solver g_dispatch_type g_pred_hor g_contr_hor g_created_at
      g_results_path)
  also have "R' = with_defaults K R"
    unfolding with_defaults_def
    apply (simp only:
      r_elec_offtake_contract_param_a r_elec_offtake_contract_param_b
      r_elec_injection_contract_param_a r_elec_injection_contract_param_b
      r_elec_grid_cost_energy r_elec_grid_cost_power_peak r_elec_grid_cost_power_fixed
      r_elec_grid_cost_max_tariff r_elec_offtake_tax_energy r_gas_offtake_contract_param_a
      r_gas_offtake_contract_param_b r_gas_grid_cost_energy)
    apply (simp add: R_def R'_def)
    done
  also have "\<dots> = with_defaults K S"
    by (simp only: S_eq)
  finally show ?thesis .
qed


lemma map_of_drop_keys:
  "map_of (drop_keys K d) k = (if k \<in> set K then None else map_of d k)"
  by (induction d) (auto simp: drop_keys_def)

lemma delete_drop_keys: "AList.delete k (drop_keys K d) = drop_keys K (AList.delete k d)"
  by (induction d) (auto simp: drop_keys_def)

lemma dict_pop_drop_keys:
  assumes "k \<notin> set K" and "dict_pop d k x = (v, d')"
  shows "dict_pop (drop_keys K d) k x = (v, drop_keys K d')"
  using assms
  by (auto simp: dict_pop_def map_of_drop_keys delete_drop_keys split: option.splits)

lemma dict_pop_other:
  "dict_pop d k x = (v, d') \<Longrightarrow> k' \<noteq> k \<Longrightarrow> map_of d' k' = map_of d k'"
  by (auto simp: dict_pop_def delete_conv' split: option.splits)

lemma dict_pop_value:
  "dict_pop d k x = (v, d') \<Longrightarrow> v = (case map_of d k of None \<Rightarrow> x | Some w \<Rightarrow> w)"
  by (auto simp: dict_pop_def split: option.splits)

lemma distinct_drop_keys: "distinct (map fst d) \<Longrightarrow> distinct (map fst (drop_keys K d))"
  by (simp add: drop_keys_def distinct_map_filter)

lemma dict_update_rel:
  assumes "\<And>k. map_of x' k = (if k \<in> set K then None else map_of x k)"
    and "set K \<inter> set (map fst e) = {}"
  shows "map_of (dict_update x' e) k = (if k \<in> set K then None else map_of (dict_update x e) k)"
  using assms
proof (induction e arbitrary: x x')
  case Nil
  then show ?case by (simp add: dict_update_def)
next
  case (Cons p e)
  obtain a v where p: "p = (a, v)" by (cases p)
  from Cons.prems(2) p have a: "a \<notin> set K" and e: "set K \<inter> set (map fst e) = {}"
    by auto
  have step: "\<And>k. map_of (AList.update a v x') k =
      (if k \<in> set K then None else map_of (AList.update a v x) k)"
    using Cons.prems(1) a by (auto simp: update_conv')
  have "map_of (dict_update (AList.update a v x') e) k =
      (if k \<in> set K then None else map_of (dict_update (AList.update a v x) e) k)"
    by (rule Cons.IH [OF step e])
  then show ?case by (simp add: dict_update_def p)
qed

lemma distinct_dict_update: "distinct (map fst (dict_update x e)) = distinct (map fst x)"
proof (induction e arbitrary: x)
  case Nil
  then show ?case by (simp add: dict_update_def)
next
  case (Cons p e)
  obtain a v where p: "p = (a, v)" by (cases p)
  have "distinct (map fst (dict_update (AList.update a v x) e)) = distinct (map fst x)"
    using Cons.IH [of "AList.update a v x"] by (simp add: distinct_update_iff)
  then show ?case by (simp add: dict_update_def p)
qed

lemma migrate_drop:
  assumes mg: "migrate x ep = Inr y"
    and disj: "set K \<inter> set (case ep of PDict e \<Rightarrow> map fst e | _ \<Rightarrow> []) = {}"
  shows "\<exists>y'. migrate (drop_keys K x) ep = Inr y' \<and>
           (\<forall>k. map_of y' k = (if k \<in> set K then None else map_of y k)) \<and>
           (distinct (map fst y) \<longrightarrow> distinct (map fst y'))"
proof (cases "truthy ep")
  case False
  with mg have y: "y = x" by (simp add: migrate_def)
  from False have "migrate (drop_keys K x) ep = Inr (drop_keys K x)"
    by (simp add: migrate_def)
  then show ?thesis
    using y by (auto simp: map_of_drop_keys distinct_drop_keys)
next
  case True
  with mg obtain e where ep: "ep = PDict e" and y: "y = dict_update x e"
    by (cases ep) (auto simp: migrate_def)
  from disj ep have d: "set K \<inter> set (map fst e) = {}" by simp
  have m: "migrate (drop_keys K x) ep = Inr (dict_update (drop_keys K x) e)"
    using True ep by (simp add: migrate_def)
  have r: "\<And>k. map_of (dict_update (drop_keys K x) e) k =
      (if k \<in> set K then None else map_of (dict_update x e) k)"
    by (rule dict_update_rel [OF _ d]) (simp add: map_of_drop_keys)
  have ds: "distinct (map fst (dict_update x e)) \<longrightarrow>
      distinct (map fst (dict_update (drop_keys K x) e))"
    by (simp add: distinct_dict_update distinct_drop_keys)
  show ?thesis using m r ds y by blast
qed

lemma Scenario_init_distinct:
  assumes "Scenario_init E now kw = Inr S"
  shows "distinct (map fst kw)"
proof (rule ccontr)
  assume n: "\<not> distinct (map fst kw)"
  have "Scenario_init E now kw = Inl TypeError"
    unfolding Scenario_init_def by (simp only: n not_False_eq_True if_True)
  with assms show False by simp
qed

text \<open>
  C2. Take a stored document that \<^verbatim>\<open>from_dict\<close> loads, and drop from it any of the
  twelve newer optional fields, the keys \<open>K\<close> (which the nested \<^verbatim>\<open>equipment_params\<close>
  object, if any, does not supply). \<^verbatim>\<open>from_dict\<close> still succeeds; each dropped field
  holds its documented default (1.0 for the three contract \<^verbatim>\<open>param_a\<close> fields, 0.0 for
  the rest) and every other field is as loaded from the full document.
\<close>

theorem from_dict_fills_defaults:
  assumes ok: "from_dict E now d = Inr S"
    and twelve: "set K \<subseteq>
       {''elec_offtake_contract_param_a'', ''elec_offtake_contract_param_b'',
        ''elec_injection_contract_param_a'', ''elec_injection_contract_param_b'',
        ''elec_grid_cost_energy'', ''elec_grid_cost_power_peak'',
        ''elec_grid_cost_power_fixed'', ''elec_grid_cost_max_tariff'',
        ''elec_offtake_tax_energy'', ''gas_offtake_contract_param_a'',
        ''gas_offtake_contract_param_b'', ''gas_grid_cost_energy''}"
    and eq: "set K \<inter> set (equipment_keys d) = {}"
  shows "from_dict E now (drop_keys K d) = Inr (with_defaults K S)"
proof -
  have "{''elec_offtake_contract_param_a'', ''elec_offtake_contract_param_b'',
     ''elec_injection_contract_param_a'', ''elec_injection_contract_param_b'',
     ''elec_grid_cost_energy'', ''elec_grid_cost_power_peak'',
     ''elec_grid_cost_power_fixed'', ''elec_grid_cost_max_tariff'',
     ''elec_offtake_tax_energy'', ''gas_offtake_contract_param_a'',
     ''gas_offtake_contract_param_b'', ''gas_grid_cost_energy''}
      \<subseteq> set (map fst defaults)"
    by (simp add: defaults_def)
  with twelve have K: "set K \<subseteq> set (map fst defaults)" by (rule subset_trans)
  have "''dispatch_options'' \<notin> set (map fst defaults)" by code_simp
  with K have n1: "''dispatch_options'' \<notin> set K" by blast
  have "''metadata'' \<notin> set (map fst defaults)" by code_simp
  with K have n2: "''metadata'' \<notin> set K" by blast
  have "''equipment_params'' \<notin> set (map fst defaults)" by code_simp
  with K have n3: "''equipment_params'' \<notin> set K" by blast
  obtain dov data1 where p1: "dict_pop d ''dispatch_options'' (PDict []) = (dov, data1)"
    by (cases "dict_pop d ''dispatch_options'' (PDict [])")
  obtain mdv data2 where p2: "dict_pop data1 ''metadata'' (PDict []) = (mdv, data2)"
    by (cases "dict_pop data1 ''metadata'' (PDict [])")
  obtain ep data3 where p3: "dict_pop data2 ''equipment_params'' (PDict []) = (ep, data3)"
    by (cases "dict_pop data2 ''equipment_params'' (PDict [])")
  from ok obtain data4 do1 do2 dopts md where
    mg: "migrate data3 ep = Inr data4"
    and e1: "convert_enum ''BuilderType'' (BuilderType_values E) ''builder_type'' dov = Inr do1"
    and e2: "convert_enum ''SolverType'' (SolverType_values E) ''solver'' do1 = Inr do2"
    and e3: "convert_enum ''DispatchType'' (DispatchType_values E) ''dispatch_type'' do2
               = Inr (PDict dopts)"
    and mdv: "mdv = PDict md"
    and init: "Scenario_init E now (fill_defaults data4 @ dopts @ md) = Inr S"
    by (auto simp: from_dict_def p1 p2 p3 split: sum.splits pyval.splits)
  have p1': "dict_pop (drop_keys K d) ''dispatch_options'' (PDict []) = (dov, drop_keys K data1)"
    by (rule dict_pop_drop_keys [OF n1 p1])
  have p2': "dict_pop (drop_keys K data1) ''metadata'' (PDict []) = (mdv, drop_keys K data2)"
    by (rule dict_pop_drop_keys [OF n2 p2])
  have p3': "dict_pop (drop_keys K data2) ''equipment_params'' (PDict []) = (ep, drop_keys K data3)"
    by (rule dict_pop_drop_keys [OF n3 p3])
  have "map_of data2 ''equipment_params'' = map_of d ''equipment_params''"
    using dict_pop_other [OF p1, of "''equipment_params''"]
      dict_pop_other [OF p2, of "''equipment_params''"]
    by simp
  with dict_pop_value [OF p3]
  have ep: "ep = (case map_of d ''equipment_params'' of None \<Rightarrow> PDict [] | Some w \<Rightarrow> w)"
    by simp
  have "set (case ep of PDict e \<Rightarrow> map fst e | _ \<Rightarrow> []) = set (equipment_keys d)"
    by (simp add: ep equipment_keys_def split: option.splits pyval.splits)
  with eq have disj: "set K \<inter> set (case ep of PDict e \<Rightarrow> map fst e | _ \<Rightarrow> []) = {}"
    by simp
  from migrate_drop [OF mg disj] obtain data4' where
    mg': "migrate (drop_keys K data3) ep = Inr data4'"
    and r4: "\<And>k. map_of data4' k = (if k \<in> set K then None else map_of data4 k)"
    and d4: "distinct (map fst data4) \<longrightarrow> distinct (map fst data4')"
    by blast
  let ?kw = "fill_defaults data4 @ dopts @ md"
  let ?kw' = "fill_defaults data4' @ dopts @ md"
  have fd: "from_dict E now (drop_keys K d) = Scenario_init E now ?kw'"
    by (simp add: from_dict_def p1' p2' p3' mg' e1 e2 e3 mdv)
  have rel: "\<And>k. map_of ?kw' k = (if k \<in> set K then map_of defaults k else map_of ?kw k)"
  proof -
    fix k
    show "map_of ?kw' k = (if k \<in> set K then map_of defaults k else map_of ?kw k)"
    proof (cases "k \<in> set K")
      case True
      with K have "k \<in> set (map fst defaults)" by blast
      then have "map_of defaults k \<noteq> None"
        by (simp add: map_of_eq_None_iff)
      then obtain v where v: "map_of defaults k = Some v" by auto
      have "map_of (fill_defaults data4') k = Some v"
        using True v by (simp add: map_of_fill_defaults r4)
      then show ?thesis using True v
        by (simp add: map_of_append_lookup del: map_of_append)
    next
      case False
      then have "map_of (fill_defaults data4') k = map_of (fill_defaults data4) k"
        by (simp add: map_of_fill_defaults r4)
      then show ?thesis using False
        by (simp add: map_of_append_lookup del: map_of_append)
    qed
  qed
  have sub: "set (map fst data4') \<subseteq> set (map fst data4)"
  proof -
    have "dom (map_of data4') \<subseteq> dom (map_of data4)"
      by (auto simp: r4 dom_def split: if_splits)
    then show ?thesis by (simp add: dom_map_of_conv_image_fst)
  qed
  have c1: "distinct (map fst ?kw)"
    by (rule Scenario_init_distinct [OF init])
  have dist: "distinct (map fst ?kw')"
  proof -
    from c1 have a: "distinct (map fst (fill_defaults data4))"
      and b: "distinct (map fst (dopts @ md))"
      and c: "set (map fst (fill_defaults data4)) \<inter> set (map fst (dopts @ md)) = {}"
      by (simp_all only: map_append distinct_append)
    from a d4 have a': "distinct (map fst (fill_defaults data4'))"
      by (simp add: distinct_fill_defaults)
    from sub have "set (map fst (fill_defaults data4')) \<subseteq> set (map fst (fill_defaults data4))"
      unfolding keys_fill_defaults by blast
    with c have c': "set (map fst (fill_defaults data4')) \<inter> set (map fst (dopts @ md)) = {}"
      by blast
    from a' b c' show ?thesis
      by (simp only: map_append distinct_append)
  qed
  have dk: "set (map fst defaults) \<subseteq> set (map fst ?kw)"
    by (simp only: map_append set_append keys_fill_defaults) blast
  show ?thesis
    unfolding fd by (rule Scenario_init_drop [OF init rel dist K dk])
qed


theorem from_dict_fills_defaults_witness:
  "\<exists>doc newer. to_dict (base_scenario example_enums ''2025-06-01 12:00:00'') = Inr doc \<and>
     newer = [''elec_offtake_contract_param_a'', ''elec_offtake_contract_param_b'',
        ''elec_injection_contract_param_a'', ''elec_injection_contract_param_b'',
        ''elec_grid_cost_energy'', ''elec_grid_cost_power_peak'',
        ''elec_grid_cost_power_fixed'', ''elec_grid_cost_max_tariff'',
        ''elec_offtake_tax_energy'', ''gas_offtake_contract_param_a'',
        ''gas_offtake_contract_param_b'', ''gas_grid_cost_energy''] \<and>
     from_dict example_enums ''2026-01-01 00:00:00'' doc =
       Inr (base_scenario example_enums ''2025-06-01 12:00:00'') \<and>
     set newer \<inter> set (equipment_keys doc) = {} \<and>
     from_dict example_enums ''2026-01-01 00:00:00'' (drop_keys newer doc) =
       Inr (with_defaults newer (base_scenario example_enums ''2025-06-01 12:00:00'')) \<and>
     elec_offtake_contract_param_a (with_defaults newer (base_scenario example_enums ''2025-06-01 12:00:00'')) = PFloat 1 \<and>
     elec_offtake_contract_param_b (with_defaults newer (base_scenario example_enums ''2025-06-01 12:00:00'')) = PFloat 0 \<and>
     elec_injection_contract_param_a (with_defaults newer (base_scenario example_enums ''2025-06-01 12:00:00'')) = PFloat 1 \<and>
     elec_injection_contract_param_b (with_defaults newer (base_scenario example_enums ''2025-06-01 12:00:00'')) = PFloat 0 \<and>
     elec_grid_cost_energy (with_defaults newer (base_scenario example_enums ''2025-06-01 12:00:00'')) = PFloat 0 \<and>
     elec_grid_cost_power_peak (with_defaults newer (base_scenario example_enums ''2025-06-01 12:00:00'')) = PFloat 0 \<and>
     elec_grid_cost_power_fixed (with_defaults newer (base_scenario example_enums ''2025-06-01 12:00:00'')) = PFloat 0 \<and>
     elec_grid_cost_max_tariff (with_defaults newer (base_scenario example_enums ''2025-06-01 12:00:00'')) = PFloat 0 \<and>
     elec_offtake_tax_energy (with_defaults newer (base_scenario example_enums ''2025-06-01 12:00:00'')) = PFloat 0 \<and>
     gas_offtake_contract_param_a (with_defaults newer (base_scenario example_enums ''2025-06-01 12:00:00'')) = PFloat 1 \<and>
     gas_offtake_contract_param_b (with_defaults newer (base_scenario example_enums ''2025-06-01 12:00:00'')) = PFloat 0 \<and>
     gas_grid_cost_energy (with_defaults newer (base_scenario example_enums ''2025-06-01 12:00:00'')) = PFloat 0 \<and>
     elec_offtake_contract_param_a (base_scenario example_enums ''2025-06-01 12:00:00'') = PFloat 0 \<and>
     price_starttime (with_defaults newer (base_scenario example_enums ''2025-06-01 12:00:00''))
       = price_starttime (base_scenario example_enums ''2025-06-01 12:00:00'')"
proof -
  let ?B = "base_scenario example_enums ''2025-06-01 12:00:00''"
  let ?K = "[''elec_offtake_contract_param_a'', ''elec_offtake_contract_param_b'',
        ''elec_injection_contract_param_a'', ''elec_injection_contract_param_b'',
        ''elec_grid_cost_energy'', ''elec_grid_cost_power_peak'',
        ''elec_grid_cost_power_fixed'', ''elec_grid_cost_max_tariff'',
        ''elec_offtake_tax_energy'', ''gas_offtake_contract_param_a'',
        ''gas_offtake_contract_param_b'', ''gas_grid_cost_energy'']"
  have e: "?B\<lparr>extra_attrs := []\<rparr> = ?B"
    by (simp add: base_scenario_def)
  have b1: "builder_type ?B = PEnum ''BuilderType'' ''pyomo''"
    by (simp add: base_scenario_def example_enums_def)
  have b2: "''pyomo'' \<in> set (BuilderType_values example_enums)"
    by (simp add: example_enums_def)
  have s1: "solver ?B = PEnum ''SolverType'' ''cbc''"
    by (simp add: base_scenario_def example_enums_def)
  have s2: "''cbc'' \<in> set (SolverType_values example_enums)"
    by (simp add: example_enums_def)
  have d1: "dispatch_type ?B = PEnum ''DispatchType'' ''monthly''"
    by (simp add: base_scenario_def example_enums_def)
  have d2: "''monthly'' \<in> set (DispatchType_values example_enums)"
    by (simp add: example_enums_def)
  have ca: "created_at ?B \<noteq> PNone"
    by (simp add: base_scenario_def)
  from from_dict_to_dict_aux [OF b1 b2 s1 s2 d1 d2 ca, of "''2026-01-01 00:00:00''", unfolded e]
  obtain doc where td: "to_dict ?B = Inr doc"
    and fd: "from_dict example_enums ''2026-01-01 00:00:00'' doc = Inr ?B"
    and ek: "equipment_keys doc = []"
    by blast
  have K: "set ?K \<subseteq>
       {''elec_offtake_contract_param_a'', ''elec_offtake_contract_param_b'',
        ''elec_injection_contract_param_a'', ''elec_injection_contract_param_b'',
        ''elec_grid_cost_energy'', ''elec_grid_cost_power_peak'',
        ''elec_grid_cost_power_fixed'', ''elec_grid_cost_max_tariff'',
        ''elec_offtake_tax_energy'', ''gas_offtake_contract_param_a'',
        ''gas_offtake_contract_param_b'', ''gas_grid_cost_energy''}"
    by simp
  have dj: "set ?K \<inter> set (equipment_keys doc) = {}"
    by (simp only: ek list.set Int_empty_right)
  have v1: "elec_offtake_contract_param_a (with_defaults ?K ?B) = PFloat 1"
    by (simp add: with_defaults_def)
  have v2: "elec_offtake_contract_param_b (with_defaults ?K ?B) = PFloat 0"
    by (simp add: with_defaults_def)
  have v3: "elec_injection_contract_param_a (with_defaults ?K ?B) = PFloat 1"
    by (simp add: with_defaults_def)
  have v4: "elec_injection_contract_param_b (with_defaults ?K ?B) = PFloat 0"
    by (simp add: with_defaults_def)
  have v5: "elec_grid_cost_energy (with_defaults ?K ?B) = PFloat 0"
    by (simp add: with_defaults_def)
  have v6: "elec_grid_cost_power_peak (with_defaults ?K ?B) = PFloat 0"
    by (simp add: with_defaults_def)
  have v7: "elec_grid_cost_power_fixed (with_defaults ?K ?B) = PFloat 0"
    by (simp add: with_defaults_def)
  have v8: "elec_grid_cost_max_tariff (with_defaults ?K ?B) = PFloat 0"
    by (simp add: with_defaults_def)
  have v9: "elec_offtake_tax_energy (with_defaults ?K ?B) = PFloat 0"
    by (simp add: with_defaults_def)
  have v10: "gas_offtake_contract_param_a (with_defaults ?K ?B) = PFloat 1"
    by (simp add: with_defaults_def)
  have v11: "gas_offtake_contract_param_b (with_defaults ?K ?B) = PFloat 0"
    by (simp add: with_defaults_def)
  have v12: "gas_grid_cost_energy (with_defaults ?K ?B) = PFloat 0"
    by (simp add: with_defaults_def)
  have old: "elec_offtake_contract_param_a ?B = PFloat 0"
    by (simp add: base_scenario_def)
  have same: "price_starttime (with_defaults ?K ?B) = price_starttime ?B"
    by (simp add: with_defaults_def)
  note main = from_dict_fills_defaults [OF fd K dj]
  from td fd dj main v1 v2 v3 v4 v5 v6 v7 v8 v9 v10 v11 v12 old same
  show ?thesis by blast
qed

section \<open>Fault isolation in the batch driver\<close>

lemma run_loop_eq:
  assumes "Interrupted \<notin> set (snd (run_each run w names))"
  shows "run_loop run w names failed =
     (fst (run_each run w names),
      concat (map scenario_lines (zip names (snd (run_each run w names)))),
      failed @ failures (zip names (snd (run_each run w names))),
      False)"
  using assms
proof (induction names arbitrary: w failed)
  case Nil
  then show ?case by simp
next
  case (Cons n rest)
  obtain w' oc where r: "run w n = (w', oc)" by (cases "run w n")
  obtain w'' ocs where e: "run_each run w' rest = (w'', ocs)"
    by (cases "run_each run w' rest")
  from Cons.prems r e have oc: "oc \<noteq> Interrupted" and rest: "Interrupted \<notin> set ocs"
    by auto
  from rest e have i: "Interrupted \<notin> set (snd (run_each run w' rest))" by simp
  show ?case
  proof (cases oc)
    case Returned
    then show ?thesis using r e Cons.IH [OF i, of failed] by simp
  next
    case (Raised msg)
    then show ?thesis using r e Cons.IH [OF i, of "failed @ [(n, msg)]"] by simp
  next
    case Interrupted
    with oc show ?thesis by simp
  qed
qed

lemma length_run_each: "length (snd (run_each run w names)) = length names"
proof (induction names arbitrary: w)
  case Nil
  then show ?case by simp
next
  case (Cons n rest)
  obtain w' oc where r: "run w n = (w', oc)" by (cases "run w n")
  obtain w'' ocs where e: "run_each run w' rest = (w'', ocs)"
    by (cases "run_each run w' rest")
  from Cons.IH [of w'] e have "length ocs = length rest" by simp
  then show ?case by (simp add: r e)
qed

lemma length_failures:
  "length (failures xs) = length (filter (\<lambda>x. \<exists>msg. snd x = Raised msg) xs)"
  by (induction xs rule: failures.induct) auto

text \<open>
  C3. For a batch of N \<ge> 1 scenarios in which some runs raise an exception (of class
  Exception), \<^verbatim>\<open>run_all_scenarios\<close> returns normally, having attempted every
  scenario in order: its output is the heading, for each scenario its "Running" line
  followed by its success line or its failure line, and the summary, whose count is N
  minus the number of scenarios that raised.
\<close>

theorem run_all_scenarios_isolates_failures:
  assumes "list_scenarios manager \<noteq> []"
    and "Interrupted \<notin> set (snd (run_each run_scenario w (map fst (list_scenarios manager))))"
  shows "run_all_scenarios run_scenario (Inr manager) w =
     (fst (run_each run_scenario w (map fst (list_scenarios manager))),
      RunningAll #
        concat (map scenario_lines
          (zip (map fst (list_scenarios manager))
               (snd (run_each run_scenario w (map fst (list_scenarios manager)))))) @
        summary (length (list_scenarios manager))
          (failures (zip (map fst (list_scenarios manager))
               (snd (run_each run_scenario w (map fst (list_scenarios manager)))))),
      ReturnedNormally) \<and>
    length (snd (run_each run_scenario w (map fst (list_scenarios manager))))
      = length (list_scenarios manager) \<and>
    SuccessfullyCompleted
      (int (length (list_scenarios manager)) -
       int (length (filter (\<lambda>oc. \<exists>msg. oc = Raised msg)
              (snd (run_each run_scenario w (map fst (list_scenarios manager)))))))
      (length (list_scenarios manager))
      \<in> set (fst (snd (run_all_scenarios run_scenario (Inr manager) w)))"
proof -
  let ?names = "map fst (list_scenarios manager)"
  let ?ocs = "snd (run_each run_scenario w ?names)"
  have eq: "run_all_scenarios run_scenario (Inr manager) w =
     (fst (run_each run_scenario w ?names),
      RunningAll # concat (map scenario_lines (zip ?names ?ocs)) @
        summary (length (list_scenarios manager)) (failures (zip ?names ?ocs)),
      ReturnedNormally)"
    using assms(1) by (simp add: run_all_scenarios_def Let_def run_loop_eq [OF assms(2)])
  have len: "length ?ocs = length (list_scenarios manager)"
    by (simp add: length_run_each)
  have "length (filter (\<lambda>x. \<exists>msg. snd x = Raised msg) (zip ?names ?ocs))
      = length (filter (\<lambda>oc. \<exists>msg. oc = Raised msg) (map snd (zip ?names ?ocs)))"
    by (simp add: filter_map comp_def)
  also have "map snd (zip ?names ?ocs) = ?ocs"
    by (simp add: len)
  finally have cnt: "length (failures (zip ?names ?ocs))
      = length (filter (\<lambda>oc. \<exists>msg. oc = Raised msg) ?ocs)"
    by (simp add: length_failures)
  have "SuccessfullyCompleted
      (int (length (list_scenarios manager)) -
       int (length (filter (\<lambda>oc. \<exists>msg. oc = Raised msg) ?ocs)))
      (length (list_scenarios manager))
      \<in> set (summary (length (list_scenarios manager)) (failures (zip ?names ?ocs)))"
    by (simp add: summary_def cnt)
  then show ?thesis using eq len by simp
qed

theorem run_all_scenarios_isolates_failures_witness:
  "list_scenarios example_batch \<noteq> [] \<and>
   Interrupted \<notin> set (snd (run_each example_run 0 (map fst (list_scenarios example_batch)))) \<and>
   run_all_scenarios example_run (Inr example_batch) 0 =
     (4,
      [RunningAll,
       RunningScenario ''Flex_0'', CompletedSuccessfully ''Flex_0'',
       RunningScenario ''Flex_4'', FailedWithError ''Flex_4'' ''File not found'',
       ContinuingWithRemaining,
       RunningScenario ''Flex_1.1'', CompletedSuccessfully ''Flex_1.1'',
       RunningScenario ''Flex_5.1'', FailedWithError ''Flex_5.1'' ''Invalid date range'',
       ContinuingWithRemaining,
       Rule, SummaryTitle, Rule, SuccessfullyCompleted 2 4,
       FailedScenariosHeader,
       FailedScenario ''Flex_4'' ''File not found'',
       FailedScenario ''Flex_5.1'' ''Invalid date range''],
      ReturnedNormally)"
proof -
  have names: "map fst (list_scenarios example_batch)
      = [''Flex_0'', ''Flex_4'', ''Flex_1.1'', ''Flex_5.1'']"
    by (simp add: list_scenarios_def example_batch_def)
  have ne: "list_scenarios example_batch \<noteq> []"
    by (simp add: list_scenarios_def example_batch_def)
  have each: "run_each example_run 0 [''Flex_0'', ''Flex_4'', ''Flex_1.1'', ''Flex_5.1'']
      = (4, [Returned, Raised ''File not found'', Returned, Raised ''Invalid date range''])"
    by (simp add: example_run_def)
  have ni: "Interrupted \<notin>
      set (snd (run_each example_run 0 (map fst (list_scenarios example_batch))))"
    unfolding names each by simp
  have len: "length (list_scenarios example_batch) = 4"
    by (simp add: list_scenarios_def example_batch_def)
  from run_all_scenarios_isolates_failures [OF ne ni, unfolded names each len] ne ni
  show ?thesis
    by (simp add: summary_def)
qed

section \<open>Importing the batch driver\<close>

text \<open>
  C5. Importing \<^verbatim>\<open>run_scenarios\<close> stops at its second statement with
  NameError for \<^verbatim>\<open>Path\<close>: only \<^verbatim>\<open>os\<close> has been bound, so neither
  \<^verbatim>\<open>run_scenario\<close> nor \<^verbatim>\<open>run_all_scenarios\<close> exists, and no statement of the
  module binds \<^verbatim>\<open>Path\<close> at all.
\<close>

theorem run_scenarios_import_fails:
  assumes "importable ''os''"
  shows "exec_module importable initial_names run_scenarios_py
           = (''os'' # initial_names, Some (NameErr ''Path'')) \<and>
         ''run_scenario'' \<notin> set (fst (exec_module importable initial_names run_scenarios_py)) \<and>
         ''run_all_scenarios''
           \<notin> set (fst (exec_module importable initial_names run_scenarios_py)) \<and>
         ''Path'' \<notin> set (concat (map binds run_scenarios_py)) \<and>
         ''Path'' \<notin> set initial_names"
proof -
  have e: "exec_module importable initial_names run_scenarios_py
      = (''os'' # initial_names, Some (NameErr ''Path''))"
    using assms by (simp add: run_scenarios_py_def initial_names_def)
  have a: "''run_scenario'' \<notin> set (''os'' # initial_names)"
    by (simp add: initial_names_def)
  have b: "''run_all_scenarios'' \<notin> set (''os'' # initial_names)"
    by (simp add: initial_names_def)
  have c: "''Path'' \<notin> set (concat (map binds run_scenarios_py))"
    by (simp add: run_scenarios_py_def)
  have d: "''Path'' \<notin> set initial_names"
    by (simp add: initial_names_def)
  show ?thesis using e a b c d by simp
qed

theorem run_scenarios_import_fails_witness:
  "(\<lambda>m. True) ''os'' \<and>
   exec_module (\<lambda>m. True) initial_names run_scenarios_py
     = (''os'' # initial_names, Some (NameErr ''Path''))"
  using run_scenarios_import_fails [of "\<lambda>m. True"] by simp

section \<open>The toegangsvermogen cost\<close>

lemma py_round_int: "py_round (of_int n) = n"
  by (simp add: py_round_def)

text \<open>
  C8. When the first record named \<open>scenario_name\<close> has
  \<^verbatim>\<open>elec_grid_cost_power_fixed = 2.0\<close> and \<^verbatim>\<open>e_boiler_capacity = 5\<close> the cost is
  120000. The cost is 0 when no record has that name, when the file does not exist or
  cannot be read, when the sheet has no \<^verbatim>\<open>Name\<close> column, and when either input of
  the first matching record is NaN or both are absent from it.
\<close>

theorem toegangsvermogen_cost:
  "(''Name'' \<in> set (columns df) \<and>
    filter (\<lambda>r. map_of r ''Name'' = Some (CStr scenario_name)) (rows df) = r # others \<and>
    map_of r ''elec_grid_cost_power_fixed'' = Some (CNum 2.0) \<and>
    map_of r ''e_boiler_capacity'' = Some (CNum 5)
      \<longrightarrow> get_toegangsvermogen_cost (Some (Inr df)) scenario_name = 120000) \<and>
   ((\<forall>r \<in> set (rows df). map_of r ''Name'' \<noteq> Some (CStr scenario_name))
      \<longrightarrow> get_toegangsvermogen_cost (Some (Inr df)) scenario_name = 0) \<and>
   get_toegangsvermogen_cost None scenario_name = 0 \<and>
   get_toegangsvermogen_cost (Some (Inl e)) scenario_name = 0 \<and>
   (''Name'' \<notin> set (columns df)
      \<longrightarrow> get_toegangsvermogen_cost (Some (Inr df)) scenario_name = 0) \<and>
   (filter (\<lambda>r. map_of r ''Name'' = Some (CStr scenario_name)) (rows df) = r # others \<and>
    (map_of r ''elec_grid_cost_power_fixed'' = Some CNaN \<or>
     map_of r ''e_boiler_capacity'' = Some CNaN \<or>
     map_of r ''elec_grid_cost_power_fixed'' = None \<and> map_of r ''e_boiler_capacity'' = None)
      \<longrightarrow> get_toegangsvermogen_cost (Some (Inr df)) scenario_name = 0)"
proof -
  have p: "py_round (2.0 * 5 * 1000 * 12) = 120000"
    using py_round_int [of 120000] by simp
  have z: "py_round 0 = 0"
    using py_round_int [of 0] by simp
  have a: "''Name'' \<in> set (columns df) \<and>
    filter (\<lambda>r. map_of r ''Name'' = Some (CStr scenario_name)) (rows df) = r # others \<and>
    map_of r ''elec_grid_cost_power_fixed'' = Some (CNum 2.0) \<and>
    map_of r ''e_boiler_capacity'' = Some (CNum 5)
      \<longrightarrow> get_toegangsvermogen_cost (Some (Inr df)) scenario_name = 120000"
    using p by (simp add: get_toegangsvermogen_cost_def series_get_def)
  have b: "(\<forall>r \<in> set (rows df). map_of r ''Name'' \<noteq> Some (CStr scenario_name))
      \<longrightarrow> get_toegangsvermogen_cost (Some (Inr df)) scenario_name = 0"
  proof
    assume "\<forall>r \<in> set (rows df). map_of r ''Name'' \<noteq> Some (CStr scenario_name)"
    then have "filter (\<lambda>r. map_of r ''Name'' = Some (CStr scenario_name)) (rows df) = []"
      by (simp add: filter_empty_conv)
    then show "get_toegangsvermogen_cost (Some (Inr df)) scenario_name = 0"
      by (simp add: get_toegangsvermogen_cost_def)
  qed
  have c: "get_toegangsvermogen_cost None scenario_name = 0"
    "get_toegangsvermogen_cost (Some (Inl e)) scenario_name = 0"
    "''Name'' \<notin> set (columns df)
      \<longrightarrow> get_toegangsvermogen_cost (Some (Inr df)) scenario_name = 0"
    by (simp_all add: get_toegangsvermogen_cost_def)
  have d: "filter (\<lambda>r. map_of r ''Name'' = Some (CStr scenario_name)) (rows df) = r # others \<and>
    (map_of r ''elec_grid_cost_power_fixed'' = Some CNaN \<or>
     map_of r ''e_boiler_capacity'' = Some CNaN \<or>
     map_of r ''elec_grid_cost_power_fixed'' = None \<and> map_of r ''e_boiler_capacity'' = None)
      \<longrightarrow> get_toegangsvermogen_cost (Some (Inr df)) scenario_name = 0"
    using z by (auto simp: get_toegangsvermogen_cost_def series_get_def Let_def
        split: cell.splits option.splits)
  from a b c d show ?thesis by blast
qed

theorem toegangsvermogen_cost_witness:
  "get_toegangsvermogen_cost (Some (Inr example_sheet)) ''Flex_4'' = 120000 \<and>
   get_toegangsvermogen_cost (Some (Inr example_sheet)) ''Flex_9'' = 0 \<and>
   get_toegangsvermogen_cost (Some (Inr example_sheet)) ''Flex_5.1'' = 0 \<and>
   get_toegangsvermogen_cost (Some (Inr (example_sheet\<lparr>columns := []\<rparr>))) ''Flex_4'' = 0"
proof -
  have f4: "''Name'' \<in> set (columns example_sheet) \<and>
      filter (\<lambda>r. map_of r ''Name'' = Some (CStr ''Flex_4'')) (rows example_sheet)
        = [(''Name'', CStr ''Flex_4''), (''elec_grid_cost_power_fixed'', CNum 2.0),
           (''e_boiler_capacity'', CNum 5)] # [] \<and>
      map_of [(''Name'', CStr ''Flex_4''), (''elec_grid_cost_power_fixed'', CNum 2.0),
           (''e_boiler_capacity'', CNum 5)] ''elec_grid_cost_power_fixed'' = Some (CNum 2.0) \<and>
      map_of [(''Name'', CStr ''Flex_4''), (''elec_grid_cost_power_fixed'', CNum 2.0),
           (''e_boiler_capacity'', CNum 5)] ''e_boiler_capacity'' = Some (CNum 5)"
    by (simp add: example_sheet_def)
  have f9: "\<forall>r \<in> set (rows example_sheet). map_of r ''Name'' \<noteq> Some (CStr ''Flex_9'')"
    by (simp add: example_sheet_def)
  have f5: "filter (\<lambda>r. map_of r ''Name'' = Some (CStr ''Flex_5.1'')) (rows example_sheet)
        = [(''Name'', CStr ''Flex_5.1''), (''elec_grid_cost_power_fixed'', CNaN),
           (''e_boiler_capacity'', CNum 5)] # [] \<and>
      (map_of [(''Name'', CStr ''Flex_5.1''), (''elec_grid_cost_power_fixed'', CNaN),
           (''e_boiler_capacity'', CNum 5)] ''elec_grid_cost_power_fixed'' = Some CNaN \<or>
       map_of [(''Name'', CStr ''Flex_5.1''), (''elec_grid_cost_power_fixed'', CNaN),
           (''e_boiler_capacity'', CNum 5)] ''e_boiler_capacity'' = Some CNaN \<or>
       map_of [(''Name'', CStr ''Flex_5.1''), (''elec_grid_cost_power_fixed'', CNaN),
           (''e_boiler_capacity'', CNum 5)] ''elec_grid_cost_power_fixed'' = None \<and>
       map_of [(''Name'', CStr ''Flex_5.1''), (''elec_grid_cost_power_fixed'', CNaN),
           (''e_boiler_capacity'', CNum 5)] ''e_boiler_capacity'' = None)"
    by (simp add: example_sheet_def)
  have nc: "''Name'' \<notin> set (columns (example_sheet\<lparr>columns := []\<rparr>))"
    by simp
  from toegangsvermogen_cost [of example_sheet "''Flex_4''" _ "[]"] f4
  have r4: "get_toegangsvermogen_cost (Some (Inr example_sheet)) ''Flex_4'' = 120000"
    by blast
  from toegangsvermogen_cost [of example_sheet "''Flex_9''"] f9
  have r9: "get_toegangsvermogen_cost (Some (Inr example_sheet)) ''Flex_9'' = 0"
    by blast
  from toegangsvermogen_cost [of example_sheet "''Flex_5.1''" _ "[]"] f5
  have r5: "get_toegangsvermogen_cost (Some (Inr example_sheet)) ''Flex_5.1'' = 0"
    by blast
  from toegangsvermogen_cost [of "example_sheet\<lparr>columns := []\<rparr>" "''Flex_4''"] nc
  have rn: "get_toegangsvermogen_cost (Some (Inr (example_sheet\<lparr>columns := []\<rparr>))) ''Flex_4'' = 0"
    by blast
  from r4 r9 r5 rn show ?thesis by simp
qed

section \<open>The single-writer rule of the component graph\<close>

lemma connect_Inr:
  "connect m a d = Inr m' \<Longrightarrow>
     m' = m\<lparr>connections := connections m @ [(a, d)]\<rparr> \<and> d \<notin> set (map snd (connections m)) \<and>
     dict_contains (components m) (fst a) \<and> dict_contains (components m) (fst d)"
  by (auto simp: connect_def split: if_splits)

lemma connect_again:
  assumes "connect m a d = Inr m'" and "dict_contains (components m) (fst b)"
  shows "connect m' b d = Inl MultipleWriterError"
proof -
  from connect_Inr [OF assms(1)] have m': "m' = m\<lparr>connections := connections m @ [(a, d)]\<rparr>"
    and od: "dict_contains (components m) (fst d)" by simp_all
  show ?thesis using assms(2) od by (simp add: connect_def m')
qed

lemma connect_each_distinct:
  assumes "\<forall>e \<in> set edges. dict_contains (components m) (fst (fst e)) \<and>
             dict_contains (components m) (fst (snd e))"
    and "distinct (map snd edges)"
    and "set (map snd edges) \<inter> set (map snd (connections m)) = {}"
  shows "connect_each m edges = Inr (m\<lparr>connections := connections m @ edges\<rparr>)"
  using assms
proof (induction edges arbitrary: m)
  case Nil
  then show ?case by simp
next
  case (Cons e edges)
  obtain a d where e: "e = (a, d)" by (cases e)
  let ?m = "m\<lparr>connections := connections m @ [(a, d)]\<rparr>"
  from Cons.prems e have c: "connect m a d = Inr ?m"
    by (auto simp: connect_def)
  have "connect_each ?m edges = Inr (?m\<lparr>connections := connections ?m @ edges\<rparr>)"
    using Cons.prems e by (intro Cons.IH) auto
  then show ?case using c e by simp
qed

lemma connect_keeps_single_writer:
  "distinct (map snd (connections m)) \<Longrightarrow> connect m a d = Inr m' \<Longrightarrow>
     distinct (map snd (connections m'))"
  by (auto dest!: connect_Inr)

lemma distinct_fan_in:
  "distinct (map snd xs) \<Longrightarrow> length (filter (\<lambda>e. snd e = p) xs) \<le> Suc 0"
proof (induction xs)
  case Nil
  then show ?case by simp
next
  case (Cons x xs)
  show ?case
  proof (cases "snd x = p")
    case True
    with Cons.prems have "p \<notin> snd ` set xs" by auto
    then have "filter (\<lambda>e. snd e = p) xs = []"
      by (auto simp: filter_empty_conv)
    with True show ?thesis by simp
  next
    case False
    with Cons show ?thesis by simp
  qed
qed

lemma model_py_assembled:
  "(case assemble model_py_components model_py_connections of
      Inl e \<Rightarrow> False
    | Inr m \<Rightarrow> connections m = model_py_connections \<and>
        distinct (map snd (connections m)) \<and>
        fan_out m (''Gas offtake'', ''quantities'') = 2 \<and>
        fan_out m (''gas_consumption'', ''output1'') = 2)"
  by code_simp

lemma model_bis_assembled:
  "(case assemble model_bis_components model_bis_connections of
      Inl e \<Rightarrow> False
    | Inr m \<Rightarrow> connections m = model_bis_connections \<and>
        distinct (map snd (connections m)) \<and>
        fan_out m (''Gas offtake'', ''quantities'') = 2 \<and>
        fan_out m (''Electricity offtake'', ''quantities'') = 2)"
  by code_simp

text \<open>
  C6. Both model files assemble without error into the graph their \<^verbatim>\<open>connect\<close> calls
  list; in each graph every port is the destination of at most one connection, while the
  quantities port of the gas offtake (and one more port) is the source of two. On any model
  a second \<^verbatim>\<open>connect\<close> to a destination that a successful \<^verbatim>\<open>connect\<close> has just
  used fails with MultipleWriterError, whatever added component the new source belongs to;
  \<^verbatim>\<open>connect\<close> keeps the destinations distinct; and connecting any number of sources of
  added components to distinct destinations that have no incoming connection succeeds.
\<close>

theorem single_writer:
  "(\<exists>m. assemble model_py_components model_py_connections = Inr m \<and>
        connections m = model_py_connections \<and>
        (\<forall>p. fan_in m p \<le> 1) \<and>
        fan_out m (''Gas offtake'', ''quantities'') = 2 \<and>
        fan_out m (''gas_consumption'', ''output1'') = 2) \<and>
   (\<exists>m. assemble model_bis_components model_bis_connections = Inr m \<and>
        connections m = model_bis_connections \<and>
        (\<forall>p. fan_in m p \<le> 1) \<and>
        fan_out m (''Gas offtake'', ''quantities'') = 2 \<and>
        fan_out m (''Electricity offtake'', ''quantities'') = 2) \<and>
   (connect m a d = Inr m' \<and> dict_contains (components m) (fst b)
      \<longrightarrow> connect m' b d = Inl MultipleWriterError) \<and>
   (distinct (map snd (connections m)) \<and> connect m a d = Inr m'
      \<longrightarrow> distinct (map snd (connections m'))) \<and>
   ((\<forall>e \<in> set edges. dict_contains (components m) (fst (fst e)) \<and>
                       dict_contains (components m) (fst (snd e))) \<and>
    distinct (map snd edges) \<and>
    set (map snd edges) \<inter> set (map snd (connections m)) = {}
      \<longrightarrow> connect_each m edges = Inr (m\<lparr>connections := connections m @ edges\<rparr>))"
proof -
  have py: "\<exists>m. assemble model_py_components model_py_connections = Inr m \<and>
        connections m = model_py_connections \<and>
        (\<forall>p. fan_in m p \<le> 1) \<and>
        fan_out m (''Gas offtake'', ''quantities'') = 2 \<and>
        fan_out m (''gas_consumption'', ''output1'') = 2"
    using model_py_assembled
    by (cases "assemble model_py_components model_py_connections")
      (auto simp: fan_in_def distinct_fan_in)
  have bis: "\<exists>m. assemble model_bis_components model_bis_connections = Inr m \<and>
        connections m = model_bis_connections \<and>
        (\<forall>p. fan_in m p \<le> 1) \<and>
        fan_out m (''Gas offtake'', ''quantities'') = 2 \<and>
        fan_out m (''Electricity offtake'', ''quantities'') = 2"
    using model_bis_assembled
    by (cases "assemble model_bis_components model_bis_connections")
      (auto simp: fan_in_def distinct_fan_in)
  have again: "connect m a d = Inr m' \<and> dict_contains (components m) (fst b)
      \<longrightarrow> connect m' b d = Inl MultipleWriterError"
    using connect_again by blast
  have keeps: "distinct (map snd (connections m)) \<and> connect m a d = Inr m'
      \<longrightarrow> distinct (map snd (connections m'))"
    using connect_keeps_single_writer by blast
  have many: "(\<forall>e \<in> set edges. dict_contains (components m) (fst (fst e)) \<and>
                       dict_contains (components m) (fst (snd e))) \<and>
    distinct (map snd edges) \<and>
    set (map snd edges) \<inter> set (map snd (connections m)) = {}
      \<longrightarrow> connect_each m edges = Inr (m\<lparr>connections := connections m @ edges\<rparr>)"
    using connect_each_distinct by blast
  from py bis again keeps many show ?thesis by blast
qed

theorem single_writer_witness:
  "connect example_graph (''Gas offtake'', ''quantities'') (''CO2_emission'', ''input'')
     = Inr (example_graph\<lparr>connections :=
         [((''Gas offtake'', ''quantities''), (''CO2_emission'', ''input''))]\<rparr>) \<and>
   dict_contains (components example_graph) (fst (''gas_consumption'', ''output0'')) \<and>
   connect (example_graph\<lparr>connections :=
         [((''Gas offtake'', ''quantities''), (''CO2_emission'', ''input''))]\<rparr>)
       (''gas_consumption'', ''output0'') (''CO2_emission'', ''input'')
     = Inl MultipleWriterError \<and>
   connect_each example_graph
       [((''Gas offtake'', ''quantities''), (''CO2_emission'', ''input'')),
        ((''Gas offtake'', ''quantities''), (''gas_consumption'', ''input''))]
     = Inr (example_graph\<lparr>connections :=
         [((''Gas offtake'', ''quantities''), (''CO2_emission'', ''input'')),
          ((''Gas offtake'', ''quantities''), (''gas_consumption'', ''input''))]\<rparr>)"
proof -
  let ?a = "(''Gas offtake'', ''quantities'')"
  let ?d = "(''CO2_emission'', ''input'')"
  let ?b = "(''gas_consumption'', ''output0'')"
  let ?edges = "[(?a, ?d), (?a, (''gas_consumption'', ''input''))]"
  let ?m' = "example_graph\<lparr>connections := [(?a, ?d)]\<rparr>"
  have c: "connect example_graph ?a ?d = Inr ?m'"
    by (simp add: connect_def example_graph_def dict_contains_def)
  have o: "dict_contains (components example_graph) (fst ?b)"
    by (simp add: example_graph_def dict_contains_def)
  have dm: "distinct (map snd (connections example_graph))"
    by (simp add: example_graph_def)
  have es: "(\<forall>e \<in> set ?edges. dict_contains (components example_graph) (fst (fst e)) \<and>
              dict_contains (components example_graph) (fst (snd e))) \<and>
      distinct (map snd ?edges) \<and>
      set (map snd ?edges) \<inter> set (map snd (connections example_graph)) = {}"
    by (simp add: example_graph_def dict_contains_def)
  have nil: "connections example_graph @ ?edges = ?edges"
    by (simp add: example_graph_def)
  from single_writer [of example_graph ?a ?d ?m' ?b ?edges] c o dm es
  have "connect ?m' ?b ?d = Inl MultipleWriterError"
    and "connect_each example_graph ?edges
           = Inr (example_graph\<lparr>connections := connections example_graph @ ?edges\<rparr>)"
    by blast+
  then show ?thesis using c o unfolding nil by simp
qed

section \<open>Bindings that are skipped\<close>

lemma read_put_component:
  assumes "map_of (components m) n = Some c"
    and "\<And>p'. t = PortOf n p' \<Longrightarrow> map_of (vars c') p' = map_of (vars c) p'"
    and "t = FactorOf n \<Longrightarrow> conversion_factor c' = conversion_factor c"
  shows "read_target (put_component m n c') t = read_target m t"
proof (cases t)
  case (PortOf n' p')
  show ?thesis
  proof (cases "n' = n")
    case True
    then show ?thesis using assms(1) assms(2) [of p'] PortOf
      by (simp add: put_component_def update_conv')
  next
    case False
    then show ?thesis using PortOf by (simp add: put_component_def update_conv')
  qed
next
  case (FactorOf n')
  show ?thesis
  proof (cases "n' = n")
    case True
    then show ?thesis using assms(1) assms(3) FactorOf
      by (simp add: put_component_def update_conv')
  next
    case False
    then show ?thesis using FactorOf by (simp add: put_component_def update_conv')
  qed
qed

lemma read_put_port:
  assumes c: "map_of (components m) n = Some c" and t: "t \<noteq> PortOf n p"
  shows "read_target (put_component m n (c\<lparr>vars := AList.update p port (vars c)\<rparr>)) t
           = read_target m t"
proof (rule read_put_component [OF c])
  fix p' assume "t = PortOf n p'"
  with t have "p' \<noteq> p" by auto
  then show "map_of (vars (c\<lparr>vars := AList.update p port (vars c)\<rparr>)) p' = map_of (vars c) p'"
    by (simp add: update_conv')
next
  show "conversion_factor (c\<lparr>vars := AList.update p port (vars c)\<rparr>) = conversion_factor c"
    by simp
qed

lemma read_put_factor:
  assumes c: "map_of (components m) n = Some c" and t: "t \<noteq> FactorOf n"
  shows "read_target (put_component m n (c\<lparr>conversion_factor := q\<rparr>)) t = read_target m t"
proof (rule read_put_component [OF c])
  fix p' show "map_of (vars (c\<lparr>conversion_factor := q\<rparr>)) p' = map_of (vars c) p'" by simp
next
  assume "t = FactorOf n"
  with t show "conversion_factor (c\<lparr>conversion_factor := q\<rparr>) = conversion_factor c" by simp
qed

lemma get_component_Inr:
  "get_component m n = Inr c \<longleftrightarrow> map_of (components m) n = Some c"
  by (simp add: get_component_def split: option.splits)

lemma vars_set_values_Inr:
  assumes "vars_set_values n p v m = Inr m'"
  obtains c port q where "map_of (components m) n = Some c"
    and "m' = put_component m n (c\<lparr>vars := AList.update p (port\<lparr>port_values := q\<rparr>) (vars c)\<rparr>)"
proof (cases "get_component m n")
  case (Inl e)
  with assms show ?thesis by (simp add: vars_set_values_def)
next
  case (Inr c)
  note c = this
  show ?thesis
  proof (cases "map_of (vars c) p")
    case None
    with assms c show ?thesis by (simp add: vars_set_values_def)
  next
    case (Some port)
    note port = this
    show ?thesis
    proof (cases v)
      case (Inl e)
      with assms c port show ?thesis by (simp add: vars_set_values_def)
    next
      case (Inr q)
      with assms c port have
        "m' = put_component m n (c\<lparr>vars := AList.update p (port\<lparr>port_values := q\<rparr>) (vars c)\<rparr>)"
        by (simp add: vars_set_values_def split: if_splits)
      with c that show ?thesis by (simp add: get_component_Inr)
    qed
  qed
qed

lemma set_values_Inr:
  assumes "set_values n p v m = Inr m'"
  obtains c port q where "map_of (components m) n = Some c"
    and "m' = put_component m n (c\<lparr>vars := AList.update p (port\<lparr>port_values := q\<rparr>) (vars c)\<rparr>)"
proof (cases "get_component m n")
  case (Inl e)
  with assms show ?thesis by (simp add: set_values_def)
next
  case (Inr c)
  note c = this
  show ?thesis
  proof (cases v)
    case (Inl e)
    with assms c show ?thesis by (simp add: set_values_def)
  next
    case (Inr q)
    note q = this
    show ?thesis
    proof (cases "map_of (vars c) p")
      case None
      with assms c q show ?thesis by (simp add: set_values_def)
    next
      case (Some port)
      with assms c q have
        "m' = put_component m n (c\<lparr>vars := AList.update p (port\<lparr>port_values := q\<rparr>) (vars c)\<rparr>)"
        by (simp add: set_values_def split: if_splits)
      with c that show ?thesis by (simp add: get_component_Inr)
    qed
  qed
qed

lemma set_bounds_Inr:
  assumes "set_bounds n p lb ub m = Inr m'"
  obtains c port where "map_of (components m) n = Some c"
    and "m' = put_component m n (c\<lparr>vars := AList.update p port (vars c)\<rparr>)"
proof (cases "get_component m n")
  case (Inl e)
  with assms show ?thesis by (simp add: set_bounds_def)
next
  case (Inr c)
  note c = this
  show ?thesis
  proof (cases "map_of (vars c) p")
    case None
    with assms c show ?thesis
      by (simp add: set_bounds_def split: option.splits sum.splits)
  next
    case (Some port)
    with assms c have "\<exists>port'. 
        m' = put_component m n (c\<lparr>vars := AList.update p port' (vars c)\<rparr>)"
      by (auto simp: set_bounds_def Let_def split: option.splits sum.splits if_splits)
    with c that show ?thesis by (auto simp: get_component_Inr)
  qed
qed

lemma set_conversion_factor_Inr:
  assumes "set_conversion_factor n v m = Inr m'"
  obtains c q where "map_of (components m) n = Some c"
    and "m' = put_component m n (c\<lparr>conversion_factor := q\<rparr>)"
proof (cases "get_component m n")
  case (Inl e)
  with assms show ?thesis by (simp add: set_conversion_factor_def)
next
  case (Inr c)
  with assms have "\<exists>q. m' = put_component m n (c\<lparr>conversion_factor := q\<rparr>)"
    by (auto simp: set_conversion_factor_def split: if_splits sum.splits)
  with Inr that show ?thesis by (auto simp: get_component_Inr)
qed

lemma preserves_vars_set_values:
  "t \<noteq> PortOf n p \<Longrightarrow> preserves t (vars_set_values n p v)"
  unfolding preserves_def
  by (auto elim!: vars_set_values_Inr simp: read_put_port)

lemma preserves_set_values:
  "t \<noteq> PortOf n p \<Longrightarrow> preserves t (set_values n p v)"
  unfolding preserves_def
  by (auto elim!: set_values_Inr simp: read_put_port)

lemma preserves_set_bounds:
  "t \<noteq> PortOf n p \<Longrightarrow> preserves t (set_bounds n p lb ub)"
  unfolding preserves_def
  by (auto elim!: set_bounds_Inr simp: read_put_port)

lemma preserves_set_conversion_factor:
  "t \<noteq> FactorOf n \<Longrightarrow> preserves t (set_conversion_factor n v)"
  unfolding preserves_def
  by (auto elim!: set_conversion_factor_Inr simp: read_put_factor)

lemmas preserves_rules =
  preserves_vars_set_values preserves_set_values preserves_set_bounds
  preserves_set_conversion_factor

lemma run_bindings_frame:
  "list_all (\<lambda>b. fst b \<longrightarrow> preserves t (snd b)) bs \<Longrightarrow>
     read_target (fst (run_bindings m bs)) t = read_target m t"
proof (induction bs arbitrary: m)
  case Nil
  then show ?case by simp
next
  case (Cons b bs)
  obtain present call where b: "b = (present, call)" by (cases b)
  from Cons.prems have rest: "list_all (\<lambda>b. fst b \<longrightarrow> preserves t (snd b)) bs"
    by simp
  show ?case
  proof (cases present)
    case False
    then show ?thesis using Cons.IH [OF rest] b by simp
  next
    case True
    with Cons.prems b have pr: "preserves t call" by simp
    show ?thesis
    proof (cases "call m")
      case (Inl e)
      then show ?thesis using True b by simp
    next
      case (Inr m')
      with pr have "read_target m' t = read_target m t"
        by (simp add: preserves_def)
      then show ?thesis using True b Inr Cons.IH [OF rest, of m'] by simp
    qed
  qed
qed

lemma run_bindings_skipped:
  "list_all (\<lambda>b. \<not> fst b) bs \<Longrightarrow> run_bindings m bs = (m, None)"
  by (induction bs) auto

lemma run_bindings_succeeds:
  "I m \<Longrightarrow> list_all (\<lambda>b. fst b \<longrightarrow> succeeds I (snd b)) bs \<Longrightarrow>
     snd (run_bindings m bs) = None \<and> I (fst (run_bindings m bs))"
proof (induction bs arbitrary: m)
  case Nil
  then show ?case by simp
next
  case (Cons b bs)
  obtain present call where b: "b = (present, call)" by (cases b)
  from Cons.prems have rest: "list_all (\<lambda>b. fst b \<longrightarrow> succeeds I (snd b)) bs"
    by simp
  show ?case
  proof (cases present)
    case False
    then show ?thesis using Cons.IH [OF Cons.prems(1) rest] b by simp
  next
    case True
    with Cons.prems b have "succeeds I call" by simp
    with Cons.prems(1) obtain m' where m': "call m = Inr m'" "I m'"
      by (auto simp: succeeds_def)
    then show ?thesis using True b Cons.IH [OF m'(2) rest] by simp
  qed
qed

lemma model_bis_set_data_frame:
  "list_all (\<lambda>kt. fst kt \<notin> set (columns df) \<longrightarrow>
       read_target (fst (model_bis_set_data m df)) (snd kt) = read_target m (snd kt))
     model_bis_data_bindings"
  unfolding model_bis_data_bindings_def list.pred_inject fst_conv snd_conv
  by (intro conjI impI;
      ((unfold model_bis_set_data_def, rule run_bindings_frame, simp add: preserves_rules) | simp))

lemma model_py_set_data_frame:
  "list_all (\<lambda>kt. fst kt \<notin> set (columns df) \<longrightarrow>
       read_target (fst (model_py_set_data m df)) (snd kt) = read_target m (snd kt))
     model_py_data_bindings"
  unfolding model_py_data_bindings_def list.pred_inject fst_conv snd_conv
  by (intro conjI impI;
      ((unfold model_py_set_data_def, rule run_bindings_frame, simp add: preserves_rules) | simp))

lemma model_bis_set_parameters_frame:
  "list_all (\<lambda>kt. \<not> dict_contains params (fst kt) \<longrightarrow>
       read_target (fst (model_bis_set_parameters m params)) (snd kt) = read_target m (snd kt))
     model_bis_parameter_bindings"
  unfolding model_bis_parameter_bindings_def list.pred_inject fst_conv snd_conv
  by (intro conjI impI;
      ((unfold model_bis_set_parameters_def, rule run_bindings_frame, simp add: preserves_rules) | simp))

lemma model_py_set_parameters_frame:
  "list_all (\<lambda>kt. \<not> dict_contains params (fst kt) \<longrightarrow>
       read_target (fst (model_py_set_parameters m params)) (snd kt) = read_target m (snd kt))
     model_py_parameter_bindings"
  unfolding model_py_parameter_bindings_def list.pred_inject fst_conv snd_conv
  by (intro conjI impI;
      ((unfold model_py_set_parameters_def, rule run_bindings_frame, simp add: preserves_rules) | simp))

section \<open>Bindings that are applied\<close>

lemma length_column: "length (column df c) = length (rows df)"
  by (simp add: column_def)

lemma column_numeric:
  assumes "numeric df"
  shows "CStr s \<notin> set (column df c)"
proof
  assume "CStr s \<in> set (column df c)"
  then obtain r where r: "r \<in> set (rows df)"
    and x: "(case map_of r c of None \<Rightarrow> CNaN | Some x \<Rightarrow> x) = CStr s"
    by (auto simp: column_def)
  from x have "map_of r c = Some (CStr s)" by (simp split: option.splits)
  then have "(c, CStr s) \<in> set r" by (rule map_of_SomeD)
  with assms r show False by (force simp: numeric_def list_all_iff)
qed

lemma scale_numeric:
  "(\<And>s. CStr s \<notin> set xs) \<Longrightarrow> \<exists>ys. scale k xs = Inr ys \<and> length ys = length xs"
proof (induction xs)
  case Nil
  then show ?case by simp
next
  case (Cons x xs)
  from Cons.prems have "\<And>s. CStr s \<notin> set xs" by auto
  from Cons.IH [OF this] obtain ys where ys: "scale k xs = Inr ys" "length ys = length xs"
    by blast
  show ?case
  proof (cases x)
    case (CNum r)
    with ys show ?thesis by simp
  next
    case CNaN
    with ys show ?thesis by simp
  next
    case (CStr s)
    with Cons.prems [of s] show ?thesis by simp
  qed
qed

lemma add_cell_numeric:
  "\<forall>s. x \<noteq> CStr s \<Longrightarrow> \<forall>s. y \<noteq> CStr s \<Longrightarrow> \<exists>z. add_cell x y = Inr z"
  by (cases x; cases y) simp_all

lemma add_columns_numeric:
  "length xs = length ys \<Longrightarrow> (\<And>s. CStr s \<notin> set xs) \<Longrightarrow> (\<And>s. CStr s \<notin> set ys) \<Longrightarrow>
     \<exists>zs. add_columns xs ys = Inr zs \<and> length zs = length xs"
proof (induction xs ys rule: list_induct2)
  case Nil
  then show ?case by simp
next
  case (Cons x xs y ys)
  have "\<And>s. CStr s \<notin> set xs" "\<And>s. CStr s \<notin> set ys"
    using Cons.prems by auto
  from Cons.IH [OF this] obtain zs where zs: "add_columns xs ys = Inr zs" "length zs = length xs"
    by blast
  have "\<forall>s. x \<noteq> CStr s" "\<forall>s. y \<noteq> CStr s" using Cons.prems by auto
  from add_cell_numeric [OF this] obtain z where "add_cell x y = Inr z" by blast
  with zs show ?case by simp
qed

lemma accepted_column:
  "h = None \<or> h = Some (length (rows df)) \<Longrightarrow> accepted h (Inr (Series (column df c)))"
  by (auto simp: accepted_def shape_ok_def length_column)

lemma accepted_scale:
  assumes "h = None \<or> h = Some (length (rows df))" and "numeric df"
  shows "accepted h (as_series (scale k (column df c)))"
proof -
  from scale_numeric [of "column df c" k] column_numeric [OF assms(2)]
  obtain ys where "scale k (column df c) = Inr ys" "length ys = length (column df c)"
    by blast
  with assms(1) show ?thesis
    by (auto simp: accepted_def as_series_def shape_ok_def length_column)
qed

lemma accepted_add_columns:
  assumes "h = None \<or> h = Some (length (rows df))" and "numeric df"
  shows "accepted h (as_series (add_columns (column df a) (column df b)))"
proof -
  have "length (column df a) = length (column df b)" by (simp add: length_column)
  from add_columns_numeric [OF this] column_numeric [OF assms(2)]
  obtain zs where "add_columns (column df a) (column df b) = Inr zs"
    "length zs = length (column df a)"
    by blast
  with assms(1) show ?thesis
    by (auto simp: accepted_def as_series_def shape_ok_def length_column)
qed

lemma accepted_scalar: "accepted h (Inr (Scalar v))"
  by (simp add: accepted_def shape_ok_def split: option.splits)

lemma accepted_param: "dict_contains params k \<Longrightarrow> accepted h (param params k)"
proof -
  assume "dict_contains params k"
  then obtain v where "map_of params k = Some v"
    by (auto simp: dict_contains_def dest: weak_map_of_SomeI)
  then show ?thesis by (simp add: param_def accepted_def shape_ok_def split: option.splits)
qed

lemma passed_None: "passed h None"
  by (simp add: passed_def)

lemma passed_Some: "accepted h v \<Longrightarrow> passed h (Some v)"
  by (simp add: passed_def)

lemmas accepted_rules =
  accepted_column accepted_scale accepted_add_columns accepted_scalar accepted_param
  passed_None passed_Some

lemma horizon_put_component: "horizon (put_component m n c) = horizon m"
  by (simp add: put_component_def)

lemma map_of_put_component:
  "map_of (components (put_component m n c)) n' =
     (if n' = n then Some c else map_of (components m) n')"
  by (simp add: put_component_def update_conv')

lemma ready_put:
  assumes r: "ready T h m" and c: "map_of (components m) n = Some c"
    and v: "variant c' = variant c"
    and p: "\<And>p. map_of (vars c) p \<noteq> None \<Longrightarrow> map_of (vars c') p \<noteq> None"
  shows "ready T h (put_component m n c')"
proof -
  have "(case snd kt of
           PortOf a b \<Rightarrow> read_target (put_component m n c') (PortOf a b) \<noteq> NoSuch
         | FactorOf a \<Rightarrow>
             (case map_of (components (put_component m n c')) a of
                None \<Rightarrow> False | Some d \<Rightarrow> variant d = Conversion))"
    if kt: "kt \<in> set T" for kt
  proof (cases "snd kt")
    case (PortOf n' p')
    with r kt have old: "read_target m (PortOf n' p') \<noteq> NoSuch"
      by (force simp: ready_def list_all_iff)
    show ?thesis
    proof (cases "n' = n")
      case True
      with old c have "map_of (vars c) p' \<noteq> None" by (auto split: option.splits)
      from p [OF this] show ?thesis using PortOf True
        by (auto simp: map_of_put_component split: option.splits)
    next
      case False
      with old show ?thesis using PortOf by (simp add: map_of_put_component)
    qed
  next
    case (FactorOf n')
    with r kt have old:
      "(case map_of (components m) n' of None \<Rightarrow> False | Some c \<Rightarrow> variant c = Conversion)"
      by (force simp: ready_def list_all_iff)
    show ?thesis
    proof (cases "n' = n")
      case True
      with old c v show ?thesis using FactorOf by (simp add: map_of_put_component)
    next
      case False
      with old show ?thesis using FactorOf by (simp add: map_of_put_component)
    qed
  qed
  moreover from r have "horizon m = h" by (simp add: ready_def)
  ultimately show ?thesis by (simp add: ready_def list_all_iff horizon_put_component)
qed

lemma ready_put_port:
  assumes "ready T h m" and "map_of (components m) n = Some c"
  shows "ready T h (put_component m n (c\<lparr>vars := AList.update p port (vars c)\<rparr>))"
  by (rule ready_put [OF assms]) (simp_all add: update_conv')

lemma ready_port:
  assumes "ready T h m" and "PortOf n p \<in> snd ` set T"
  obtains c port where "map_of (components m) n = Some c" and "map_of (vars c) p = Some port"
proof -
  from assms have "read_target m (PortOf n p) \<noteq> NoSuch"
    by (force simp: ready_def list_all_iff)
  then show ?thesis using that by (auto split: option.splits)
qed

lemma ready_factor:
  assumes "ready T h m" and "FactorOf n \<in> snd ` set T"
  obtains c where "map_of (components m) n = Some c" and "variant c = Conversion"
proof -
  from assms have
    "(case map_of (components m) n of None \<Rightarrow> False | Some c \<Rightarrow> variant c = Conversion)"
    by (force simp: ready_def list_all_iff)
  then show ?thesis using that by (auto split: option.splits)
qed

lemma succeeds_vars_set_values:
  assumes t: "PortOf n p \<in> snd ` set T" and v: "accepted h v"
  shows "succeeds (ready T h) (vars_set_values n p v)"
  unfolding succeeds_def
proof (intro allI impI)
  fix m assume r: "ready T h m"
  from ready_port [OF r t] obtain c port
    where c: "map_of (components m) n = Some c" and port: "map_of (vars c) p = Some port"
    by blast
  from v obtain q where q: "v = Inr q" "shape_ok h q"
    by (auto simp: accepted_def split: sum.splits)
  from r have h: "horizon m = h" by (simp add: ready_def)
  let ?m' = "put_component m n (c\<lparr>vars := AList.update p (port\<lparr>port_values := q\<rparr>) (vars c)\<rparr>)"
  have "vars_set_values n p v m = Inr ?m'"
    using c port q h by (simp add: vars_set_values_def get_component_def)
  moreover have "ready T h ?m'" by (rule ready_put_port [OF r c])
  ultimately show "\<exists>m'. vars_set_values n p v m = Inr m' \<and> ready T h m'" by blast
qed

lemma succeeds_set_values:
  assumes t: "PortOf n p \<in> snd ` set T" and v: "accepted h v"
  shows "succeeds (ready T h) (set_values n p v)"
  unfolding succeeds_def
proof (intro allI impI)
  fix m assume r: "ready T h m"
  from ready_port [OF r t] obtain c port
    where c: "map_of (components m) n = Some c" and port: "map_of (vars c) p = Some port"
    by blast
  from v obtain q where q: "v = Inr q" "shape_ok h q"
    by (auto simp: accepted_def split: sum.splits)
  from r have h: "horizon m = h" by (simp add: ready_def)
  let ?m' = "put_component m n (c\<lparr>vars := AList.update p (port\<lparr>port_values := q\<rparr>) (vars c)\<rparr>)"
  have "set_values n p v m = Inr ?m'"
    using c port q h by (simp add: set_values_def get_component_def)
  moreover have "ready T h ?m'" by (rule ready_put_port [OF r c])
  ultimately show "\<exists>m'. set_values n p v m = Inr m' \<and> ready T h m'" by blast
qed

lemma succeeds_set_bounds:
  assumes t: "PortOf n p \<in> snd ` set T" and lb: "passed h lb" and ub: "passed h ub"
  shows "succeeds (ready T h) (set_bounds n p lb ub)"
  unfolding succeeds_def
proof (intro allI impI)
  fix m assume r: "ready T h m"
  from ready_port [OF r t] obtain c port
    where c: "map_of (components m) n = Some c" and port: "map_of (vars c) p = Some port"
    by blast
  from r have h: "horizon m = h" by (simp add: ready_def)
  have "\<exists>port'. set_bounds n p lb ub m
           = Inr (put_component m n (c\<lparr>vars := AList.update p port' (vars c)\<rparr>))"
    using c port h lb ub
    by (auto simp: set_bounds_def get_component_def Let_def passed_def accepted_def bound_ok_def
        split: option.splits sum.splits)
  then obtain port' where
    "set_bounds n p lb ub m = Inr (put_component m n (c\<lparr>vars := AList.update p port' (vars c)\<rparr>))"
    by blast
  moreover have "ready T h (put_component m n (c\<lparr>vars := AList.update p port' (vars c)\<rparr>))"
    by (rule ready_put_port [OF r c])
  ultimately show "\<exists>m'. set_bounds n p lb ub m = Inr m' \<and> ready T h m'" by blast
qed

lemma succeeds_set_conversion_factor:
  assumes t: "FactorOf n \<in> snd ` set T" and v: "accepted h v"
  shows "succeeds (ready T h) (set_conversion_factor n v)"
  unfolding succeeds_def
proof (intro allI impI)
  fix m assume r: "ready T h m"
  from ready_factor [OF r t] obtain c
    where c: "map_of (components m) n = Some c" and conv: "variant c = Conversion"
    by blast
  from v obtain q where q: "v = Inr q" "shape_ok h q"
    by (auto simp: accepted_def split: sum.splits)
  from r have h: "horizon m = h" by (simp add: ready_def)
  let ?m' = "put_component m n (c\<lparr>conversion_factor := q\<rparr>)"
  have "set_conversion_factor n v m = Inr ?m'"
    using c conv q h by (simp add: set_conversion_factor_def get_component_def)
  moreover have "ready T h ?m'" by (rule ready_put [OF r c]) simp_all
  ultimately show "\<exists>m'. set_conversion_factor n v m = Inr m' \<and> ready T h m'" by blast
qed

lemmas succeeds_rules =
  succeeds_vars_set_values succeeds_set_values succeeds_set_bounds
  succeeds_set_conversion_factor

lemma model_bis_set_data_succeeds:
  assumes "ready model_bis_data_bindings h m" and "h = None \<or> h = Some (length (rows df))"
    and "numeric df"
  shows "snd (model_bis_set_data m df) = None"
  unfolding model_bis_set_data_def
  apply (rule run_bindings_succeeds [THEN conjunct1, of "ready model_bis_data_bindings h"])
   apply (rule assms(1))
  apply (simp only: list.pred_inject fst_conv snd_conv)
  apply (intro conjI impI;
      ((rule succeeds_rules; ((intro accepted_rules assms(2) assms(3))
                             | simp add: model_bis_data_bindings_def)) | simp))
  done

lemma model_py_set_data_succeeds:
  assumes "ready model_py_data_bindings h m" and "h = None \<or> h = Some (length (rows df))"
  shows "snd (model_py_set_data m df) = None"
  unfolding model_py_set_data_def
  apply (rule run_bindings_succeeds [THEN conjunct1, of "ready model_py_data_bindings h"])
   apply (rule assms(1))
  apply (simp only: list.pred_inject fst_conv snd_conv)
  apply (intro conjI impI;
      ((rule succeeds_rules; ((intro accepted_rules assms(2))
                             | simp add: model_py_data_bindings_def)) | simp))
  done

lemma model_bis_set_parameters_succeeds:
  assumes "ready model_bis_parameter_bindings h m"
  shows "snd (model_bis_set_parameters m params) = None"
  unfolding model_bis_set_parameters_def
  apply (rule run_bindings_succeeds [THEN conjunct1, of "ready model_bis_parameter_bindings h"])
   apply (rule assms(1))
  apply (simp only: list.pred_inject fst_conv snd_conv)
  apply (intro conjI impI;
      ((rule succeeds_rules; ((intro accepted_rules; assumption)
                             | simp add: model_bis_parameter_bindings_def)) | simp))
  done

lemma model_py_set_parameters_succeeds:
  assumes "ready model_py_parameter_bindings h m"
  shows "snd (model_py_set_parameters m params) = None"
  unfolding model_py_set_parameters_def
  apply (rule run_bindings_succeeds [THEN conjunct1, of "ready model_py_parameter_bindings h"])
   apply (rule assms(1))
  apply (simp only: list.pred_inject fst_conv snd_conv)
  apply (intro conjI impI;
      ((rule succeeds_rules; ((intro accepted_rules; assumption)
                             | simp add: model_py_parameter_bindings_def)) | simp))
  done

lemma model_bis_m_ready:
  "ready model_bis_data_bindings None model_bis_m"
  "ready model_bis_parameter_bindings None model_bis_m"
  by code_simp+

lemma model_py_m_ready:
  "ready model_py_data_bindings None model_py_m"
  "ready model_py_parameter_bindings None model_py_m"
  by code_simp+

text \<open>
  C4, as stated, fails in its "raises no error" part: a table that lacks the column
  \<^verbatim>\<open>heat_demand\<close> can still make \<^verbatim>\<open>set_data\<close> raise, through a column that is
  present. In \<^verbatim>\<open>core/model_bis.py\<close> the binding of \<^verbatim>\<open>gas_price\<close> evaluates
  \<^verbatim>\<open>df["gas_price"] * 0.0001\<close>, which is a TypeError on a column of text; the
  prices of \<^verbatim>\<open>Gas offtake\<close> have been set by then, and the \<^verbatim>\<open>demand\<close> port of
  \<^verbatim>\<open>heat_demand\<close> is as it was.
\<close>

theorem set_data_raises_counterexample:
  "''heat_demand'' \<notin> set (columns text_table) \<and>
   snd (model_bis_set_data model_bis_m text_table) = Some TypeError \<and>
   read_target (fst (model_bis_set_data model_bis_m text_table)) (PortOf ''Gas offtake'' ''prices'')
     = APort \<lparr>lower_bound = Unset, upper_bound = Unset,
         port_values = Series [CStr ''n/a'', CStr ''n/a'']\<rparr> \<and>
   read_target (fst (model_bis_set_data model_bis_m text_table)) (PortOf ''heat_demand'' ''demand'')
     = read_target model_bis_m (PortOf ''heat_demand'' ''demand'')"
  by code_simp

text \<open>
  C4, amended. A table without the column \<^verbatim>\<open>heat_demand\<close> leaves the \<^verbatim>\<open>demand\<close>
  port of the component \<^verbatim>\<open>heat_demand\<close> as it was, in both model files and on every
  model, whether or not the call raises. More generally, for each of the four callbacks
  of \<^verbatim>\<open>core/model.py\<close> and \<^verbatim>\<open>core/model_bis.py\<close> and each of its keys, a call without
  that key leaves what the key's binding writes as it was. The absence itself raises
  nothing, and the call returns normally under these conditions: on the model that
  \<^verbatim>\<open>core/model_bis.py\<close> assembles, \<^verbatim>\<open>set_data\<close> for every table whose cells are
  numbers or NaN and \<^verbatim>\<open>set_parameters\<close> for every mapping; on the model of
  \<^verbatim>\<open>core/model.py\<close>, both on every input; and on every model that has the ports the
  callback writes, when moreover the table is as long as the model's horizon, if it has
  one.
\<close>

theorem set_data_skips_absent_columns:
  "(''heat_demand'' \<notin> set (columns df) \<longrightarrow>
      read_target (fst (model_bis_set_data m df)) (PortOf ''heat_demand'' ''demand'')
        = read_target m (PortOf ''heat_demand'' ''demand'') \<and>
      read_target (fst (model_py_set_data m df)) (PortOf ''heat_demand'' ''demand'')
        = read_target m (PortOf ''heat_demand'' ''demand'')) \<and>
   (numeric df \<longrightarrow> snd (model_bis_set_data model_bis_m df) = None) \<and>
   snd (model_py_set_data model_py_m df) = None \<and>
   snd (model_bis_set_parameters model_bis_m params) = None \<and>
   snd (model_py_set_parameters model_py_m params) = None \<and>
   (ready model_bis_data_bindings h mb \<and> (h = None \<or> h = Some (length (rows df))) \<and> numeric df
      \<longrightarrow> snd (model_bis_set_data mb df) = None) \<and>
   (ready model_py_data_bindings h mp \<and> (h = None \<or> h = Some (length (rows df)))
      \<longrightarrow> snd (model_py_set_data mp df) = None) \<and>
   (ready model_bis_parameter_bindings h mb \<longrightarrow> snd (model_bis_set_parameters mb params) = None) \<and>
   (ready model_py_parameter_bindings h mp \<longrightarrow> snd (model_py_set_parameters mp params) = None) \<and>
   (\<forall>kt \<in> set model_bis_data_bindings. fst kt \<notin> set (columns df) \<longrightarrow>
      read_target (fst (model_bis_set_data m df)) (snd kt) = read_target m (snd kt)) \<and>
   (\<forall>kt \<in> set model_py_data_bindings. fst kt \<notin> set (columns df) \<longrightarrow>
      read_target (fst (model_py_set_data m df)) (snd kt) = read_target m (snd kt)) \<and>
   (\<forall>kt \<in> set model_bis_parameter_bindings. \<not> dict_contains params (fst kt) \<longrightarrow>
      read_target (fst (model_bis_set_parameters m params)) (snd kt) = read_target m (snd kt)) \<and>
   (\<forall>kt \<in> set model_py_parameter_bindings. \<not> dict_contains params (fst kt) \<longrightarrow>
      read_target (fst (model_py_set_parameters m params)) (snd kt) = read_target m (snd kt))"
proof -
  let ?hd = "(''heat_demand'', PortOf ''heat_demand'' ''demand'')"
  have bd: "\<forall>kt \<in> set model_bis_data_bindings. fst kt \<notin> set (columns df) \<longrightarrow>
      read_target (fst (model_bis_set_data m df)) (snd kt) = read_target m (snd kt)"
    using model_bis_set_data_frame [of df m] by (simp only: list_all_iff)
  have pd: "\<forall>kt \<in> set model_py_data_bindings. fst kt \<notin> set (columns df) \<longrightarrow>
      read_target (fst (model_py_set_data m df)) (snd kt) = read_target m (snd kt)"
    using model_py_set_data_frame [of df m] by (simp only: list_all_iff)
  have bp: "\<forall>kt \<in> set model_bis_parameter_bindings. \<not> dict_contains params (fst kt) \<longrightarrow>
      read_target (fst (model_bis_set_parameters m params)) (snd kt) = read_target m (snd kt)"
    using model_bis_set_parameters_frame [of params m] by (simp only: list_all_iff)
  have pp: "\<forall>kt \<in> set model_py_parameter_bindings. \<not> dict_contains params (fst kt) \<longrightarrow>
      read_target (fst (model_py_set_parameters m params)) (snd kt) = read_target m (snd kt)"
    using model_py_set_parameters_frame [of params m] by (simp only: list_all_iff)
  have hb: "?hd \<in> set model_bis_data_bindings"
    by (simp add: model_bis_data_bindings_def)
  have hp: "?hd \<in> set model_py_data_bindings"
    by (simp add: model_py_data_bindings_def)
  have heat: "''heat_demand'' \<notin> set (columns df) \<longrightarrow>
      read_target (fst (model_bis_set_data m df)) (PortOf ''heat_demand'' ''demand'')
        = read_target m (PortOf ''heat_demand'' ''demand'') \<and>
      read_target (fst (model_py_set_data m df)) (PortOf ''heat_demand'' ''demand'')
        = read_target m (PortOf ''heat_demand'' ''demand'')"
    using bspec [OF bd hb] bspec [OF pd hp] by simp
  have b1: "numeric df \<longrightarrow> snd (model_bis_set_data model_bis_m df) = None"
    using model_bis_set_data_succeeds [OF model_bis_m_ready(1), of df] by simp
  have p1: "snd (model_py_set_data model_py_m df) = None"
    using model_py_set_data_succeeds [OF model_py_m_ready(1), of df] by simp
  have b2: "snd (model_bis_set_parameters model_bis_m params) = None"
    by (rule model_bis_set_parameters_succeeds [OF model_bis_m_ready(2)])
  have p2: "snd (model_py_set_parameters model_py_m params) = None"
    by (rule model_py_set_parameters_succeeds [OF model_py_m_ready(2)])
  have b3: "ready model_bis_data_bindings h mb \<and> (h = None \<or> h = Some (length (rows df))) \<and>
      numeric df \<longrightarrow> snd (model_bis_set_data mb df) = None"
    using model_bis_set_data_succeeds [of h mb df] by blast
  have p3: "ready model_py_data_bindings h mp \<and> (h = None \<or> h = Some (length (rows df)))
      \<longrightarrow> snd (model_py_set_data mp df) = None"
    using model_py_set_data_succeeds [of h mp df] by blast
  have b4: "ready model_bis_parameter_bindings h mb \<longrightarrow>
      snd (model_bis_set_parameters mb params) = None"
    using model_bis_set_parameters_succeeds [of h mb params] by blast
  have p4: "ready model_py_parameter_bindings h mp \<longrightarrow>
      snd (model_py_set_parameters mp params) = None"
    using model_py_set_parameters_succeeds [of h mp params] by blast
  from heat b1 p1 b2 p2 b3 p3 b4 p4 bd pd bp pp show ?thesis
    by (intro conjI)
qed

theorem set_data_skips_absent_columns_witness:
  "''heat_demand'' \<notin> set (columns example_data) \<and> numeric example_data \<and>
   ready model_bis_data_bindings None model_bis_m \<and>
   ready model_py_data_bindings None model_py_m \<and>
   ready model_bis_parameter_bindings None model_bis_m \<and>
   ready model_py_parameter_bindings None model_py_m \<and>
   length (rows example_data) = 2 \<and>
   (''co2_price'', PortOf ''CO2 allowance'' ''prices'') \<in> set model_bis_data_bindings \<and>
   ''co2_price'' \<notin> set (columns example_data) \<and>
   (''hrsg_capacity'', PortOf ''hrsg'' ''output'') \<in> set model_py_data_bindings \<and>
   ''hrsg_capacity'' \<notin> set (columns example_data) \<and>
   (''e_boiler_capacity'', PortOf ''e_boiler'' ''output'') \<in> set model_bis_parameter_bindings \<and>
   (''e_boiler_efficiency'', FactorOf ''e_boiler'') \<in> set model_py_parameter_bindings \<and>
   \<not> dict_contains example_parameters ''e_boiler_capacity'' \<and>
   \<not> dict_contains example_parameters ''e_boiler_efficiency'' \<and>
   read_target (fst (model_bis_set_data model_bis_m example_data)) (PortOf ''heat_demand'' ''demand'')
     = read_target model_bis_m (PortOf ''heat_demand'' ''demand'') \<and>
   read_target (fst (model_py_set_data model_bis_m example_data)) (PortOf ''heat_demand'' ''demand'')
     = read_target model_bis_m (PortOf ''heat_demand'' ''demand'') \<and>
   snd (model_bis_set_data model_bis_m example_data) = None \<and>
   snd (model_py_set_data model_py_m example_data) = None \<and>
   snd (model_bis_set_parameters model_bis_m example_parameters) = None \<and>
   snd (model_py_set_parameters model_py_m example_parameters) = None \<and>
   read_target (fst (model_bis_set_data model_bis_m example_data)) (PortOf ''CO2 allowance'' ''prices'')
     = read_target model_bis_m (PortOf ''CO2 allowance'' ''prices'') \<and>
   read_target (fst (model_py_set_data model_bis_m example_data)) (PortOf ''hrsg'' ''output'')
     = read_target model_bis_m (PortOf ''hrsg'' ''output'') \<and>
   read_target (fst (model_bis_set_parameters model_bis_m example_parameters))
       (PortOf ''e_boiler'' ''output'')
     = read_target model_bis_m (PortOf ''e_boiler'' ''output'') \<and>
   read_target (fst (model_py_set_parameters model_bis_m example_parameters)) (FactorOf ''e_boiler'')
     = read_target model_bis_m (FactorOf ''e_boiler'') \<and>
   read_target (fst (model_bis_set_data model_bis_m example_data)) (PortOf ''Gas offtake'' ''prices'')
     = APort \<lparr>lower_bound = Unset, upper_bound = Unset,
         port_values = Series [CNum 30, CNum 31]\<rparr>"
proof -
  have hd: "''heat_demand'' \<notin> set (columns example_data)" by code_simp
  have nu: "numeric example_data" by code_simp
  have r1: "ready model_bis_data_bindings None model_bis_m" by (rule model_bis_m_ready(1))
  have r2: "ready model_py_data_bindings None model_py_m" by (rule model_py_m_ready(1))
  have r3: "ready model_bis_parameter_bindings None model_bis_m" by (rule model_bis_m_ready(2))
  have r4: "ready model_py_parameter_bindings None model_py_m" by (rule model_py_m_ready(2))
  have ln: "length (rows example_data) = 2" by code_simp
  have k1: "(''co2_price'', PortOf ''CO2 allowance'' ''prices'') \<in> set model_bis_data_bindings"
    by code_simp
  have a1: "''co2_price'' \<notin> set (columns example_data)" by code_simp
  have k2: "(''hrsg_capacity'', PortOf ''hrsg'' ''output'') \<in> set model_py_data_bindings"
    by code_simp
  have a2: "''hrsg_capacity'' \<notin> set (columns example_data)" by code_simp
  have k3: "(''e_boiler_capacity'', PortOf ''e_boiler'' ''output'')
      \<in> set model_bis_parameter_bindings"
    by code_simp
  have k4: "(''e_boiler_efficiency'', FactorOf ''e_boiler'') \<in> set model_py_parameter_bindings"
    by code_simp
  have a3: "\<not> dict_contains example_parameters ''e_boiler_capacity''" by code_simp
  have a4: "\<not> dict_contains example_parameters ''e_boiler_efficiency''" by code_simp
  note T = set_data_skips_absent_columns [where df = example_data and m = model_bis_m
      and h = None and mb = model_bis_m and mp = model_py_m and params = example_parameters]
  from T hd have c1:
    "read_target (fst (model_bis_set_data model_bis_m example_data)) (PortOf ''heat_demand'' ''demand'')
       = read_target model_bis_m (PortOf ''heat_demand'' ''demand'')"
    "read_target (fst (model_py_set_data model_bis_m example_data)) (PortOf ''heat_demand'' ''demand'')
       = read_target model_bis_m (PortOf ''heat_demand'' ''demand'')"
    by blast+
  from T r1 nu have c2: "snd (model_bis_set_data model_bis_m example_data) = None" by blast
  from T r2 have c3: "snd (model_py_set_data model_py_m example_data) = None" by blast
  from T r3 have c4: "snd (model_bis_set_parameters model_bis_m example_parameters) = None"
    by blast
  from T r4 have c5: "snd (model_py_set_parameters model_py_m example_parameters) = None"
    by blast
  from T have f1: "\<forall>kt \<in> set model_bis_data_bindings. fst kt \<notin> set (columns example_data) \<longrightarrow>
      read_target (fst (model_bis_set_data model_bis_m example_data)) (snd kt)
        = read_target model_bis_m (snd kt)"
    by blast
  from T have f2: "\<forall>kt \<in> set model_py_data_bindings. fst kt \<notin> set (columns example_data) \<longrightarrow>
      read_target (fst (model_py_set_data model_bis_m example_data)) (snd kt)
        = read_target model_bis_m (snd kt)"
    by blast
  from T have f3: "\<forall>kt \<in> set model_bis_parameter_bindings.
      \<not> dict_contains example_parameters (fst kt) \<longrightarrow>
      read_target (fst (model_bis_set_parameters model_bis_m example_parameters)) (snd kt)
        = read_target model_bis_m (snd kt)"
    by blast
  from T have f4: "\<forall>kt \<in> set model_py_parameter_bindings.
      \<not> dict_contains example_parameters (fst kt) \<longrightarrow>
      read_target (fst (model_py_set_parameters model_bis_m example_parameters)) (snd kt)
        = read_target model_bis_m (snd kt)"
    by blast
  from bspec [OF f1 k1] a1 have g1:
    "read_target (fst (model_bis_set_data model_bis_m example_data)) (PortOf ''CO2 allowance'' ''prices'')
       = read_target model_bis_m (PortOf ''CO2 allowance'' ''prices'')"
    by simp
  from bspec [OF f2 k2] a2 have g2:
    "read_target (fst (model_py_set_data model_bis_m example_data)) (PortOf ''hrsg'' ''output'')
       = read_target model_bis_m (PortOf ''hrsg'' ''output'')"
    by simp
  from bspec [OF f3 k3] a3 have g3:
    "read_target (fst (model_bis_set_parameters model_bis_m example_parameters))
         (PortOf ''e_boiler'' ''output'')
       = read_target model_bis_m (PortOf ''e_boiler'' ''output'')"
    by simp
  from bspec [OF f4 k4] a4 have g4:
    "read_target (fst (model_py_set_parameters model_bis_m example_parameters)) (FactorOf ''e_boiler'')
       = read_target model_bis_m (FactorOf ''e_boiler'')"
    by simp
  have ap: "read_target (fst (model_bis_set_data model_bis_m example_data))
        (PortOf ''Gas offtake'' ''prices'')
      = APort \<lparr>lower_bound = Unset, upper_bound = Unset,
          port_values = Series [CNum 30, CNum 31]\<rparr>"
    by code_simp
  from hd nu r1 r2 r3 r4 ln k1 a1 k2 a2 k3 k4 a3 a4 c1 c2 c3 c4 c5 g1 g2 g3 g4 ap
  show ?thesis by (intro conjI)
qed

end
